theory Spec2Isabelle
  imports Main "HOL-Library.Word"
begin

section \<open>The GPIO conformance-test driver (apps/greybus/gpiotest/gpiotest.c)\<close>

text \<open>
  The driver runs one numbered test case against a GPIO controller.  Every test case is a
  C function that calls the line-control library (commsteps.h), stores each call's return
  code in the local variable \<^verbatim>\<open>ret\<close>, reports intermediate and final results through
  libfwtest, and finally deactivates the lines it used.  The embedding keeps the C
  functions' names and statement order.  The line-control library is not part of the
  source tree: it is a parameter of every definition below.
\<close>

subsection \<open>C library functions on strings\<close>

text \<open>
  A C string is modelled by a \<^typ>\<open>string\<close>; the end of the list, or a NUL character
  inside it, terminates the string.  \<^verbatim>\<open>strcmp\<close> compares bytes as unsigned characters;
  the C standard fixes only the sign of a non-zero result, the difference of the two bytes
  is what the common implementations return.
\<close>

definition byte_at :: "string \<Rightarrow> int" where
  "byte_at s = (case s of [] \<Rightarrow> 0 | c # _ \<Rightarrow> of_char c)"

fun strlen :: "string \<Rightarrow> nat" where
  "strlen [] = 0"
| "strlen (c # cs) = (if c = CHR 0x00 then 0 else Suc (strlen cs))"

fun strcmp :: "string \<Rightarrow> string \<Rightarrow> int" where
  "strcmp [] bs = - byte_at bs"
| "strcmp (a # as) [] = of_char a"
| "strcmp (a # as) (b # bs) =
     (if a \<noteq> b then of_char a - of_char b
      else if a = CHR 0x00 then 0
      else strcmp as bs)"

definition tolower :: "int \<Rightarrow> int" where
  "tolower c = (if 65 \<le> c \<and> c \<le> 90 then c + 32 else c)"

fun strncasecmp :: "string \<Rightarrow> string \<Rightarrow> nat \<Rightarrow> int" where
  "strncasecmp s1 s2 0 = 0"
| "strncasecmp s1 s2 (Suc n) =
     (let c1 = tolower (byte_at s1); c2 = tolower (byte_at s2)
      in if c1 \<noteq> c2 then c1 - c2
         else if c1 = 0 then 0
         else strncasecmp (tl s1) (tl s2) n)"

text \<open>
  \<^verbatim>\<open>atoi\<close>: optional white space, an optional sign, then decimal digits.  \<open>atoi\<close> is
  the number the text denotes, an \<^typ>\<open>int\<close>.  The C function returns it only when it
  fits a C \<^verbatim>\<open>int\<close> (32 bits); for a text whose value does not fit, the C standard
  leaves the behaviour undefined and the implementations differ.  \<open>atoi_defined\<close> tells
  the two apart, and the command-line parser below consults it for every number it
  converts.
\<close>

definition isspace :: "char \<Rightarrow> bool" where
  "isspace c = (c \<in> set [CHR '' '', CHR 0x09, CHR 0x0A, CHR 0x0B, CHR 0x0C, CHR 0x0D])"

definition isdigit :: "char \<Rightarrow> bool" where
  "isdigit c = (48 \<le> (of_char c :: nat) \<and> (of_char c :: nat) \<le> 57)"

fun digits_value :: "int \<Rightarrow> string \<Rightarrow> int" where
  "digits_value acc [] = acc"
| "digits_value acc (c # cs) =
     (if isdigit c then digits_value (10 * acc + (of_char c - 48)) cs else acc)"

definition atoi :: "string \<Rightarrow> int" where
  "atoi s =
     (case dropWhile isspace s of
        [] \<Rightarrow> 0
      | c # cs \<Rightarrow>
          if c = CHR ''-'' then - digits_value 0 cs
          else if c = CHR ''+'' then digits_value 0 cs
          else digits_value 0 (c # cs))"

definition atoi_defined :: "string \<Rightarrow> bool" where
  "atoi_defined s = (- 2147483648 \<le> atoi s \<and> atoi s \<le> 2147483647)"

text \<open>The decimal text that \<^verbatim>\<open>%d\<close> prints for a non-negative number.\<close>

fun decimal :: "nat \<Rightarrow> string" where
  "decimal n =
     (if n < 10 then [char_of (48 + n)]
      else decimal (n div 10) @ [char_of (48 + n mod 10)])"

declare decimal.simps [simp del]

subsection \<open>Data model\<close>

text \<open>\<^verbatim>\<open>struct gpio_app_info\<close>: five unsigned 16-bit fields and the addressing tag.\<close>

record gpio_app_info =
  case_id :: "16 word"
  base_pin :: "16 word"
  max_count :: "16 word"
  gpio_pin1 :: "16 word"
  gpio_pin2 :: "16 word"
  gpio_pin3 :: "16 word"
  num_type :: string

definition EINVAL :: int where
  "EINVAL = 22"

text \<open>
  \<^verbatim>\<open>info->base_pin + info->gpio_pinN\<close> (and \<^verbatim>\<open>info->base_pin + i\<close> in the all-lines
  loops): both operands are promoted to \<^verbatim>\<open>int\<close>, so the sum of two 16-bit values does
  not wrap.
\<close>

definition line :: "16 word \<Rightarrow> 16 word \<Rightarrow> nat" where
  "line b p = unat b + unat p"

text \<open>
  The condition \<^verbatim>\<open>!(strncasecmp(info->num_type, t, strlen(t) + 1))\<close> that selects an
  addressing branch.
\<close>

definition num_type_is :: "gpio_app_info \<Rightarrow> string \<Rightarrow> bool" where
  "num_type_is info t = (strncasecmp (num_type info) t (strlen t + 1) = 0)"

subsection \<open>The line-control library and the reporting functions\<close>

text \<open>
  The calls of commsteps.h that the test cases make, with their arguments: the case
  identifier, the absolute line number(s), for a write the text in the buffer, and the
  buffer size.
\<close>

datatype lib_call =
    GetGreybusGpioCount nat nat
  | ActivateGpioPin "16 word" nat
  | ActivateGpioMultiplePin "16 word" nat nat nat
  | DeactivateGpioPin "16 word" nat
  | DeactivateGpioMultiplePin "16 word" nat nat nat
  | GetGpioDirection "16 word" nat nat
  | SetGpioDirection "16 word" nat string nat
  | GetGpioValue "16 word" nat nat
  | SetGpioValue "16 word" nat string nat
  | GetGpioEdge "16 word" nat nat
  | SetGpioEdge "16 word" nat string nat

text \<open>
  The library is a parameter: a function from a call and the state of the device to the
  call's return code, the text it leaves in the caller's buffer, and the next state of the
  device.  Nothing is assumed about it.  The read and the write functions alike get the
  buffer as a \<^verbatim>\<open>char *\<close>, so both may change it; the activate and deactivate functions
  get no buffer and the text is ignored for them.  Return codes are C \<^verbatim>\<open>int\<close>s that the
  program only stores, tests against 0 and passes on; they are modelled by \<^typ>\<open>int\<close>.
\<close>

type_synonym 'd gpio_lib = "lib_call \<Rightarrow> 'd \<Rightarrow> (int \<times> string) \<times> 'd"

text \<open>
  What a run does is recorded as a trace: every library call with its return code and
  returned text, every \<^verbatim>\<open>strcmp\<close> of a read-back text against the expected literal, and
  every call of the reporting functions of libfwtest.
\<close>

datatype event =
    LibCall lib_call int string
  | Strcmp string string
  | CheckStepResult "16 word" int
  | PrintTestResult "16 word" int
  | PrintLog "16 word" string
  | PrintUsage
  | CheckGreybusGpio int int int

type_synonym 'd world = "'d \<times> event list"

text \<open>
  The state of a test-case function while it runs: its locals \<^verbatim>\<open>ret\<close> and \<^verbatim>\<open>buf\<close>,
  the device and the trace.  \<^verbatim>\<open>buf\<close> is uninitialised in C; no test case reads it
  before a \<^verbatim>\<open>strcpy\<close> or a read call has filled it.
\<close>

record 'd frame =
  ret :: int
  buf :: string
  dev :: 'd
  trace :: "event list"

definition enter :: "'d world \<Rightarrow> 'd frame" where
  "enter w = \<lparr>ret = 0, buf = [], dev = fst w, trace = snd w\<rparr>"

definition leave :: "'d frame \<Rightarrow> int \<times> 'd world" where
  "leave s = (ret s, (dev s, trace s))"

text \<open>A statement \<^verbatim>\<open>ret = f(...)\<close> for a library function that gets no buffer.\<close>

definition call_ret :: "'d gpio_lib \<Rightarrow> lib_call \<Rightarrow> 'd frame \<Rightarrow> 'd frame" where
  "call_ret lib c s =
     (let ((rc, txt), d) = lib c (dev s)
      in s\<lparr>ret := rc, dev := d, trace := trace s @ [LibCall c rc txt]\<rparr>)"

text \<open>
  A statement \<^verbatim>\<open>ret = f(..., buf, sizeof(buf))\<close>: the call leaves its text in \<^verbatim>\<open>buf\<close>.
  For a write function the call itself carries the text that \<^verbatim>\<open>buf\<close> held.
\<close>

definition call_buf :: "'d gpio_lib \<Rightarrow> lib_call \<Rightarrow> 'd frame \<Rightarrow> 'd frame" where
  "call_buf lib c s =
     (let ((rc, txt), d) = lib c (dev s)
      in s\<lparr>ret := rc, buf := txt, dev := d, trace := trace s @ [LibCall c rc txt]\<rparr>)"

definition activate_gpio_pin :: "'d gpio_lib \<Rightarrow> 16 word \<Rightarrow> nat \<Rightarrow> 'd frame \<Rightarrow> 'd frame" where
  "activate_gpio_pin lib cid pin = call_ret lib (ActivateGpioPin cid pin)"

definition activate_gpio_multiple_pin ::
  "'d gpio_lib \<Rightarrow> 16 word \<Rightarrow> nat \<Rightarrow> nat \<Rightarrow> nat \<Rightarrow> 'd frame \<Rightarrow> 'd frame" where
  "activate_gpio_multiple_pin lib cid p1 p2 p3 = call_ret lib (ActivateGpioMultiplePin cid p1 p2 p3)"

definition deactivate_gpio_pin :: "'d gpio_lib \<Rightarrow> 16 word \<Rightarrow> nat \<Rightarrow> 'd frame \<Rightarrow> 'd frame" where
  "deactivate_gpio_pin lib cid pin = call_ret lib (DeactivateGpioPin cid pin)"

definition deactivate_gpio_multiple_pin ::
  "'d gpio_lib \<Rightarrow> 16 word \<Rightarrow> nat \<Rightarrow> nat \<Rightarrow> nat \<Rightarrow> 'd frame \<Rightarrow> 'd frame" where
  "deactivate_gpio_multiple_pin lib cid p1 p2 p3 =
     call_ret lib (DeactivateGpioMultiplePin cid p1 p2 p3)"

definition get_gpio_direction :: "'d gpio_lib \<Rightarrow> 16 word \<Rightarrow> nat \<Rightarrow> nat \<Rightarrow> 'd frame \<Rightarrow> 'd frame" where
  "get_gpio_direction lib cid pin sz = call_buf lib (GetGpioDirection cid pin sz)"

definition set_gpio_direction :: "'d gpio_lib \<Rightarrow> 16 word \<Rightarrow> nat \<Rightarrow> nat \<Rightarrow> 'd frame \<Rightarrow> 'd frame" where
  "set_gpio_direction lib cid pin sz s = call_buf lib (SetGpioDirection cid pin (buf s) sz) s"

definition get_gpio_value :: "'d gpio_lib \<Rightarrow> 16 word \<Rightarrow> nat \<Rightarrow> nat \<Rightarrow> 'd frame \<Rightarrow> 'd frame" where
  "get_gpio_value lib cid pin sz = call_buf lib (GetGpioValue cid pin sz)"

definition set_gpio_value :: "'d gpio_lib \<Rightarrow> 16 word \<Rightarrow> nat \<Rightarrow> nat \<Rightarrow> 'd frame \<Rightarrow> 'd frame" where
  "set_gpio_value lib cid pin sz s = call_buf lib (SetGpioValue cid pin (buf s) sz) s"

definition get_gpio_edge :: "'d gpio_lib \<Rightarrow> 16 word \<Rightarrow> nat \<Rightarrow> nat \<Rightarrow> 'd frame \<Rightarrow> 'd frame" where
  "get_gpio_edge lib cid pin sz = call_buf lib (GetGpioEdge cid pin sz)"

definition set_gpio_edge :: "'d gpio_lib \<Rightarrow> 16 word \<Rightarrow> nat \<Rightarrow> nat \<Rightarrow> 'd frame \<Rightarrow> 'd frame" where
  "set_gpio_edge lib cid pin sz s = call_buf lib (SetGpioEdge cid pin (buf s) sz) s"

definition get_greybus_gpio_count :: "'d gpio_lib \<Rightarrow> nat \<Rightarrow> nat \<Rightarrow> 'd frame \<Rightarrow> 'd frame" where
  "get_greybus_gpio_count lib base sz = call_buf lib (GetGreybusGpioCount base sz)"

text \<open>\<^verbatim>\<open>strcpy(buf, text)\<close>.\<close>

definition strcpy_buf :: "string \<Rightarrow> 'd frame \<Rightarrow> 'd frame" where
  "strcpy_buf txt s = s\<lparr>buf := txt\<rparr>"

text \<open>\<^verbatim>\<open>ret = strcmp(buf, expected)\<close>.\<close>

definition strcmp_buf :: "string \<Rightarrow> 'd frame \<Rightarrow> 'd frame" where
  "strcmp_buf expected s =
     s\<lparr>ret := strcmp (buf s) expected, trace := trace s @ [Strcmp (buf s) expected]\<rparr>"

text \<open>
  \<^verbatim>\<open>if (!ret) { ... }\<close>: the body runs only when the last call returned 0.
\<close>

definition if_not_ret :: "('d frame \<Rightarrow> 'd frame) \<Rightarrow> 'd frame \<Rightarrow> 'd frame" where
  "if_not_ret body s = (if ret s = 0 then body s else s)"

text \<open>
  Modelled from the spec: libfwtest's \<^verbatim>\<open>check_step_result\<close>, \<^verbatim>\<open>print_test_result\<close> and
  \<^verbatim>\<open>print_log\<close> are declared in libfwtest.h, which is not in the source tree.  They take
  their arguments by value and return nothing; by the spec a failed step is only reported
  and the test case goes on, so each of them is an entry in the trace.  Every call in the
  source has the form \<^verbatim>\<open>check_step_result(info->case_id, ret)\<close>, respectively
  \<^verbatim>\<open>print_test_result(info->case_id, ret)\<close>: the value reported is the local \<^verbatim>\<open>ret\<close>.
\<close>

definition check_step_result :: "16 word \<Rightarrow> 'd frame \<Rightarrow> 'd frame" where
  "check_step_result cid s = s\<lparr>trace := trace s @ [CheckStepResult cid (ret s)]\<rparr>"

definition print_test_result :: "16 word \<Rightarrow> 'd frame \<Rightarrow> 'd frame" where
  "print_test_result cid s = s\<lparr>trace := trace s @ [PrintTestResult cid (ret s)]\<rparr>"

definition print_log :: "16 word \<Rightarrow> string \<Rightarrow> 'd frame \<Rightarrow> 'd frame" where
  "print_log cid msg s = s\<lparr>trace := trace s @ [PrintLog cid msg]\<rparr>"

text \<open>\<^verbatim>\<open>for (i = 0; i < n; i++) body\<close>, started at \<open>i\<close>.\<close>

function for_loop :: "nat \<Rightarrow> nat \<Rightarrow> (nat \<Rightarrow> 'a \<Rightarrow> 'a) \<Rightarrow> 'a \<Rightarrow> 'a" where
  "for_loop i n body s = (if i < n then for_loop (Suc i) n body (body i s) else s)"
  by pat_completeness auto
termination
  by (relation "measure (\<lambda>(i, n, body, s). n - i)") auto

declare for_loop.simps [simp del]

subsection \<open>The test cases\<close>

text \<open>
  A test case takes the library, the parsed arguments and the world, and returns its
  \<^verbatim>\<open>return\<close> value with the world it leaves.  Each starts with \<^verbatim>\<open>ret = 0\<close>.
\<close>

type_synonym 'd test_case = "'d gpio_lib \<Rightarrow> gpio_app_info \<Rightarrow> 'd world \<Rightarrow> int \<times> 'd world"

text \<open>
  ARA-263: read the line count.  The count is stored in \<^verbatim>\<open>info->max_count\<close>, which
  nothing reads after the test case has returned, and printed in the log line.  The text
  is read into \<^verbatim>\<open>char countbuf[4]\<close>: what fits there has at most three characters, so
  its value fits an \<^verbatim>\<open>int\<close>.
\<close>

definition ARA_263_get_count :: "'d test_case" where
  "ARA_263_get_count lib info w =
     (let s = enter w;
          s = get_greybus_gpio_count lib (unat (base_pin info)) 4 s;
          info = info\<lparr>max_count := word_of_int (atoi (buf s))\<rparr>;
          gpiostr = ''GPIO count: '' @ decimal (unat (max_count info));
          s = print_log (case_id info) gpiostr s;
          s = print_test_result (case_id info) s
      in leave s)"

text \<open>ARA-264: generate multiple GPIO activate requests.\<close>

definition ARA_264_multiple_activate :: "'d test_case" where
  "ARA_264_multiple_activate lib info w =
     (let s = enter w;
          s = (if num_type_is info ''m'' then
                 activate_gpio_multiple_pin lib (case_id info)
                   (line (base_pin info) (gpio_pin1 info))
                   (line (base_pin info) (gpio_pin2 info))
                   (line (base_pin info) (gpio_pin3 info)) s
               else if num_type_is info ''s'' then
                 activate_gpio_pin lib (case_id info) (line (base_pin info) (gpio_pin1 info)) s
               else s\<lparr>ret := - EINVAL\<rparr>);
          s = print_test_result (case_id info) s;
          s = (if num_type_is info ''m'' then
                 deactivate_gpio_multiple_pin lib (case_id info)
                   (line (base_pin info) (gpio_pin1 info))
                   (line (base_pin info) (gpio_pin2 info))
                   (line (base_pin info) (gpio_pin3 info)) s
               else if num_type_is info ''s'' then
                 deactivate_gpio_pin lib (case_id info) (line (base_pin info) (gpio_pin1 info)) s
               else s\<lparr>ret := - EINVAL\<rparr>)
      in leave s)"

text \<open>ARA-267: generate multiple GPIO deactivate requests.\<close>

definition ARA_267_multiple_deactivate :: "'d test_case" where
  "ARA_267_multiple_deactivate lib info w =
     (let s = enter w;
          s = (if num_type_is info ''m'' then
                 activate_gpio_multiple_pin lib (case_id info)
                   (line (base_pin info) (gpio_pin1 info))
                   (line (base_pin info) (gpio_pin2 info))
                   (line (base_pin info) (gpio_pin3 info)) s
               else if num_type_is info ''s'' then
                 activate_gpio_pin lib (case_id info) (line (base_pin info) (gpio_pin1 info)) s
               else s\<lparr>ret := - EINVAL\<rparr>);
          s = check_step_result (case_id info) s;
          s = (if num_type_is info ''m'' then
                 deactivate_gpio_multiple_pin lib (case_id info)
                   (line (base_pin info) (gpio_pin1 info))
                   (line (base_pin info) (gpio_pin2 info))
                   (line (base_pin info) (gpio_pin3 info)) s
               else if num_type_is info ''s'' then
                 deactivate_gpio_pin lib (case_id info) (line (base_pin info) (gpio_pin1 info)) s
               else s\<lparr>ret := - EINVAL\<rparr>);
          s = print_test_result (case_id info) s
      in leave s)"

text \<open>ARA-270: generate multiple GPIO direction requests.\<close>

definition ARA_270_multiple_direction :: "'d test_case" where
  "ARA_270_multiple_direction lib info w =
     (let s = enter w;
          s = (if num_type_is info ''m'' then
                 activate_gpio_multiple_pin lib (case_id info)
                   (line (base_pin info) (gpio_pin1 info))
                   (line (base_pin info) (gpio_pin2 info))
                   (line (base_pin info) (gpio_pin3 info)) s
               else if num_type_is info ''s'' then
                 activate_gpio_pin lib (case_id info) (line (base_pin info) (gpio_pin1 info)) s
               else s\<lparr>ret := - EINVAL\<rparr>);
          s = check_step_result (case_id info) s;
          s = (if num_type_is info ''m'' then
                 (let s = get_gpio_direction lib (case_id info)
                            (line (base_pin info) (gpio_pin1 info)) 4 s;
                      s = get_gpio_direction lib (case_id info)
                            (line (base_pin info) (gpio_pin2 info)) 4 s;
                      s = get_gpio_direction lib (case_id info)
                            (line (base_pin info) (gpio_pin3 info)) 4 s
                  in s)
               else if num_type_is info ''s'' then
                 get_gpio_direction lib (case_id info) (line (base_pin info) (gpio_pin1 info)) 4 s
               else s\<lparr>ret := - EINVAL\<rparr>);
          s = print_test_result (case_id info) s;
          s = (if num_type_is info ''m'' then
                 deactivate_gpio_multiple_pin lib (case_id info)
                   (line (base_pin info) (gpio_pin1 info))
                   (line (base_pin info) (gpio_pin2 info))
                   (line (base_pin info) (gpio_pin3 info)) s
               else if num_type_is info ''s'' then
                 deactivate_gpio_pin lib (case_id info) (line (base_pin info) (gpio_pin1 info)) s
               else s\<lparr>ret := - EINVAL\<rparr>)
      in leave s)"

text \<open>ARA-271: GPIO direction request ten times for the same line.\<close>

definition ARA_271_multiple_times_direction :: "'d test_case" where
  "ARA_271_multiple_times_direction lib info w =
     (let test_times = 10;
          s = enter w;
          s = (if num_type_is info ''s'' then
                 activate_gpio_pin lib (case_id info) (line (base_pin info) (gpio_pin1 info)) s
               else s\<lparr>ret := - EINVAL\<rparr>);
          s = check_step_result (case_id info) s;
          s = for_loop 0 test_times
                (\<lambda>i s. (if num_type_is info ''s'' then
                           get_gpio_direction lib (case_id info)
                             (line (base_pin info) (gpio_pin1 info)) 4 s
                         else s\<lparr>ret := - EINVAL\<rparr>)) s;
          s = print_test_result (case_id info) s;
          s = (if num_type_is info ''s'' then
                 deactivate_gpio_pin lib (case_id info) (line (base_pin info) (gpio_pin1 info)) s
               else s\<lparr>ret := - EINVAL\<rparr>)
      in leave s)"

text \<open>ARA-272: GPIO direction request for all the GPIO lines.\<close>

definition ARA_272_all_direction :: "'d test_case" where
  "ARA_272_all_direction lib info w =
     (let s = enter w;
          s = (if num_type_is info ''a'' then
                 for_loop 0 (unat (max_count info))
                   (\<lambda>i s. activate_gpio_pin lib (case_id info)
                                    (unat (base_pin info) + i) s) s
               else if num_type_is info ''m'' then
                 activate_gpio_multiple_pin lib (case_id info)
                   (line (base_pin info) (gpio_pin1 info))
                   (line (base_pin info) (gpio_pin2 info))
                   (line (base_pin info) (gpio_pin3 info)) s
               else if num_type_is info ''s'' then
                 activate_gpio_pin lib (case_id info) (line (base_pin info) (gpio_pin1 info)) s
               else s\<lparr>ret := - EINVAL\<rparr>);
          s = check_step_result (case_id info) s;
          s = (if num_type_is info ''a'' then
                 for_loop 0 (unat (max_count info))
                   (\<lambda>i s. get_gpio_direction lib (case_id info)
                                    (unat (base_pin info) + i) 4 s) s
               else if num_type_is info ''m'' then
                 (let s = get_gpio_direction lib (case_id info)
                            (line (base_pin info) (gpio_pin1 info)) 4 s;
                      s = get_gpio_direction lib (case_id info)
                            (line (base_pin info) (gpio_pin2 info)) 4 s;
                      s = get_gpio_direction lib (case_id info)
                            (line (base_pin info) (gpio_pin3 info)) 4 s
                  in s)
               else if num_type_is info ''s'' then
                 get_gpio_direction lib (case_id info) (line (base_pin info) (gpio_pin1 info)) 4 s
               else s\<lparr>ret := - EINVAL\<rparr>);
          s = print_test_result (case_id info) s;
          s = (if num_type_is info ''a'' then
                 for_loop 0 (unat (max_count info))
                   (\<lambda>i s. deactivate_gpio_pin lib (case_id info)
                                    (unat (base_pin info) + i) s) s
               else if num_type_is info ''m'' then
                 deactivate_gpio_multiple_pin lib (case_id info)
                   (line (base_pin info) (gpio_pin1 info))
                   (line (base_pin info) (gpio_pin2 info))
                   (line (base_pin info) (gpio_pin3 info)) s
               else if num_type_is info ''s'' then
                 deactivate_gpio_pin lib (case_id info) (line (base_pin info) (gpio_pin1 info)) s
               else s\<lparr>ret := - EINVAL\<rparr>)
      in leave s)"

text \<open>ARA-273: generate multiple GPIO direction input requests.\<close>

definition ARA_273_multiple_input :: "'d test_case" where
  "ARA_273_multiple_input lib info w =
     (let directbuf = ''in'';
          s = enter w;
          s = (if num_type_is info ''m'' then
                 activate_gpio_multiple_pin lib (case_id info)
                   (line (base_pin info) (gpio_pin1 info))
                   (line (base_pin info) (gpio_pin2 info))
                   (line (base_pin info) (gpio_pin3 info)) s
               else if num_type_is info ''s'' then
                 activate_gpio_pin lib (case_id info) (line (base_pin info) (gpio_pin1 info)) s
               else s\<lparr>ret := - EINVAL\<rparr>);
          s = check_step_result (case_id info) s;
          s = (if num_type_is info ''m'' then
                 (let s = strcpy_buf directbuf s;
                      s = set_gpio_direction lib (case_id info)
                            (line (base_pin info) (gpio_pin1 info)) 4 s;
                      s = set_gpio_direction lib (case_id info)
                            (line (base_pin info) (gpio_pin2 info)) 4 s;
                      s = set_gpio_direction lib (case_id info)
                            (line (base_pin info) (gpio_pin3 info)) 4 s
                  in s)
               else if num_type_is info ''s'' then
                 (let s = strcpy_buf directbuf s;
                      s = set_gpio_direction lib (case_id info)
                            (line (base_pin info) (gpio_pin1 info)) 4 s
                  in s)
               else s\<lparr>ret := - EINVAL\<rparr>);
          s = check_step_result (case_id info) s;
          s = (if num_type_is info ''m'' then
                 (let s = get_gpio_direction lib (case_id info)
                            (line (base_pin info) (gpio_pin1 info)) 4 s;
                      s = if_not_ret (strcmp_buf directbuf) s;
                      s = get_gpio_direction lib (case_id info)
                            (line (base_pin info) (gpio_pin2 info)) 4 s;
                      s = if_not_ret (strcmp_buf directbuf) s;
                      s = get_gpio_direction lib (case_id info)
                            (line (base_pin info) (gpio_pin3 info)) 4 s;
                      s = if_not_ret (strcmp_buf directbuf) s
                  in s)
               else if num_type_is info ''s'' then
                 (let s = get_gpio_direction lib (case_id info)
                            (line (base_pin info) (gpio_pin1 info)) 4 s;
                      s = if_not_ret (strcmp_buf directbuf) s
                  in s)
               else s\<lparr>ret := - EINVAL\<rparr>);
          s = print_test_result (case_id info) s;
          s = (if num_type_is info ''m'' then
                 deactivate_gpio_multiple_pin lib (case_id info)
                   (line (base_pin info) (gpio_pin1 info))
                   (line (base_pin info) (gpio_pin2 info))
                   (line (base_pin info) (gpio_pin3 info)) s
               else if num_type_is info ''s'' then
                 deactivate_gpio_pin lib (case_id info) (line (base_pin info) (gpio_pin1 info)) s
               else s\<lparr>ret := - EINVAL\<rparr>)
      in leave s)"

text \<open>ARA-274: GPIO direction input request ten times for the same line.\<close>

definition ARA_274_multiple_times_input :: "'d test_case" where
  "ARA_274_multiple_times_input lib info w =
     (let directbuf = ''in'';
          test_times = 10;
          s = enter w;
          s = (if num_type_is info ''s'' then
                 activate_gpio_pin lib (case_id info) (line (base_pin info) (gpio_pin1 info)) s
               else s\<lparr>ret := - EINVAL\<rparr>);
          s = check_step_result (case_id info) s;
          s = for_loop 0 test_times
                (\<lambda>i s. (if num_type_is info ''s'' then
                           (let s = strcpy_buf directbuf s;
                                s = set_gpio_direction lib (case_id info)
                                      (line (base_pin info) (gpio_pin1 info)) 4 s
                            in s)
                         else s\<lparr>ret := - EINVAL\<rparr>)) s;
          s = check_step_result (case_id info) s;
          s = (if num_type_is info ''s'' then
                 (let s = get_gpio_direction lib (case_id info)
                            (line (base_pin info) (gpio_pin1 info)) 4 s;
                      s = if_not_ret (strcmp_buf directbuf) s
                  in s)
               else s\<lparr>ret := - EINVAL\<rparr>);
          s = print_test_result (case_id info) s;
          s = (if num_type_is info ''s'' then
                 deactivate_gpio_pin lib (case_id info) (line (base_pin info) (gpio_pin1 info)) s
               else s\<lparr>ret := - EINVAL\<rparr>)
      in leave s)"

text \<open>ARA-276: generate multiple GPIO direction output requests.\<close>

definition ARA_276_multiple_output :: "'d test_case" where
  "ARA_276_multiple_output lib info w =
     (let directbuf = ''out'';
          s = enter w;
          s = (if num_type_is info ''m'' then
                 activate_gpio_multiple_pin lib (case_id info)
                   (line (base_pin info) (gpio_pin1 info))
                   (line (base_pin info) (gpio_pin2 info))
                   (line (base_pin info) (gpio_pin3 info)) s
               else if num_type_is info ''s'' then
                 activate_gpio_pin lib (case_id info) (line (base_pin info) (gpio_pin1 info)) s
               else s\<lparr>ret := - EINVAL\<rparr>);
          s = check_step_result (case_id info) s;
          s = (if num_type_is info ''m'' then
                 (let s = strcpy_buf directbuf s;
                      s = set_gpio_direction lib (case_id info)
                            (line (base_pin info) (gpio_pin1 info)) 4 s;
                      s = set_gpio_direction lib (case_id info)
                            (line (base_pin info) (gpio_pin2 info)) 4 s;
                      s = set_gpio_direction lib (case_id info)
                            (line (base_pin info) (gpio_pin3 info)) 4 s
                  in s)
               else if num_type_is info ''s'' then
                 (let s = strcpy_buf directbuf s;
                      s = set_gpio_direction lib (case_id info)
                            (line (base_pin info) (gpio_pin1 info)) 4 s
                  in s)
               else s\<lparr>ret := - EINVAL\<rparr>);
          s = check_step_result (case_id info) s;
          s = (if num_type_is info ''m'' then
                 (let s = get_gpio_direction lib (case_id info)
                            (line (base_pin info) (gpio_pin1 info)) 4 s;
                      s = if_not_ret (strcmp_buf directbuf) s;
                      s = get_gpio_direction lib (case_id info)
                            (line (base_pin info) (gpio_pin2 info)) 4 s;
                      s = if_not_ret (strcmp_buf directbuf) s;
                      s = get_gpio_direction lib (case_id info)
                            (line (base_pin info) (gpio_pin3 info)) 4 s;
                      s = if_not_ret (strcmp_buf directbuf) s
                  in s)
               else if num_type_is info ''s'' then
                 (let s = get_gpio_direction lib (case_id info)
                            (line (base_pin info) (gpio_pin1 info)) 4 s;
                      s = if_not_ret (strcmp_buf directbuf) s
                  in s)
               else s\<lparr>ret := - EINVAL\<rparr>);
          s = print_test_result (case_id info) s;
          s = (if num_type_is info ''m'' then
                 deactivate_gpio_multiple_pin lib (case_id info)
                   (line (base_pin info) (gpio_pin1 info))
                   (line (base_pin info) (gpio_pin2 info))
                   (line (base_pin info) (gpio_pin3 info)) s
               else if num_type_is info ''s'' then
                 deactivate_gpio_pin lib (case_id info) (line (base_pin info) (gpio_pin1 info)) s
               else s\<lparr>ret := - EINVAL\<rparr>)
      in leave s)"

text \<open>ARA-277: GPIO direction output request ten times for the same line.\<close>

definition ARA_277_multiple_times_output :: "'d test_case" where
  "ARA_277_multiple_times_output lib info w =
     (let directbuf = ''out'';
          test_times = 10;
          s = enter w;
          s = (if num_type_is info ''s'' then
                 activate_gpio_pin lib (case_id info) (line (base_pin info) (gpio_pin1 info)) s
               else s\<lparr>ret := - EINVAL\<rparr>);
          s = check_step_result (case_id info) s;
          s = for_loop 0 test_times
                (\<lambda>i s. (if num_type_is info ''s'' then
                           (let s = strcpy_buf directbuf s;
                                s = set_gpio_direction lib (case_id info)
                                      (line (base_pin info) (gpio_pin1 info)) 4 s
                            in s)
                         else s\<lparr>ret := - EINVAL\<rparr>)) s;
          s = check_step_result (case_id info) s;
          s = (if num_type_is info ''s'' then
                 (let s = get_gpio_direction lib (case_id info)
                            (line (base_pin info) (gpio_pin1 info)) 4 s;
                      s = if_not_ret (strcmp_buf directbuf) s
                  in s)
               else s\<lparr>ret := - EINVAL\<rparr>);
          s = print_test_result (case_id info) s;
          s = (if num_type_is info ''s'' then
                 deactivate_gpio_pin lib (case_id info) (line (base_pin info) (gpio_pin1 info)) s
               else s\<lparr>ret := - EINVAL\<rparr>)
      in leave s)"

text \<open>ARA-279: the GPIO get response returns the line's current value.\<close>

definition ARA_279_get_value :: "'d test_case" where
  "ARA_279_get_value lib info w =
     (let directbuf = ''in'';
          s = enter w;
          s = (if num_type_is info ''m'' then
                 activate_gpio_multiple_pin lib (case_id info)
                   (line (base_pin info) (gpio_pin1 info))
                   (line (base_pin info) (gpio_pin2 info))
                   (line (base_pin info) (gpio_pin3 info)) s
               else if num_type_is info ''s'' then
                 activate_gpio_pin lib (case_id info) (line (base_pin info) (gpio_pin1 info)) s
               else s\<lparr>ret := - EINVAL\<rparr>);
          s = check_step_result (case_id info) s;
          s = (if num_type_is info ''m'' then
                 (let s = strcpy_buf directbuf s;
                      s = set_gpio_direction lib (case_id info)
                            (line (base_pin info) (gpio_pin1 info)) 4 s;
                      s = set_gpio_direction lib (case_id info)
                            (line (base_pin info) (gpio_pin2 info)) 4 s;
                      s = set_gpio_direction lib (case_id info)
                            (line (base_pin info) (gpio_pin3 info)) 4 s
                  in s)
               else if num_type_is info ''s'' then
                 (let s = strcpy_buf directbuf s;
                      s = set_gpio_direction lib (case_id info)
                            (line (base_pin info) (gpio_pin1 info)) 4 s
                  in s)
               else s\<lparr>ret := - EINVAL\<rparr>);
          s = check_step_result (case_id info) s;
          s = (if num_type_is info ''m'' then
                 (let s = get_gpio_value lib (case_id info)
                            (line (base_pin info) (gpio_pin1 info)) 4 s;
                      s = get_gpio_value lib (case_id info)
                            (line (base_pin info) (gpio_pin2 info)) 4 s;
                      s = get_gpio_value lib (case_id info)
                            (line (base_pin info) (gpio_pin3 info)) 4 s
                  in s)
               else if num_type_is info ''s'' then
                 get_gpio_value lib (case_id info) (line (base_pin info) (gpio_pin1 info)) 4 s
               else s\<lparr>ret := - EINVAL\<rparr>);
          s = print_test_result (case_id info) s;
          s = (if num_type_is info ''m'' then
                 deactivate_gpio_multiple_pin lib (case_id info)
                   (line (base_pin info) (gpio_pin1 info))
                   (line (base_pin info) (gpio_pin2 info))
                   (line (base_pin info) (gpio_pin3 info)) s
               else if num_type_is info ''s'' then
                 deactivate_gpio_pin lib (case_id info) (line (base_pin info) (gpio_pin1 info)) s
               else s\<lparr>ret := - EINVAL\<rparr>)
      in leave s)"

text \<open>ARA-281: set a GPIO line to high.\<close>

definition ARA_281_set_value_high :: "'d test_case" where
  "ARA_281_set_value_high lib info w =
     (let directbuf = ''out'';
          valuebuf = ''1'';
          s = enter w;
          s = (if num_type_is info ''s'' then
                 activate_gpio_pin lib (case_id info) (line (base_pin info) (gpio_pin1 info)) s
               else s\<lparr>ret := - EINVAL\<rparr>);
          s = check_step_result (case_id info) s;
          s = (if num_type_is info ''s'' then
                 (let s = strcpy_buf directbuf s;
                      s = set_gpio_direction lib (case_id info)
                            (line (base_pin info) (gpio_pin1 info)) 4 s
                  in s)
               else s\<lparr>ret := - EINVAL\<rparr>);
          s = check_step_result (case_id info) s;
          s = (if num_type_is info ''s'' then
                 (let s = strcpy_buf valuebuf s;
                      s = set_gpio_value lib (case_id info)
                            (line (base_pin info) (gpio_pin1 info)) 4 s
                  in s)
               else s\<lparr>ret := - EINVAL\<rparr>);
          s = check_step_result (case_id info) s;
          s = (if num_type_is info ''s'' then
                 (let s = get_gpio_direction lib (case_id info)
                            (line (base_pin info) (gpio_pin1 info)) 4 s;
                      s = if_not_ret (strcmp_buf directbuf) s
                  in s)
               else s\<lparr>ret := - EINVAL\<rparr>);
          s = check_step_result (case_id info) s;
          s = (if num_type_is info ''s'' then
                 (let s = get_gpio_value lib (case_id info)
                            (line (base_pin info) (gpio_pin1 info)) 4 s;
                      s = if_not_ret (strcmp_buf valuebuf) s
                  in s)
               else s\<lparr>ret := - EINVAL\<rparr>);
          s = print_test_result (case_id info) s;
          s = (if num_type_is info ''s'' then
                 deactivate_gpio_pin lib (case_id info) (line (base_pin info) (gpio_pin1 info)) s
               else s\<lparr>ret := - EINVAL\<rparr>)
      in leave s)"

text \<open>ARA-282: set a GPIO line to low.\<close>

definition ARA_282_set_value_low :: "'d test_case" where
  "ARA_282_set_value_low lib info w =
     (let directbuf = ''out'';
          valuebuf = ''0'';
          s = enter w;
          s = (if num_type_is info ''s'' then
                 activate_gpio_pin lib (case_id info) (line (base_pin info) (gpio_pin1 info)) s
               else s\<lparr>ret := - EINVAL\<rparr>);
          s = check_step_result (case_id info) s;
          s = (if num_type_is info ''s'' then
                 (let s = strcpy_buf directbuf s;
                      s = set_gpio_direction lib (case_id info)
                            (line (base_pin info) (gpio_pin1 info)) 4 s
                  in s)
               else s\<lparr>ret := - EINVAL\<rparr>);
          s = check_step_result (case_id info) s;
          s = (if num_type_is info ''s'' then
                 (let s = strcpy_buf valuebuf s;
                      s = set_gpio_value lib (case_id info)
                            (line (base_pin info) (gpio_pin1 info)) 4 s
                  in s)
               else s\<lparr>ret := - EINVAL\<rparr>);
          s = check_step_result (case_id info) s;
          s = (if num_type_is info ''s'' then
                 (let s = get_gpio_direction lib (case_id info)
                            (line (base_pin info) (gpio_pin1 info)) 4 s;
                      s = if_not_ret (strcmp_buf directbuf) s
                  in s)
               else s\<lparr>ret := - EINVAL\<rparr>);
          s = check_step_result (case_id info) s;
          s = (if num_type_is info ''s'' then
                 (let s = get_gpio_value lib (case_id info)
                            (line (base_pin info) (gpio_pin1 info)) 4 s;
                      s = if_not_ret (strcmp_buf valuebuf) s
                  in s)
               else s\<lparr>ret := - EINVAL\<rparr>);
          s = print_test_result (case_id info) s;
          s = (if num_type_is info ''s'' then
                 deactivate_gpio_pin lib (case_id info) (line (base_pin info) (gpio_pin1 info)) s
               else s\<lparr>ret := - EINVAL\<rparr>)
      in leave s)"

text \<open>ARA-286: the IRQ type can be set to rising edge.\<close>

definition ARA_286_set_edge_rising :: "'d test_case" where
  "ARA_286_set_edge_rising lib info w =
     (let directbuf = ''out'';
          valuebuf = ''1'';
          edgebuf = ''rising'';
          s = enter w;
          s = (if num_type_is info ''s'' then
                 activate_gpio_pin lib (case_id info) (line (base_pin info) (gpio_pin1 info)) s
               else s\<lparr>ret := - EINVAL\<rparr>);
          s = check_step_result (case_id info) s;
          s = (if num_type_is info ''s'' then
                 (let s = strcpy_buf directbuf s;
                      s = set_gpio_direction lib (case_id info)
                            (line (base_pin info) (gpio_pin1 info)) 8 s
                  in s)
               else s\<lparr>ret := - EINVAL\<rparr>);
          s = check_step_result (case_id info) s;
          s = (if num_type_is info ''s'' then
                 (let s = strcpy_buf valuebuf s;
                      s = set_gpio_value lib (case_id info)
                            (line (base_pin info) (gpio_pin1 info)) 8 s
                  in s)
               else s\<lparr>ret := - EINVAL\<rparr>);
          s = check_step_result (case_id info) s;
          s = (if num_type_is info ''s'' then
                 (let s = strcpy_buf edgebuf s;
                      s = set_gpio_edge lib (case_id info)
                            (line (base_pin info) (gpio_pin1 info)) 8 s
                  in s)
               else s\<lparr>ret := - EINVAL\<rparr>);
          s = check_step_result (case_id info) s;
          s = (if num_type_is info ''s'' then
                 (let s = get_gpio_edge lib (case_id info)
                            (line (base_pin info) (gpio_pin1 info)) 8 s;
                      s = if_not_ret (strcmp_buf edgebuf) s
                  in s)
               else s\<lparr>ret := - EINVAL\<rparr>);
          s = print_test_result (case_id info) s;
          s = (if num_type_is info ''s'' then
                 deactivate_gpio_pin lib (case_id info) (line (base_pin info) (gpio_pin1 info)) s
               else s\<lparr>ret := - EINVAL\<rparr>)
      in leave s)"

text \<open>ARA-287: the IRQ type can be set to falling edge.\<close>

definition ARA_287_set_edge_falling :: "'d test_case" where
  "ARA_287_set_edge_falling lib info w =
     (let directbuf = ''out'';
          valuebuf = ''1'';
          edgebuf = ''falling'';
          s = enter w;
          s = (if num_type_is info ''s'' then
                 activate_gpio_pin lib (case_id info) (line (base_pin info) (gpio_pin1 info)) s
               else s\<lparr>ret := - EINVAL\<rparr>);
          s = check_step_result (case_id info) s;
          s = (if num_type_is info ''s'' then
                 (let s = strcpy_buf directbuf s;
                      s = set_gpio_direction lib (case_id info)
                            (line (base_pin info) (gpio_pin1 info)) 8 s
                  in s)
               else s\<lparr>ret := - EINVAL\<rparr>);
          s = check_step_result (case_id info) s;
          s = (if num_type_is info ''s'' then
                 (let s = strcpy_buf valuebuf s;
                      s = set_gpio_value lib (case_id info)
                            (line (base_pin info) (gpio_pin1 info)) 8 s
                  in s)
               else s\<lparr>ret := - EINVAL\<rparr>);
          s = check_step_result (case_id info) s;
          s = (if num_type_is info ''s'' then
                 (let s = strcpy_buf edgebuf s;
                      s = set_gpio_edge lib (case_id info)
                            (line (base_pin info) (gpio_pin1 info)) 8 s
                  in s)
               else s\<lparr>ret := - EINVAL\<rparr>);
          s = check_step_result (case_id info) s;
          s = (if num_type_is info ''s'' then
                 (let s = get_gpio_edge lib (case_id info)
                            (line (base_pin info) (gpio_pin1 info)) 8 s;
                      s = if_not_ret (strcmp_buf edgebuf) s
                  in s)
               else s\<lparr>ret := - EINVAL\<rparr>);
          s = print_test_result (case_id info) s;
          s = (if num_type_is info ''s'' then
                 deactivate_gpio_pin lib (case_id info) (line (base_pin info) (gpio_pin1 info)) s
               else s\<lparr>ret := - EINVAL\<rparr>)
      in leave s)"

text \<open>ARA-288: the IRQ type can be set to both edges.\<close>

definition ARA_288_set_edge_both :: "'d test_case" where
  "ARA_288_set_edge_both lib info w =
     (let directbuf = ''out'';
          valuebuf = ''1'';
          edgebuf = ''both'';
          s = enter w;
          s = (if num_type_is info ''s'' then
                 activate_gpio_pin lib (case_id info) (line (base_pin info) (gpio_pin1 info)) s
               else s\<lparr>ret := - EINVAL\<rparr>);
          s = check_step_result (case_id info) s;
          s = (if num_type_is info ''s'' then
                 (let s = strcpy_buf directbuf s;
                      s = set_gpio_direction lib (case_id info)
                            (line (base_pin info) (gpio_pin1 info)) 8 s
                  in s)
               else s\<lparr>ret := - EINVAL\<rparr>);
          s = check_step_result (case_id info) s;
          s = (if num_type_is info ''s'' then
                 (let s = strcpy_buf valuebuf s;
                      s = set_gpio_value lib (case_id info)
                            (line (base_pin info) (gpio_pin1 info)) 8 s
                  in s)
               else s\<lparr>ret := - EINVAL\<rparr>);
          s = check_step_result (case_id info) s;
          s = (if num_type_is info ''s'' then
                 (let s = strcpy_buf edgebuf s;
                      s = set_gpio_edge lib (case_id info)
                            (line (base_pin info) (gpio_pin1 info)) 8 s
                  in s)
               else s\<lparr>ret := - EINVAL\<rparr>);
          s = check_step_result (case_id info) s;
          s = (if num_type_is info ''s'' then
                 (let s = get_gpio_edge lib (case_id info)
                            (line (base_pin info) (gpio_pin1 info)) 8 s;
                      s = if_not_ret (strcmp_buf edgebuf) s
                  in s)
               else s\<lparr>ret := - EINVAL\<rparr>);
          s = print_test_result (case_id info) s;
          s = (if num_type_is info ''s'' then
                 deactivate_gpio_pin lib (case_id info) (line (base_pin info) (gpio_pin1 info)) s
               else s\<lparr>ret := - EINVAL\<rparr>)
      in leave s)"

text \<open>ARA-409: change an input line to an output line.\<close>

definition ARA_409_input_to_output :: "'d test_case" where
  "ARA_409_input_to_output lib info w =
     (let directbuf1 = ''in'';
          directbuf2 = ''out'';
          valuebuf = ''1'';
          s = enter w;
          s = (if num_type_is info ''s'' then
                 activate_gpio_pin lib (case_id info) (line (base_pin info) (gpio_pin1 info)) s
               else s\<lparr>ret := - EINVAL\<rparr>);
          s = check_step_result (case_id info) s;
          s = (if num_type_is info ''s'' then
                 (let s = strcpy_buf directbuf1 s;
                      s = set_gpio_direction lib (case_id info)
                            (line (base_pin info) (gpio_pin1 info)) 4 s
                  in s)
               else s\<lparr>ret := - EINVAL\<rparr>);
          s = check_step_result (case_id info) s;
          s = (if num_type_is info ''s'' then
                 get_gpio_value lib (case_id info) (line (base_pin info) (gpio_pin1 info)) 4 s
               else s\<lparr>ret := - EINVAL\<rparr>);
          s = check_step_result (case_id info) s;
          s = (if num_type_is info ''s'' then
                 deactivate_gpio_pin lib (case_id info) (line (base_pin info) (gpio_pin1 info)) s
               else s\<lparr>ret := - EINVAL\<rparr>);
          s = check_step_result (case_id info) s;
          s = (if num_type_is info ''s'' then
                 activate_gpio_pin lib (case_id info) (line (base_pin info) (gpio_pin1 info)) s
               else s\<lparr>ret := - EINVAL\<rparr>);
          s = check_step_result (case_id info) s;
          s = (if num_type_is info ''s'' then
                 (let s = strcpy_buf directbuf2 s;
                      s = set_gpio_direction lib (case_id info)
                            (line (base_pin info) (gpio_pin1 info)) 4 s
                  in s)
               else s\<lparr>ret := - EINVAL\<rparr>);
          s = check_step_result (case_id info) s;
          s = (if num_type_is info ''s'' then
                 (let s = strcpy_buf valuebuf s;
                      s = set_gpio_value lib (case_id info)
                            (line (base_pin info) (gpio_pin1 info)) 4 s
                  in s)
               else s\<lparr>ret := - EINVAL\<rparr>);
          s = check_step_result (case_id info) s;
          s = (if num_type_is info ''s'' then
                 (let s = get_gpio_value lib (case_id info)
                            (line (base_pin info) (gpio_pin1 info)) 4 s;
                      s = if_not_ret (strcmp_buf valuebuf) s
                  in s)
               else s\<lparr>ret := - EINVAL\<rparr>);
          s = print_test_result (case_id info) s;
          s = (if num_type_is info ''s'' then
                 deactivate_gpio_pin lib (case_id info) (line (base_pin info) (gpio_pin1 info)) s
               else s\<lparr>ret := - EINVAL\<rparr>)
      in leave s)"

text \<open>ARA-410: change an output line to an input line.\<close>

definition ARA_410_output_to_input :: "'d test_case" where
  "ARA_410_output_to_input lib info w =
     (let directbuf1 = ''out'';
          directbuf2 = ''in'';
          valuebuf = ''1'';
          s = enter w;
          s = (if num_type_is info ''s'' then
                 activate_gpio_pin lib (case_id info) (line (base_pin info) (gpio_pin1 info)) s
               else s\<lparr>ret := - EINVAL\<rparr>);
          s = check_step_result (case_id info) s;
          s = (if num_type_is info ''s'' then
                 (let s = strcpy_buf directbuf1 s;
                      s = set_gpio_direction lib (case_id info)
                            (line (base_pin info) (gpio_pin1 info)) 4 s
                  in s)
               else s\<lparr>ret := - EINVAL\<rparr>);
          s = check_step_result (case_id info) s;
          s = (if num_type_is info ''s'' then
                 (let s = strcpy_buf valuebuf s;
                      s = set_gpio_value lib (case_id info)
                            (line (base_pin info) (gpio_pin1 info)) 4 s
                  in s)
               else s\<lparr>ret := - EINVAL\<rparr>);
          s = check_step_result (case_id info) s;
          s = (if num_type_is info ''s'' then
                 deactivate_gpio_pin lib (case_id info) (line (base_pin info) (gpio_pin1 info)) s
               else s\<lparr>ret := - EINVAL\<rparr>);
          s = check_step_result (case_id info) s;
          s = (if num_type_is info ''s'' then
                 activate_gpio_pin lib (case_id info) (line (base_pin info) (gpio_pin1 info)) s
               else s\<lparr>ret := - EINVAL\<rparr>);
          s = check_step_result (case_id info) s;
          s = (if num_type_is info ''s'' then
                 (let s = strcpy_buf directbuf2 s;
                      s = set_gpio_direction lib (case_id info)
                            (line (base_pin info) (gpio_pin1 info)) 4 s
                  in s)
               else s\<lparr>ret := - EINVAL\<rparr>);
          s = check_step_result (case_id info) s;
          s = (if num_type_is info ''s'' then
                 get_gpio_value lib (case_id info) (line (base_pin info) (gpio_pin1 info)) 4 s
               else s\<lparr>ret := - EINVAL\<rparr>);
          s = print_test_result (case_id info) s;
          s = (if num_type_is info ''s'' then
                 deactivate_gpio_pin lib (case_id info) (line (base_pin info) (gpio_pin1 info)) s
               else s\<lparr>ret := - EINVAL\<rparr>)
      in leave s)"

text \<open>ARA-411: change the IRQ type from falling edge to rising edge.\<close>

definition ARA_411_falling_to_rising :: "'d test_case" where
  "ARA_411_falling_to_rising lib info w =
     (let directbuf = ''out'';
          valuebuf = ''1'';
          edgebuf1 = ''falling'';
          edgebuf2 = ''rising'';
          s = enter w;
          s = (if num_type_is info ''s'' then
                 activate_gpio_pin lib (case_id info) (line (base_pin info) (gpio_pin1 info)) s
               else s\<lparr>ret := - EINVAL\<rparr>);
          s = check_step_result (case_id info) s;
          s = (if num_type_is info ''s'' then
                 (let s = strcpy_buf directbuf s;
                      s = set_gpio_direction lib (case_id info)
                            (line (base_pin info) (gpio_pin1 info)) 8 s
                  in s)
               else s\<lparr>ret := - EINVAL\<rparr>);
          s = check_step_result (case_id info) s;
          s = (if num_type_is info ''s'' then
                 (let s = strcpy_buf valuebuf s;
                      s = set_gpio_value lib (case_id info)
                            (line (base_pin info) (gpio_pin1 info)) 8 s
                  in s)
               else s\<lparr>ret := - EINVAL\<rparr>);
          s = check_step_result (case_id info) s;
          s = (if num_type_is info ''s'' then
                 (let s = strcpy_buf edgebuf1 s;
                      s = set_gpio_edge lib (case_id info)
                            (line (base_pin info) (gpio_pin1 info)) 8 s
                  in s)
               else s\<lparr>ret := - EINVAL\<rparr>);
          s = check_step_result (case_id info) s;
          s = (if num_type_is info ''s'' then
                 (let s = get_gpio_edge lib (case_id info)
                            (line (base_pin info) (gpio_pin1 info)) 8 s;
                      s = if_not_ret (strcmp_buf edgebuf1) s
                  in s)
               else s\<lparr>ret := - EINVAL\<rparr>);
          s = check_step_result (case_id info) s;
          s = (if num_type_is info ''s'' then
                 (let s = strcpy_buf edgebuf2 s;
                      s = set_gpio_edge lib (case_id info)
                            (line (base_pin info) (gpio_pin1 info)) 8 s
                  in s)
               else s\<lparr>ret := - EINVAL\<rparr>);
          s = check_step_result (case_id info) s;
          s = (if num_type_is info ''s'' then
                 (let s = get_gpio_edge lib (case_id info)
                            (line (base_pin info) (gpio_pin1 info)) 8 s;
                      s = if_not_ret (strcmp_buf edgebuf2) s
                  in s)
               else s\<lparr>ret := - EINVAL\<rparr>);
          s = print_test_result (case_id info) s;
          s = (if num_type_is info ''s'' then
                 deactivate_gpio_pin lib (case_id info) (line (base_pin info) (gpio_pin1 info)) s
               else s\<lparr>ret := - EINVAL\<rparr>)
      in leave s)"

text \<open>ARA-412: change the IRQ type from rising edge to falling edge.\<close>

definition ARA_412_rising_to_falling :: "'d test_case" where
  "ARA_412_rising_to_falling lib info w =
     (let directbuf = ''out'';
          valuebuf = ''1'';
          edgebuf1 = ''rising'';
          edgebuf2 = ''falling'';
          s = enter w;
          s = (if num_type_is info ''s'' then
                 activate_gpio_pin lib (case_id info) (line (base_pin info) (gpio_pin1 info)) s
               else s\<lparr>ret := - EINVAL\<rparr>);
          s = check_step_result (case_id info) s;
          s = (if num_type_is info ''s'' then
                 (let s = strcpy_buf directbuf s;
                      s = set_gpio_direction lib (case_id info)
                            (line (base_pin info) (gpio_pin1 info)) 8 s
                  in s)
               else s\<lparr>ret := - EINVAL\<rparr>);
          s = check_step_result (case_id info) s;
          s = (if num_type_is info ''s'' then
                 (let s = strcpy_buf valuebuf s;
                      s = set_gpio_value lib (case_id info)
                            (line (base_pin info) (gpio_pin1 info)) 8 s
                  in s)
               else s\<lparr>ret := - EINVAL\<rparr>);
          s = check_step_result (case_id info) s;
          s = (if num_type_is info ''s'' then
                 (let s = strcpy_buf edgebuf1 s;
                      s = set_gpio_edge lib (case_id info)
                            (line (base_pin info) (gpio_pin1 info)) 8 s
                  in s)
               else s\<lparr>ret := - EINVAL\<rparr>);
          s = check_step_result (case_id info) s;
          s = (if num_type_is info ''s'' then
                 (let s = get_gpio_edge lib (case_id info)
                            (line (base_pin info) (gpio_pin1 info)) 8 s;
                      s = if_not_ret (strcmp_buf edgebuf1) s
                  in s)
               else s\<lparr>ret := - EINVAL\<rparr>);
          s = check_step_result (case_id info) s;
          s = (if num_type_is info ''s'' then
                 (let s = strcpy_buf edgebuf2 s;
                      s = set_gpio_edge lib (case_id info)
                            (line (base_pin info) (gpio_pin1 info)) 8 s
                  in s)
               else s\<lparr>ret := - EINVAL\<rparr>);
          s = check_step_result (case_id info) s;
          s = (if num_type_is info ''s'' then
                 (let s = get_gpio_edge lib (case_id info)
                            (line (base_pin info) (gpio_pin1 info)) 8 s;
                      s = if_not_ret (strcmp_buf edgebuf2) s
                  in s)
               else s\<lparr>ret := - EINVAL\<rparr>);
          s = print_test_result (case_id info) s;
          s = (if num_type_is info ''s'' then
                 deactivate_gpio_pin lib (case_id info) (line (base_pin info) (gpio_pin1 info)) s
               else s\<lparr>ret := - EINVAL\<rparr>)
      in leave s)"

text \<open>ARA-413: change the IRQ type from rising edge to both edges.\<close>

definition ARA_413_rising_to_both :: "'d test_case" where
  "ARA_413_rising_to_both lib info w =
     (let directbuf = ''out'';
          valuebuf = ''1'';
          edgebuf1 = ''rising'';
          edgebuf2 = ''both'';
          s = enter w;
          s = (if num_type_is info ''s'' then
                 activate_gpio_pin lib (case_id info) (line (base_pin info) (gpio_pin1 info)) s
               else s\<lparr>ret := - EINVAL\<rparr>);
          s = check_step_result (case_id info) s;
          s = (if num_type_is info ''s'' then
                 (let s = strcpy_buf directbuf s;
                      s = set_gpio_direction lib (case_id info)
                            (line (base_pin info) (gpio_pin1 info)) 8 s
                  in s)
               else s\<lparr>ret := - EINVAL\<rparr>);
          s = check_step_result (case_id info) s;
          s = (if num_type_is info ''s'' then
                 (let s = strcpy_buf valuebuf s;
                      s = set_gpio_value lib (case_id info)
                            (line (base_pin info) (gpio_pin1 info)) 8 s
                  in s)
               else s\<lparr>ret := - EINVAL\<rparr>);
          s = check_step_result (case_id info) s;
          s = (if num_type_is info ''s'' then
                 (let s = strcpy_buf edgebuf1 s;
                      s = set_gpio_edge lib (case_id info)
                            (line (base_pin info) (gpio_pin1 info)) 8 s
                  in s)
               else s\<lparr>ret := - EINVAL\<rparr>);
          s = check_step_result (case_id info) s;
          s = (if num_type_is info ''s'' then
                 (let s = get_gpio_edge lib (case_id info)
                            (line (base_pin info) (gpio_pin1 info)) 8 s;
                      s = if_not_ret (strcmp_buf edgebuf1) s
                  in s)
               else s\<lparr>ret := - EINVAL\<rparr>);
          s = check_step_result (case_id info) s;
          s = (if num_type_is info ''s'' then
                 (let s = strcpy_buf edgebuf2 s;
                      s = set_gpio_edge lib (case_id info)
                            (line (base_pin info) (gpio_pin1 info)) 8 s
                  in s)
               else s\<lparr>ret := - EINVAL\<rparr>);
          s = check_step_result (case_id info) s;
          s = (if num_type_is info ''s'' then
                 (let s = get_gpio_edge lib (case_id info)
                            (line (base_pin info) (gpio_pin1 info)) 8 s;
                      s = if_not_ret (strcmp_buf edgebuf2) s
                  in s)
               else s\<lparr>ret := - EINVAL\<rparr>);
          s = print_test_result (case_id info) s;
          s = (if num_type_is info ''s'' then
                 deactivate_gpio_pin lib (case_id info) (line (base_pin info) (gpio_pin1 info)) s
               else s\<lparr>ret := - EINVAL\<rparr>)
      in leave s)"

text \<open>ARA-416: change the IRQ type from none to both edges.\<close>

definition ARA_416_none_to_both :: "'d test_case" where
  "ARA_416_none_to_both lib info w =
     (let directbuf = ''out'';
          valuebuf = ''1'';
          edgebuf1 = ''none'';
          edgebuf2 = ''both'';
          s = enter w;
          s = (if num_type_is info ''s'' then
                 activate_gpio_pin lib (case_id info) (line (base_pin info) (gpio_pin1 info)) s
               else s\<lparr>ret := - EINVAL\<rparr>);
          s = check_step_result (case_id info) s;
          s = (if num_type_is info ''s'' then
                 (let s = strcpy_buf directbuf s;
                      s = set_gpio_direction lib (case_id info)
                            (line (base_pin info) (gpio_pin1 info)) 8 s
                  in s)
               else s\<lparr>ret := - EINVAL\<rparr>);
          s = check_step_result (case_id info) s;
          s = (if num_type_is info ''s'' then
                 (let s = strcpy_buf valuebuf s;
                      s = set_gpio_value lib (case_id info)
                            (line (base_pin info) (gpio_pin1 info)) 8 s
                  in s)
               else s\<lparr>ret := - EINVAL\<rparr>);
          s = check_step_result (case_id info) s;
          s = (if num_type_is info ''s'' then
                 (let s = strcpy_buf edgebuf1 s;
                      s = set_gpio_edge lib (case_id info)
                            (line (base_pin info) (gpio_pin1 info)) 8 s
                  in s)
               else s\<lparr>ret := - EINVAL\<rparr>);
          s = check_step_result (case_id info) s;
          s = (if num_type_is info ''s'' then
                 (let s = get_gpio_edge lib (case_id info)
                            (line (base_pin info) (gpio_pin1 info)) 8 s;
                      s = if_not_ret (strcmp_buf edgebuf1) s
                  in s)
               else s\<lparr>ret := - EINVAL\<rparr>);
          s = check_step_result (case_id info) s;
          s = (if num_type_is info ''s'' then
                 (let s = strcpy_buf edgebuf2 s;
                      s = set_gpio_edge lib (case_id info)
                            (line (base_pin info) (gpio_pin1 info)) 8 s
                  in s)
               else s\<lparr>ret := - EINVAL\<rparr>);
          s = check_step_result (case_id info) s;
          s = (if num_type_is info ''s'' then
                 (let s = get_gpio_edge lib (case_id info)
                            (line (base_pin info) (gpio_pin1 info)) 8 s;
                      s = if_not_ret (strcmp_buf edgebuf2) s
                  in s)
               else s\<lparr>ret := - EINVAL\<rparr>);
          s = print_test_result (case_id info) s;
          s = (if num_type_is info ''s'' then
                 deactivate_gpio_pin lib (case_id info) (line (base_pin info) (gpio_pin1 info)) s
               else s\<lparr>ret := - EINVAL\<rparr>)
      in leave s)"

text \<open>ARA-417: change the IRQ type from both edges to none.\<close>

definition ARA_417_both_to_none :: "'d test_case" where
  "ARA_417_both_to_none lib info w =
     (let directbuf = ''out'';
          valuebuf = ''1'';
          edgebuf1 = ''both'';
          edgebuf2 = ''none'';
          s = enter w;
          s = (if num_type_is info ''s'' then
                 activate_gpio_pin lib (case_id info) (line (base_pin info) (gpio_pin1 info)) s
               else s\<lparr>ret := - EINVAL\<rparr>);
          s = check_step_result (case_id info) s;
          s = (if num_type_is info ''s'' then
                 (let s = strcpy_buf directbuf s;
                      s = set_gpio_direction lib (case_id info)
                            (line (base_pin info) (gpio_pin1 info)) 8 s
                  in s)
               else s\<lparr>ret := - EINVAL\<rparr>);
          s = check_step_result (case_id info) s;
          s = (if num_type_is info ''s'' then
                 (let s = strcpy_buf valuebuf s;
                      s = set_gpio_value lib (case_id info)
                            (line (base_pin info) (gpio_pin1 info)) 8 s
                  in s)
               else s\<lparr>ret := - EINVAL\<rparr>);
          s = check_step_result (case_id info) s;
          s = (if num_type_is info ''s'' then
                 (let s = strcpy_buf edgebuf1 s;
                      s = set_gpio_edge lib (case_id info)
                            (line (base_pin info) (gpio_pin1 info)) 8 s
                  in s)
               else s\<lparr>ret := - EINVAL\<rparr>);
          s = check_step_result (case_id info) s;
          s = (if num_type_is info ''s'' then
                 (let s = get_gpio_edge lib (case_id info)
                            (line (base_pin info) (gpio_pin1 info)) 8 s;
                      s = if_not_ret (strcmp_buf edgebuf1) s
                  in s)
               else s\<lparr>ret := - EINVAL\<rparr>);
          s = check_step_result (case_id info) s;
          s = (if num_type_is info ''s'' then
                 (let s = strcpy_buf edgebuf2 s;
                      s = set_gpio_edge lib (case_id info)
                            (line (base_pin info) (gpio_pin1 info)) 8 s
                  in s)
               else s\<lparr>ret := - EINVAL\<rparr>);
          s = check_step_result (case_id info) s;
          s = (if num_type_is info ''s'' then
                 (let s = get_gpio_edge lib (case_id info)
                            (line (base_pin info) (gpio_pin1 info)) 8 s;
                      s = if_not_ret (strcmp_buf edgebuf2) s
                  in s)
               else s\<lparr>ret := - EINVAL\<rparr>);
          s = print_test_result (case_id info) s;
          s = (if num_type_is info ''s'' then
                 deactivate_gpio_pin lib (case_id info) (line (base_pin info) (gpio_pin1 info)) s
               else s\<lparr>ret := - EINVAL\<rparr>)
      in leave s)"

subsection \<open>Dispatch and the program entry\<close>

definition switch_case_number :: "'d test_case" where
  "switch_case_number lib info w =
     (if case_id info = 263 then ARA_263_get_count lib info w
      else if case_id info = 264 then ARA_264_multiple_activate lib info w
      else if case_id info = 267 then ARA_267_multiple_deactivate lib info w
      else if case_id info = 270 then ARA_270_multiple_direction lib info w
      else if case_id info = 271 then ARA_271_multiple_times_direction lib info w
      else if case_id info = 272 then ARA_272_all_direction lib info w
      else if case_id info = 273 then ARA_273_multiple_input lib info w
      else if case_id info = 274 then ARA_274_multiple_times_input lib info w
      else if case_id info = 276 then ARA_276_multiple_output lib info w
      else if case_id info = 277 then ARA_277_multiple_times_output lib info w
      else if case_id info = 279 then ARA_279_get_value lib info w
      else if case_id info = 281 then ARA_281_set_value_high lib info w
      else if case_id info = 282 then ARA_282_set_value_low lib info w
      else if case_id info = 286 then ARA_286_set_edge_rising lib info w
      else if case_id info = 287 then ARA_287_set_edge_falling lib info w
      else if case_id info = 288 then ARA_288_set_edge_both lib info w
      else if case_id info = 409 then ARA_409_input_to_output lib info w
      else if case_id info = 410 then ARA_410_output_to_input lib info w
      else if case_id info = 411 then ARA_411_falling_to_rising lib info w
      else if case_id info = 412 then ARA_412_rising_to_falling lib info w
      else if case_id info = 413 then ARA_413_rising_to_both lib info w
      else if case_id info = 416 then ARA_416_none_to_both lib info w
      else if case_id info = 417 then ARA_417_both_to_none lib info w
      else (- EINVAL, (fst w, snd w @ [PrintLog 0 ''Error: The command had error case_id.''])))"

definition default_params :: gpio_app_info where
  "default_params =
     \<lparr>case_id = 0, base_pin = 0, max_count = 0, gpio_pin1 = 0, gpio_pin2 = 0, gpio_pin3 = 0,
      num_type = []\<rparr>"

text \<open>
  \<^verbatim>\<open>command_parse\<close> loops over what \<^verbatim>\<open>getopt\<close> returns: the option letter with its
  argument, here a list.  A letter outside \<^verbatim>\<open>c C t T 1 2 3\<close> ends the parse with
  \<^verbatim>\<open>-EINVAL\<close>.

  The tag is copied with \<^verbatim>\<open>snprintf(info->num_type, strlen(optarg) + 1, "%s", optarg)\<close>
  into \<^verbatim>\<open>char num_type[2]\<close>: the size passed is that of the argument, not of the array.
  An argument of at most one character is copied whole, with its terminating NUL.  A
  longer one is written past the end of the array, which is the last member of
  \<^verbatim>\<open>struct gpio_app_info\<close>; the behaviour of the program is undefined from there on.
  The numbers are converted with \<^verbatim>\<open>(uint16_t)atoi(optarg)\<close>, which is undefined when
  the value does not fit an \<^verbatim>\<open>int\<close>.  The result \<^term>\<open>None\<close> stands for these two
  cases: the C program has no defined result.
\<close>

fun command_parse ::
  "gpio_app_info \<Rightarrow> (char \<times> string) list \<Rightarrow> event list \<Rightarrow>
     (int \<times> gpio_app_info \<times> event list) option" where
  "command_parse info [] t = Some (0, info, t)"
| "command_parse info ((option, optarg) # rest) t =
     (if option = CHR ''c'' \<or> option = CHR ''C'' then
        (if atoi_defined optarg then
           command_parse (info\<lparr>case_id := word_of_int (atoi optarg)\<rparr>) rest t
         else None)
      else if option = CHR ''t'' \<or> option = CHR ''T'' then
        (if strlen optarg < 2 then
           command_parse (info\<lparr>num_type := take (strlen optarg) optarg\<rparr>) rest t
         else None)
      else if option = CHR ''1'' then
        (if atoi_defined optarg then
           command_parse (info\<lparr>gpio_pin1 := word_of_int (atoi optarg)\<rparr>) rest t
         else None)
      else if option = CHR ''2'' then
        (if atoi_defined optarg then
           command_parse (info\<lparr>gpio_pin2 := word_of_int (atoi optarg)\<rparr>) rest t
         else None)
      else if option = CHR ''3'' then
        (if atoi_defined optarg then
           command_parse (info\<lparr>gpio_pin3 := word_of_int (atoi optarg)\<rparr>) rest t
         else None)
      else Some (- EINVAL, info, t @ [PrintUsage]))"

text \<open>
  \<^verbatim>\<open>main\<close>.  \<^verbatim>\<open>check_greybus_gpio\<close> belongs to the absent library too: it is the
  parameter \<open>check_gpio\<close>, which returns a code, the base pin and the line count.  The
  parser runs only when there are at least three arguments; where it has no defined
  result, neither has \<^verbatim>\<open>main\<close>.
\<close>

definition main ::
  "'d gpio_lib \<Rightarrow> ('d \<Rightarrow> (int \<times> int \<times> int) \<times> 'd) \<Rightarrow> int \<Rightarrow> (char \<times> string) list \<Rightarrow>
     'd world \<Rightarrow> (int \<times> 'd world) option" where
  "main lib check_gpio argc opts w =
     (let (d, t) = w;
          ret = 0;
          (ret, t) = (if argc < 3 then (- EINVAL, t @ [PrintUsage]) else (ret, t));
          info = default_params
      in case (if ret = 0 then
                 map_option (\<lambda>(r, info, t). ((if r \<noteq> 0 then - EINVAL else ret), info, t))
                   (command_parse info opts t)
               else Some (ret, info, t)) of
           None \<Rightarrow> None
         | Some (ret, info, t) \<Rightarrow>
             (let (ret, info, d, t) =
                    (if ret = 0 then
                       (let ((r, base, count), d) = check_gpio d;
                            info = info\<lparr>base_pin := word_of_int base,
                                         max_count := word_of_int count\<rparr>
                        in (r, info, d,
                            t @ [CheckGreybusGpio r base count, CheckStepResult (case_id info) r]))
                     else (ret, info, d, t));
                  (ret, d, t) =
                    (if ret = 0 then
                       (let (r, (d, t)) = switch_case_number lib info (d, t)
                        in (r, d, t @ [CheckStepResult (case_id info) r]))
                     else (ret, d, t))
              in Some (ret, (d, t))))"

subsection \<open>Observing a run\<close>

text \<open>
  A run of the dispatcher from an empty trace: its return value and the trace it leaves.
\<close>

definition run_ret :: "'d gpio_lib \<Rightarrow> gpio_app_info \<Rightarrow> 'd \<Rightarrow> int" where
  "run_ret lib info d = fst (switch_case_number lib info (d, []))"

definition run_trace :: "'d gpio_lib \<Rightarrow> gpio_app_info \<Rightarrow> 'd \<Rightarrow> event list" where
  "run_trace lib info d = snd (snd (switch_case_number lib info (d, [])))"

definition run_dev :: "'d gpio_lib \<Rightarrow> gpio_app_info \<Rightarrow> 'd \<Rightarrow> 'd" where
  "run_dev lib info d = fst (snd (switch_case_number lib info (d, [])))"

text \<open>The case identifiers that \<^verbatim>\<open>switch_case_number\<close> has a \<^verbatim>\<open>case\<close> label for.\<close>

definition recognized :: "16 word set" where
  "recognized =
     {263, 264, 267, 270, 271, 272, 273, 274, 276, 277, 279, 281, 282, 286, 287, 288,
      409, 410, 411, 412, 413, 416, 417}"

text \<open>
  The addressing tags each test case has a branch for.  ARA-263 never looks at the tag;
  ARA-272 accepts all three; six test cases accept multiple and single; the others accept
  single only.
\<close>

definition tags_of :: "16 word \<Rightarrow> string list" where
  "tags_of cid =
     (if cid = 272 then [''a'', ''m'', ''s'']
      else if cid \<in> {264, 267, 270, 273, 276, 279} then [''m'', ''s'']
      else [''s''])"

definition unsupported :: "gpio_app_info \<Rightarrow> bool" where
  "unsupported info =
     (case_id info \<in> recognized \<and> case_id info \<noteq> 263 \<and>
      list_all (\<lambda>t. \<not> num_type_is info t) (tags_of (case_id info)))"

text \<open>The library calls of a trace, in order.\<close>

fun lib_calls :: "event list \<Rightarrow> lib_call list" where
  "lib_calls [] = []"
| "lib_calls (LibCall c rc txt # es) = c # lib_calls es"
| "lib_calls (e # es) = lib_calls es"

text \<open>The values passed to \<^verbatim>\<open>print_test_result\<close> and to \<^verbatim>\<open>check_step_result\<close>.\<close>

fun reported :: "event list \<Rightarrow> int list" where
  "reported [] = []"
| "reported (PrintTestResult cid v # es) = v # reported es"
| "reported (e # es) = reported es"

fun checked :: "event list \<Rightarrow> int list" where
  "checked [] = []"
| "checked (CheckStepResult cid v # es) = v # checked es"
| "checked (e # es) = checked es"

fun is_result :: "event \<Rightarrow> bool" where
  "is_result (PrintTestResult cid v) = True"
| "is_result e = False"

text \<open>
  The result of the last step of a trace: the return code of its last library call, or
  the outcome of the comparison that followed it; \<open>r\<close> when the trace has neither.
\<close>

fun step_result :: "int \<Rightarrow> event list \<Rightarrow> int" where
  "step_result r [] = r"
| "step_result r (LibCall c rc txt # es) = step_result rc es"
| "step_result r (Strcmp a b # es) = step_result (strcmp a b) es"
| "step_result r (e # es) = step_result r es"

definition before_result :: "event list \<Rightarrow> event list" where
  "before_result tr = takeWhile (\<lambda>e. \<not> is_result e) tr"

text \<open>The lines a library call addresses.\<close>

fun call_lines :: "lib_call \<Rightarrow> nat list" where
  "call_lines (GetGreybusGpioCount b sz) = []"
| "call_lines (ActivateGpioPin cid p) = [p]"
| "call_lines (ActivateGpioMultiplePin cid p1 p2 p3) = [p1, p2, p3]"
| "call_lines (DeactivateGpioPin cid p) = [p]"
| "call_lines (DeactivateGpioMultiplePin cid p1 p2 p3) = [p1, p2, p3]"
| "call_lines (GetGpioDirection cid p sz) = [p]"
| "call_lines (SetGpioDirection cid p txt sz) = [p]"
| "call_lines (GetGpioValue cid p sz) = [p]"
| "call_lines (SetGpioValue cid p txt sz) = [p]"
| "call_lines (GetGpioEdge cid p sz) = [p]"
| "call_lines (SetGpioEdge cid p txt sz) = [p]"

definition lines_touched :: "event list \<Rightarrow> nat list" where
  "lines_touched tr = concat (map call_lines (lib_calls tr))"

fun is_activate :: "lib_call \<Rightarrow> bool" where
  "is_activate (ActivateGpioPin cid p) = True"
| "is_activate (ActivateGpioMultiplePin cid p1 p2 p3) = True"
| "is_activate c = False"

fun is_deactivate :: "lib_call \<Rightarrow> bool" where
  "is_deactivate (DeactivateGpioPin cid p) = True"
| "is_deactivate (DeactivateGpioMultiplePin cid p1 p2 p3) = True"
| "is_deactivate c = False"

fun is_read :: "lib_call \<Rightarrow> bool" where
  "is_read (GetGreybusGpioCount b sz) = True"
| "is_read (GetGpioDirection cid p sz) = True"
| "is_read (GetGpioValue cid p sz) = True"
| "is_read (GetGpioEdge cid p sz) = True"
| "is_read c = False"

text \<open>
  The events that follow the call of \<^verbatim>\<open>print_test_result\<close>, and the events a recovery
  phase consists of: calls of the deactivate functions.
\<close>

definition after_result :: "event list \<Rightarrow> event list" where
  "after_result tr = drop 1 (dropWhile (\<lambda>e. \<not> is_result e) tr)"

fun is_release :: "event \<Rightarrow> bool" where
  "is_release (LibCall c rc txt) = is_deactivate c"
| "is_release e = False"

text \<open>The lines activated during a run, and the lines of the deactivations that close it.\<close>

definition activated_lines :: "event list \<Rightarrow> nat list" where
  "activated_lines tr = concat (map call_lines (filter is_activate (lib_calls tr)))"

definition closing_deactivations :: "event list \<Rightarrow> lib_call list" where
  "closing_deactivations tr = rev (takeWhile is_deactivate (rev (lib_calls tr)))"

definition released_lines :: "event list \<Rightarrow> nat list" where
  "released_lines tr = concat (map call_lines (closing_deactivations tr))"

text \<open>A list of lines that repeats the triple \<open>a, b, c\<close> in this order.\<close>

fun triples_of :: "nat \<Rightarrow> nat \<Rightarrow> nat \<Rightarrow> nat list \<Rightarrow> bool" where
  "triples_of a b c [] = True"
| "triples_of a b c (x # y # z # r) = (x = a \<and> y = b \<and> z = c \<and> triples_of a b c r)"
| "triples_of a b c r = False"

text \<open>
  The guard of every comparison.  Walking the trace with the previous event at hand:
  a \<^verbatim>\<open>strcmp\<close> must directly follow a read call that returned 0, and compare the text
  that call returned; a value reported directly after a library call must be that call's
  return code, and a value reported directly after a comparison its outcome.
\<close>

fun follows :: "event option \<Rightarrow> int \<Rightarrow> bool" where
  "follows (Some (LibCall c rc txt)) v = (v = rc)"
| "follows (Some (Strcmp a b)) v = (v = strcmp a b)"
| "follows prev v = True"

fun step_check :: "event option \<Rightarrow> event \<Rightarrow> bool" where
  "step_check (Some (LibCall c rc txt)) (Strcmp a b) = (is_read c \<and> rc = 0 \<and> a = txt)"
| "step_check prev (Strcmp a b) = False"
| "step_check prev (CheckStepResult cid v) = follows prev v"
| "step_check prev (PrintTestResult cid v) = follows prev v"
| "step_check prev e = True"

fun guarded_from :: "event option \<Rightarrow> event list \<Rightarrow> bool" where
  "guarded_from prev [] = True"
| "guarded_from prev (e # es) = (step_check prev e \<and> guarded_from (Some e) es)"

definition compare_guarded :: "event list \<Rightarrow> bool" where
  "compare_guarded tr = guarded_from None tr"

subsection \<open>Invariants of a running test case\<close>

definition calls :: "'d frame \<Rightarrow> lib_call list" where
  "calls s = lib_calls (trace s)"

text \<open>
  Before the result is printed: nothing has been printed, and \<^verbatim>\<open>ret\<close> holds the result
  of the last step.  After it: the one value printed is the result of the last step
  before the print.
\<close>

definition result_pending :: "'d frame \<Rightarrow> bool" where
  "result_pending s = (reported (trace s) = [] \<and> step_result 0 (trace s) = ret s)"

definition result_printed :: "'d frame \<Rightarrow> bool" where
  "result_printed s = (reported (trace s) = [step_result 0 (before_result (trace s))])"

text \<open>
  Before the result is printed and after a first library call; after the print, with a
  library call before it; and after the print, with \<open>n\<close> events since, all of them
  deactivation calls.
\<close>

definition step_pending :: "'d frame \<Rightarrow> bool" where
  "step_pending s = (result_pending s \<and> calls s \<noteq> [])"

definition stepped :: "'d frame \<Rightarrow> bool" where
  "stepped s = (reported (trace s) \<noteq> [] \<and> lib_calls (before_result (trace s)) \<noteq> [])"

definition recovered :: "nat \<Rightarrow> 'd frame \<Rightarrow> bool" where
  "recovered n s =
     (reported (trace s) \<noteq> [] \<and> list_all is_release (after_result (trace s)) \<and>
      length (after_result (trace s)) = n)"

definition last_event :: "event list \<Rightarrow> event option" where
  "last_event tr = (if tr = [] then None else Some (last tr))"

definition frame_guarded :: "'d frame \<Rightarrow> bool" where
  "frame_guarded s = (guarded_from None (trace s) \<and> follows (last_event (trace s)) (ret s))"

text \<open>
  What a run in a mode the test case has no branch for looks like: it returns
  \<^verbatim>\<open>-EINVAL\<close>, leaves the device as it was, makes no library call, and every value it
  reports is \<^verbatim>\<open>-EINVAL\<close>.
\<close>

definition invalid_run :: "'d \<Rightarrow> int \<times> 'd world \<Rightarrow> bool" where
  "invalid_run d r =
     (fst r = - EINVAL \<and> fst (snd r) = d \<and> lib_calls (snd (snd r)) = [] \<and>
      reported (snd (snd r)) = [- EINVAL] \<and>
      list_all (\<lambda>v. v = - EINVAL) (checked (snd (snd r))) \<and>
      compare_guarded (snd (snd r)))"

text \<open>The C view of a text: what precedes the first NUL.\<close>

definition cstring :: "string \<Rightarrow> string" where
  "cstring s = takeWhile (\<lambda>c. c \<noteq> CHR 0x00) s"

subsection \<open>Devices for concrete runs\<close>

text \<open>The text a write call passes; the devices below leave it in the buffer.\<close>

fun written_text :: "lib_call \<Rightarrow> string" where
  "written_text (SetGpioDirection cid p txt sz) = txt"
| "written_text (SetGpioValue cid p txt sz) = txt"
| "written_text (SetGpioEdge cid p txt sz) = txt"
| "written_text c = []"

text \<open>A controller on which every call succeeds and every read returns the same text.\<close>

definition stuck_lib :: "string \<Rightarrow> unit gpio_lib" where
  "stuck_lib txt c d = ((0, if is_read c then txt else written_text c), d)"

text \<open>A controller whose read calls fail with \<^verbatim>\<open>-EIO\<close>; its other calls succeed.\<close>

definition failing_reads :: "unit gpio_lib" where
  "failing_reads c d = ((if is_read c then - 5 else 0, written_text c), d)"

text \<open>
  A controller that honours writes: it remembers the last text written to each attribute
  of each line and returns it on a read.  A line reads \<open>in\<close>, \<open>0\<close> and \<open>none\<close> before
  anything is written.
\<close>

record gpio_dev =
  directions :: "nat \<Rightarrow> string"
  levels :: "nat \<Rightarrow> string"
  edges :: "nat \<Rightarrow> string"

definition fresh_dev :: gpio_dev where
  "fresh_dev = \<lparr>directions = (\<lambda>p. ''in''), levels = (\<lambda>p. ''0''), edges = (\<lambda>p. ''none'')\<rparr>"

fun honest_lib :: "gpio_dev gpio_lib" where
  "honest_lib (GetGpioDirection cid p sz) d = ((0, directions d p), d)"
| "honest_lib (SetGpioDirection cid p txt sz) d =
     ((0, txt), d\<lparr>directions := (directions d)(p := txt)\<rparr>)"
| "honest_lib (GetGpioValue cid p sz) d = ((0, levels d p), d)"
| "honest_lib (SetGpioValue cid p txt sz) d = ((0, txt), d\<lparr>levels := (levels d)(p := txt)\<rparr>)"
| "honest_lib (GetGpioEdge cid p sz) d = ((0, edges d p), d)"
| "honest_lib (SetGpioEdge cid p txt sz) d = ((0, txt), d\<lparr>edges := (edges d)(p := txt)\<rparr>)"
| "honest_lib c d = ((0, []), d)"

text \<open>The same controller, except that every deactivation fails with \<^verbatim>\<open>-EIO\<close>.\<close>

definition failing_release :: "gpio_dev gpio_lib" where
  "failing_release c d = (if is_deactivate c then ((- 5, []), d) else honest_lib c d)"

text \<open>A discovery call that succeeds and reports base pin \<open>b\<close> and \<open>n\<close> lines.\<close>

definition found_gpio :: "int \<Rightarrow> int \<Rightarrow> 'd \<Rightarrow> (int \<times> int \<times> int) \<times> 'd" where
  "found_gpio b n d = ((0, b, n), d)"

text \<open>Arguments for concrete runs: the controller's lines start at 100.\<close>

definition test_info ::
  "16 word \<Rightarrow> string \<Rightarrow> 16 word \<Rightarrow> 16 word \<Rightarrow> 16 word \<Rightarrow> 16 word \<Rightarrow> gpio_app_info" where
  "test_info cid tag n p1 p2 p3 =
     \<lparr>case_id = cid, base_pin = 100, max_count = n, gpio_pin1 = p1, gpio_pin2 = p2,
      gpio_pin3 = p3, num_type = tag\<rparr>"

section \<open>Properties\<close>

subsection \<open>The loop and the statements, seen through the frame\<close>

lemma for_loop_fold: "for_loop i n body s = fold body [i..<n] s"
proof (induction i n body s rule: for_loop.induct)
  case (1 i n body s)
  show ?case
  proof (cases "i < n")
    case True
    with 1 show ?thesis
      by (subst for_loop.simps) (simp add: upt_rec)
  next
    case False
    then show ?thesis
      by (subst for_loop.simps) simp
  qed
qed

lemma for_loop_step: "i < n \<Longrightarrow> for_loop i n body s = for_loop (Suc i) n body (body i s)"
  by (subst for_loop.simps) simp

lemma for_loop_done: "\<not> i < n \<Longrightarrow> for_loop i n body s = s"
  by (subst for_loop.simps) simp

lemma for_loop_ten:
  "for_loop 0 10 body s =
     body 9 (body 8 (body 7 (body 6 (body 5 (body 4 (body 3 (body 2 (body 1 (body 0 s)))))))))"
  by (simp add: for_loop_fold upt_rec eval_nat_numeral)

lemma for_loop_preserves:
  assumes "\<And>i s. P s \<Longrightarrow> P (body i s)" and "P s"
  shows "P (for_loop i n body s)"
proof -
  have "P s \<Longrightarrow> P (fold body xs s)" for xs
    by (induction xs arbitrary: s) (simp_all add: assms(1))
  with assms(2) show ?thesis
    by (simp add: for_loop_fold)
qed

lemmas wrappers =
  activate_gpio_pin_def activate_gpio_multiple_pin_def deactivate_gpio_pin_def
  deactivate_gpio_multiple_pin_def get_gpio_direction_def set_gpio_direction_def
  get_gpio_value_def set_gpio_value_def get_gpio_edge_def set_gpio_edge_def
  get_greybus_gpio_count_def

lemma call_ret_sel:
  "ret (call_ret lib c s) = fst (fst (lib c (dev s)))"
  "buf (call_ret lib c s) = buf s"
  "dev (call_ret lib c s) = snd (lib c (dev s))"
  "trace (call_ret lib c s) =
     trace s @ [LibCall c (fst (fst (lib c (dev s)))) (snd (fst (lib c (dev s))))]"
  by (simp_all add: call_ret_def split_beta)

lemma call_buf_sel:
  "ret (call_buf lib c s) = fst (fst (lib c (dev s)))"
  "buf (call_buf lib c s) = snd (fst (lib c (dev s)))"
  "dev (call_buf lib c s) = snd (lib c (dev s))"
  "trace (call_buf lib c s) =
     trace s @ [LibCall c (fst (fst (lib c (dev s)))) (snd (fst (lib c (dev s))))]"
  by (simp_all add: call_buf_def split_beta)

lemma report_sel:
  "ret (check_step_result cid s) = ret s"
  "buf (check_step_result cid s) = buf s"
  "dev (check_step_result cid s) = dev s"
  "trace (check_step_result cid s) = trace s @ [CheckStepResult cid (ret s)]"
  "ret (print_test_result cid s) = ret s"
  "buf (print_test_result cid s) = buf s"
  "dev (print_test_result cid s) = dev s"
  "trace (print_test_result cid s) = trace s @ [PrintTestResult cid (ret s)]"
  "ret (print_log cid msg s) = ret s"
  "buf (print_log cid msg s) = buf s"
  "dev (print_log cid msg s) = dev s"
  "trace (print_log cid msg s) = trace s @ [PrintLog cid msg]"
  by (simp_all add: check_step_result_def print_test_result_def print_log_def)

lemma strcpy_sel:
  "ret (strcpy_buf txt s) = ret s"
  "buf (strcpy_buf txt s) = txt"
  "dev (strcpy_buf txt s) = dev s"
  "trace (strcpy_buf txt s) = trace s"
  by (simp_all add: strcpy_buf_def)

lemma verify_sel:
  "ret (if_not_ret (strcmp_buf lit) s) = (if ret s = 0 then strcmp (buf s) lit else ret s)"
  "buf (if_not_ret (strcmp_buf lit) s) = buf s"
  "dev (if_not_ret (strcmp_buf lit) s) = dev s"
  "trace (if_not_ret (strcmp_buf lit) s) =
     (if ret s = 0 then trace s @ [Strcmp (buf s) lit] else trace s)"
  by (simp_all add: if_not_ret_def strcmp_buf_def)

lemma enter_sel:
  "ret (enter w) = 0"
  "buf (enter w) = []"
  "dev (enter w) = fst w"
  "trace (enter w) = snd w"
  by (simp_all add: enter_def)

lemmas frame_sel = call_ret_sel call_buf_sel report_sel strcpy_sel verify_sel enter_sel

subsection \<open>Monitors and concatenation\<close>

lemma lib_calls_append [simp]: "lib_calls (xs @ ys) = lib_calls xs @ lib_calls ys"
  by (induction xs rule: lib_calls.induct) simp_all

lemma reported_append [simp]: "reported (xs @ ys) = reported xs @ reported ys"
  by (induction xs rule: reported.induct) simp_all

lemma checked_append [simp]: "checked (xs @ ys) = checked xs @ checked ys"
  by (induction xs rule: checked.induct) simp_all

lemma step_result_append: "step_result r (xs @ ys) = step_result (step_result r xs) ys"
  by (induction r xs rule: step_result.induct) simp_all

lemma reported_empty_iff: "reported xs = [] \<longleftrightarrow> (\<forall>e \<in> set xs. \<not> is_result e)"
  by (induction xs rule: reported.induct) simp_all

lemma before_result_all: "reported xs = [] \<Longrightarrow> before_result (xs @ PrintTestResult cid v # ys) = xs"
  by (simp add: before_result_def reported_empty_iff)

lemma before_result_more: "reported xs \<noteq> [] \<Longrightarrow> before_result (xs @ ys) = before_result xs"
  by (auto simp: before_result_def reported_empty_iff)

subsection \<open>The library calls of a frame\<close>

lemma calls_simps [simp]:
  "calls (call_ret lib c s) = calls s @ [c]"
  "calls (call_buf lib c s) = calls s @ [c]"
  "calls (check_step_result cid s) = calls s"
  "calls (print_test_result cid s) = calls s"
  "calls (print_log cid msg s) = calls s"
  "calls (strcpy_buf txt s) = calls s"
  "calls (if_not_ret (strcmp_buf lit) s) = calls s"
  "calls (s\<lparr>ret := r\<rparr>) = calls s"
  "calls (enter w) = lib_calls (snd w)"
  by (simp_all add: calls_def frame_sel)

lemma calls_leave [simp]: "lib_calls (snd (snd (leave s))) = calls s"
  by (simp add: calls_def leave_def)

lemma calls_for_loop:
  assumes "\<And>i s. calls (body i s) = calls s @ [f i]"
  shows "calls (for_loop i n body s) = calls s @ map f [i..<n]"
proof -
  have "calls (fold body xs s) = calls s @ map f xs" for xs
    by (induction xs arbitrary: s) (simp_all add: assms)
  then show ?thesis
    by (simp add: for_loop_fold)
qed

subsection \<open>The printed result is the last step's result\<close>

lemma pending_enter: "result_pending (enter (d, []))"
  by (simp add: result_pending_def frame_sel)

lemma pending_call:
  "result_pending s \<Longrightarrow> result_pending (call_ret lib c s)"
  "result_pending s \<Longrightarrow> result_pending (call_buf lib c s)"
  by (simp_all add: result_pending_def frame_sel step_result_append)

lemma pending_steps:
  "result_pending s \<Longrightarrow> result_pending (check_step_result cid s)"
  "result_pending s \<Longrightarrow> result_pending (print_log cid msg s)"
  "result_pending s \<Longrightarrow> result_pending (strcpy_buf txt s)"
  "result_pending s \<Longrightarrow> result_pending (if_not_ret (strcmp_buf lit) s)"
  by (simp_all add: result_pending_def frame_sel step_result_append)

lemma pending_wrappers:
  "result_pending s \<Longrightarrow> result_pending (activate_gpio_pin lib cid p s)"
  "result_pending s \<Longrightarrow> result_pending (activate_gpio_multiple_pin lib cid p1 p2 p3 s)"
  "result_pending s \<Longrightarrow> result_pending (deactivate_gpio_pin lib cid p s)"
  "result_pending s \<Longrightarrow> result_pending (deactivate_gpio_multiple_pin lib cid p1 p2 p3 s)"
  "result_pending s \<Longrightarrow> result_pending (get_gpio_direction lib cid p sz s)"
  "result_pending s \<Longrightarrow> result_pending (set_gpio_direction lib cid p sz s)"
  "result_pending s \<Longrightarrow> result_pending (get_gpio_value lib cid p sz s)"
  "result_pending s \<Longrightarrow> result_pending (set_gpio_value lib cid p sz s)"
  "result_pending s \<Longrightarrow> result_pending (get_gpio_edge lib cid p sz s)"
  "result_pending s \<Longrightarrow> result_pending (set_gpio_edge lib cid p sz s)"
  "result_pending s \<Longrightarrow> result_pending (get_greybus_gpio_count lib b sz s)"
  by (simp_all add: wrappers pending_call)

lemma pending_for_loop:
  "(\<And>i s. result_pending s \<Longrightarrow> result_pending (body i s)) \<Longrightarrow> result_pending s \<Longrightarrow>
     result_pending (for_loop i n body s)"
  by (rule for_loop_preserves)

lemma printed_print: "result_pending s \<Longrightarrow> result_printed (print_test_result cid s)"
  by (simp add: result_pending_def result_printed_def frame_sel before_result_all)

lemma printed_call: "result_printed s \<Longrightarrow> result_printed (call_ret lib c s)"
  by (simp add: result_printed_def frame_sel before_result_more)

lemma printed_wrappers:
  "result_printed s \<Longrightarrow> result_printed (deactivate_gpio_pin lib cid p s)"
  "result_printed s \<Longrightarrow> result_printed (deactivate_gpio_multiple_pin lib cid p1 p2 p3 s)"
  by (simp_all add: wrappers printed_call)

lemma printed_for_loop:
  "(\<And>i s. result_printed s \<Longrightarrow> result_printed (body i s)) \<Longrightarrow> result_printed s \<Longrightarrow>
     result_printed (for_loop i n body s)"
  by (rule for_loop_preserves)

lemma printed_leave:
  "result_printed s \<Longrightarrow>
     reported (snd (snd (leave s))) = [step_result 0 (before_result (snd (snd (leave s))))]"
  by (simp add: result_printed_def leave_def)

lemmas result_rules =
  pending_enter pending_steps pending_wrappers pending_for_loop
  printed_print printed_wrappers printed_for_loop


subsection \<open>Every comparison is guarded by a successful read\<close>

lemma last_event_snoc [simp]: "last_event (xs @ [e]) = Some e"
  by (simp add: last_event_def)

lemma guarded_from_append:
  "guarded_from prev (xs @ ys) =
     (guarded_from prev xs \<and> guarded_from (if xs = [] then prev else Some (last xs)) ys)"
  by (induction xs arbitrary: prev) simp_all

lemma guarded_from_snoc:
  "guarded_from None (xs @ [e]) = (guarded_from None xs \<and> step_check (last_event xs) e)"
  by (simp add: guarded_from_append last_event_def)

lemma guarded_enter: "frame_guarded (enter (d, []))"
  by (simp add: frame_guarded_def frame_sel last_event_def)

lemma guarded_call:
  "frame_guarded s \<Longrightarrow> frame_guarded (call_ret lib c s)"
  "frame_guarded s \<Longrightarrow> frame_guarded (call_buf lib c s)"
  by (simp_all add: frame_guarded_def frame_sel guarded_from_snoc)

lemma guarded_steps:
  "frame_guarded s \<Longrightarrow> frame_guarded (check_step_result cid s)"
  "frame_guarded s \<Longrightarrow> frame_guarded (print_test_result cid s)"
  "frame_guarded s \<Longrightarrow> frame_guarded (print_log cid msg s)"
  "frame_guarded s \<Longrightarrow> frame_guarded (strcpy_buf txt s)"
  by (simp_all add: frame_guarded_def frame_sel guarded_from_snoc)

lemma guarded_verify:
  "frame_guarded s \<Longrightarrow> is_read c \<Longrightarrow> frame_guarded (if_not_ret (strcmp_buf lit) (call_buf lib c s))"
  by (auto simp: frame_guarded_def frame_sel guarded_from_append last_event_def)

lemma guarded_wrappers:
  "frame_guarded s \<Longrightarrow> frame_guarded (activate_gpio_pin lib cid p s)"
  "frame_guarded s \<Longrightarrow> frame_guarded (activate_gpio_multiple_pin lib cid p1 p2 p3 s)"
  "frame_guarded s \<Longrightarrow> frame_guarded (deactivate_gpio_pin lib cid p s)"
  "frame_guarded s \<Longrightarrow> frame_guarded (deactivate_gpio_multiple_pin lib cid p1 p2 p3 s)"
  "frame_guarded s \<Longrightarrow> frame_guarded (get_gpio_direction lib cid p sz s)"
  "frame_guarded s \<Longrightarrow> frame_guarded (set_gpio_direction lib cid p sz s)"
  "frame_guarded s \<Longrightarrow> frame_guarded (get_gpio_value lib cid p sz s)"
  "frame_guarded s \<Longrightarrow> frame_guarded (set_gpio_value lib cid p sz s)"
  "frame_guarded s \<Longrightarrow> frame_guarded (get_gpio_edge lib cid p sz s)"
  "frame_guarded s \<Longrightarrow> frame_guarded (set_gpio_edge lib cid p sz s)"
  "frame_guarded s \<Longrightarrow> frame_guarded (get_greybus_gpio_count lib b sz s)"
  by (simp_all add: wrappers guarded_call)

lemma guarded_verify_wrappers:
  "frame_guarded s \<Longrightarrow>
     frame_guarded (if_not_ret (strcmp_buf lit) (get_gpio_direction lib cid p sz s))"
  "frame_guarded s \<Longrightarrow>
     frame_guarded (if_not_ret (strcmp_buf lit) (get_gpio_value lib cid p sz s))"
  "frame_guarded s \<Longrightarrow>
     frame_guarded (if_not_ret (strcmp_buf lit) (get_gpio_edge lib cid p sz s))"
  by (simp_all add: wrappers guarded_verify)

lemma guarded_for_loop:
  "(\<And>i s. frame_guarded s \<Longrightarrow> frame_guarded (body i s)) \<Longrightarrow> frame_guarded s \<Longrightarrow>
     frame_guarded (for_loop i n body s)"
  by (rule for_loop_preserves)

lemma guarded_leave: "frame_guarded s \<Longrightarrow> compare_guarded (snd (snd (leave s)))"
  by (simp add: frame_guarded_def compare_guarded_def leave_def)

lemmas guarded_rules =
  guarded_enter guarded_steps guarded_wrappers guarded_verify_wrappers guarded_for_loop

lemmas report_defs = check_step_result_def print_test_result_def print_log_def enter_def leave_def

subsection \<open>The addressing tag\<close>

lemma tolower_zero: "tolower x = 0 \<longleftrightarrow> x = 0"
  by (simp add: tolower_def)

lemma num_type_is_letter:
  "num_type_is info ''a'' \<longleftrightarrow>
     tolower (byte_at (num_type info)) = 97 \<and> byte_at (tl (num_type info)) = 0"
  "num_type_is info ''m'' \<longleftrightarrow>
     tolower (byte_at (num_type info)) = 109 \<and> byte_at (tl (num_type info)) = 0"
  "num_type_is info ''s'' \<longleftrightarrow>
     tolower (byte_at (num_type info)) = 115 \<and> byte_at (tl (num_type info)) = 0"
  by (auto simp: num_type_is_def eval_nat_numeral Let_def byte_at_def tolower_def
      split: list.splits if_splits)

lemma tags_exclusive:
  "num_type_is info ''a'' \<Longrightarrow> \<not> num_type_is info ''m''"
  "num_type_is info ''a'' \<Longrightarrow> \<not> num_type_is info ''s''"
  "num_type_is info ''m'' \<Longrightarrow> \<not> num_type_is info ''s''"
  "num_type_is info ''m'' \<Longrightarrow> \<not> num_type_is info ''a''"
  "num_type_is info ''s'' \<Longrightarrow> \<not> num_type_is info ''a''"
  "num_type_is info ''s'' \<Longrightarrow> \<not> num_type_is info ''m''"
  by (simp_all add: num_type_is_letter)

lemma of_char_int_eq: "(of_char c :: int) = of_char c' \<longleftrightarrow> c = c'"
  by simp

lemma letter_codes:
  "(of_char c :: int) = 97 \<longleftrightarrow> c = CHR ''a''" "(of_char c :: int) = 65 \<longleftrightarrow> c = CHR ''A''"
  "(of_char c :: int) = 109 \<longleftrightarrow> c = CHR ''m''" "(of_char c :: int) = 77 \<longleftrightarrow> c = CHR ''M''"
  "(of_char c :: int) = 115 \<longleftrightarrow> c = CHR ''s''" "(of_char c :: int) = 83 \<longleftrightarrow> c = CHR ''S''"
  "(of_char c :: int) = 0 \<longleftrightarrow> c = CHR 0x00"
  using of_char_int_eq [of c "CHR ''a''"] of_char_int_eq [of c "CHR ''A''"]
    of_char_int_eq [of c "CHR ''m''"] of_char_int_eq [of c "CHR ''M''"]
    of_char_int_eq [of c "CHR ''s''"] of_char_int_eq [of c "CHR ''S''"]
    of_char_int_eq [of c "CHR 0x00"]
  by simp_all

lemma of_char_nonneg: "0 \<le> (of_char c :: int)"
  by (cases c) simp

lemma tolower_letter:
  "tolower (of_char c) = 97 \<longleftrightarrow> c = CHR ''a'' \<or> c = CHR ''A''"
  "tolower (of_char c) = 109 \<longleftrightarrow> c = CHR ''m'' \<or> c = CHR ''M''"
  "tolower (of_char c) = 115 \<longleftrightarrow> c = CHR ''s'' \<or> c = CHR ''S''"
proof -
  have a: "tolower x = 97 \<longleftrightarrow> x = 97 \<or> x = 65" for x
    by (auto simp: tolower_def)
  have m: "tolower x = 109 \<longleftrightarrow> x = 109 \<or> x = 77" for x
    by (auto simp: tolower_def)
  have s: "tolower x = 115 \<longleftrightarrow> x = 115 \<or> x = 83" for x
    by (auto simp: tolower_def)
  show "tolower (of_char c) = 97 \<longleftrightarrow> c = CHR ''a'' \<or> c = CHR ''A''"
    by (simp add: a letter_codes)
  show "tolower (of_char c) = 109 \<longleftrightarrow> c = CHR ''m'' \<or> c = CHR ''M''"
    by (simp add: m letter_codes)
  show "tolower (of_char c) = 115 \<longleftrightarrow> c = CHR ''s'' \<or> c = CHR ''S''"
    by (simp add: s letter_codes)
qed

lemma cstring_empty: "cstring s = [] \<longleftrightarrow> byte_at s = 0"
  by (cases s) (simp_all add: cstring_def byte_at_def letter_codes)


lemma byte_at_simps [simp]: "byte_at [] = 0" "byte_at (c # cs) = of_char c"
  by (simp_all add: byte_at_def)

lemma cstring_single:
  "cstring (x # xs) = [y] \<longleftrightarrow> x = y \<and> x \<noteq> CHR 0x00 \<and> byte_at xs = 0"
  using cstring_empty [of xs] by (auto simp: cstring_def)

lemma num_type_is_cstring:
  "num_type_is info ''a'' \<longleftrightarrow> cstring (num_type info) = ''a'' \<or> cstring (num_type info) = ''A''"
  "num_type_is info ''m'' \<longleftrightarrow> cstring (num_type info) = ''m'' \<or> cstring (num_type info) = ''M''"
  "num_type_is info ''s'' \<longleftrightarrow> cstring (num_type info) = ''s'' \<or> cstring (num_type info) = ''S''"
proof -
  have nil: "cstring [] = []" "tolower 0 = 0"
    by (simp_all add: cstring_def tolower_def)
  show "num_type_is info ''a'' \<longleftrightarrow> cstring (num_type info) = ''a'' \<or> cstring (num_type info) = ''A''"
  proof (cases "num_type info")
    case Nil
    then show ?thesis by (simp add: num_type_is_letter nil)
  next
    case (Cons x xs)
    then show ?thesis by (auto simp: num_type_is_letter cstring_single tolower_letter)
  qed
  show "num_type_is info ''m'' \<longleftrightarrow> cstring (num_type info) = ''m'' \<or> cstring (num_type info) = ''M''"
  proof (cases "num_type info")
    case Nil
    then show ?thesis by (simp add: num_type_is_letter nil)
  next
    case (Cons x xs)
    then show ?thesis by (auto simp: num_type_is_letter cstring_single tolower_letter)
  qed
  show "num_type_is info ''s'' \<longleftrightarrow> cstring (num_type info) = ''s'' \<or> cstring (num_type info) = ''S''"
  proof (cases "num_type info")
    case Nil
    then show ?thesis by (simp add: num_type_is_letter nil)
  next
    case (Cons x xs)
    then show ?thesis by (auto simp: num_type_is_letter cstring_single tolower_letter)
  qed
qed

subsection \<open>The main sequence, the print, the recovery phase\<close>

lemma after_result_print:
  "reported xs = [] \<Longrightarrow> after_result (xs @ PrintTestResult cid v # ys) = ys"
  by (simp add: after_result_def reported_empty_iff dropWhile_append2)

lemma after_result_more: "reported xs \<noteq> [] \<Longrightarrow> after_result (xs @ ys) = after_result xs @ ys"
proof -
  assume "reported xs \<noteq> []"
  then obtain e where e: "e \<in> set xs" "is_result e"
    by (auto simp: reported_empty_iff)
  then have d: "dropWhile (\<lambda>e. \<not> is_result e) (xs @ ys) = dropWhile (\<lambda>e. \<not> is_result e) xs @ ys"
    by (simp add: dropWhile_append1)
  from e have "dropWhile (\<lambda>e. \<not> is_result e) xs \<noteq> []"
    by auto
  then obtain z zs where "dropWhile (\<lambda>e. \<not> is_result e) xs = z # zs"
    by (cases "dropWhile (\<lambda>e. \<not> is_result e) xs") auto
  with d show ?thesis
    by (simp add: after_result_def)
qed

lemma lib_calls_before_result: "lib_calls tr = [] \<Longrightarrow> lib_calls (before_result tr) = []"
  unfolding before_result_def by (induction tr rule: lib_calls.induct) simp_all

lemma step_first:
  "result_pending s \<Longrightarrow> step_pending (activate_gpio_pin lib cid p s)"
  "result_pending s \<Longrightarrow> step_pending (activate_gpio_multiple_pin lib cid p1 p2 p3 s)"
  "result_pending s \<Longrightarrow> step_pending (deactivate_gpio_pin lib cid p s)"
  "result_pending s \<Longrightarrow> step_pending (deactivate_gpio_multiple_pin lib cid p1 p2 p3 s)"
  "result_pending s \<Longrightarrow> step_pending (get_gpio_direction lib cid p sz s)"
  "result_pending s \<Longrightarrow> step_pending (set_gpio_direction lib cid p sz s)"
  "result_pending s \<Longrightarrow> step_pending (get_gpio_value lib cid p sz s)"
  "result_pending s \<Longrightarrow> step_pending (set_gpio_value lib cid p sz s)"
  "result_pending s \<Longrightarrow> step_pending (get_gpio_edge lib cid p sz s)"
  "result_pending s \<Longrightarrow> step_pending (set_gpio_edge lib cid p sz s)"
  "result_pending s \<Longrightarrow> step_pending (get_greybus_gpio_count lib b sz s)"
  by (simp_all add: step_pending_def pending_wrappers) (simp_all add: wrappers)

lemma step_more:
  "step_pending s \<Longrightarrow> step_pending (check_step_result cid s)"
  "step_pending s \<Longrightarrow> step_pending (print_log cid msg s)"
  "step_pending s \<Longrightarrow> step_pending (strcpy_buf tx s)"
  "step_pending s \<Longrightarrow> step_pending (if_not_ret (strcmp_buf lit) s)"
  by (simp_all add: step_pending_def pending_steps)

lemma stepped_print: "step_pending s \<Longrightarrow> stepped (print_test_result cid s)"
  by (simp add: step_pending_def result_pending_def stepped_def frame_sel before_result_all
      calls_def)

lemma stepped_call: "stepped s \<Longrightarrow> stepped (call_ret lib c s)"
  by (simp add: stepped_def frame_sel before_result_more)

lemma stepped_release:
  "stepped s \<Longrightarrow> stepped (deactivate_gpio_pin lib cid p s)"
  "stepped s \<Longrightarrow> stepped (deactivate_gpio_multiple_pin lib cid p1 p2 p3 s)"
  by (simp_all add: wrappers stepped_call)

lemma stepped_leave: "stepped s \<Longrightarrow> lib_calls (before_result (snd (snd (leave s)))) \<noteq> []"
  by (simp add: stepped_def leave_def)

lemma recovered_print: "result_pending s \<Longrightarrow> recovered 0 (print_test_result cid s)"
  by (simp add: result_pending_def recovered_def frame_sel after_result_print)

lemma recovered_call:
  "recovered n s \<Longrightarrow> is_deactivate c \<Longrightarrow> recovered (Suc n) (call_ret lib c s)"
  by (simp add: recovered_def frame_sel after_result_more)

lemma recovered_release:
  "recovered n s \<Longrightarrow> recovered (Suc n) (deactivate_gpio_pin lib cid p s)"
  "recovered n s \<Longrightarrow> recovered (Suc n) (deactivate_gpio_multiple_pin lib cid p1 p2 p3 s)"
  by (simp_all add: wrappers recovered_call)

lemma recovered_leave:
  "recovered n s \<Longrightarrow>
     list_all is_release (after_result (snd (snd (leave s)))) \<and>
     length (after_result (snd (snd (leave s)))) = n"
  by (simp add: recovered_def leave_def)

lemma recovered_nothing: "recovered 0 s \<Longrightarrow> after_result (snd (snd (leave s))) = []"
  by (simp add: recovered_def leave_def)

lemma recovered_for_loop:
  assumes "\<And>i k s. recovered k s \<Longrightarrow> recovered (Suc k) (body i s)" and "recovered k s"
  shows "recovered (k + (n - i)) (for_loop i n body s)"
proof -
  have "recovered k s \<Longrightarrow> recovered (k + length xs) (fold body xs s)" for xs k s
  proof (induction xs arbitrary: k s)
    case Nil
    then show ?case by simp
  next
    case (Cons x xs)
    from Cons.IH [OF assms(1) [OF Cons.prems], of x] show ?case by simp
  qed
  from this [OF assms(2), of "[i..<n]"] show ?thesis
    by (simp add: for_loop_fold)
qed

lemma before_result_call:
  "reported (trace s) \<noteq> [] \<Longrightarrow>
     before_result (trace (call_ret lib c s)) = before_result (trace s)"
  by (simp add: frame_sel before_result_more)

lemma before_result_for_loop:
  assumes "\<And>i s. reported (trace s) \<noteq> [] \<Longrightarrow>
             reported (trace (body i s)) \<noteq> [] \<and>
             before_result (trace (body i s)) = before_result (trace s)"
    and "reported (trace s) \<noteq> []"
  shows "before_result (trace (for_loop i n body s)) = before_result (trace s)"
proof -
  have "reported (trace (for_loop i n body s)) \<noteq> [] \<and>
        before_result (trace (for_loop i n body s)) = before_result (trace s)"
    by (rule for_loop_preserves [where P = "\<lambda>s'. reported (trace s') \<noteq> [] \<and>
          before_result (trace s') = before_result (trace s)"])
       (use assms in auto)
  then show ?thesis ..
qed

lemmas phase_rules =
  pending_enter pending_steps pending_wrappers pending_for_loop step_first step_more
  stepped_print stepped_release recovered_print recovered_release

subsection \<open>Each test case, mode by mode\<close>

text \<open>ARA-263 has no addressing branch.\<close>

lemma ARA_263_result:
  "reported (snd (snd (ARA_263_get_count lib info (d, [])))) =
     [step_result 0 (before_result (snd (snd (ARA_263_get_count lib info (d, [])))))]"
  by (simp add: ARA_263_get_count_def Let_def) (intro printed_leave result_rules)

lemma ARA_263_guarded: "compare_guarded (snd (snd (ARA_263_get_count lib info (d, []))))"
  by (simp add: ARA_263_get_count_def Let_def) (intro guarded_leave guarded_rules)

lemma ARA_263_stepped:
  "lib_calls (before_result (snd (snd (ARA_263_get_count lib info (d, []))))) \<noteq> []"
  by (simp add: ARA_263_get_count_def Let_def) (intro stepped_leave phase_rules)

lemma ARA_263_recovered:
  "after_result (snd (snd (ARA_263_get_count lib info (d, [])))) = []"
  by (simp add: ARA_263_get_count_def Let_def) (intro recovered_nothing phase_rules)

lemma ARA_263_calls:
  "lib_calls (snd (snd (ARA_263_get_count lib info (d, [])))) =
     [GetGreybusGpioCount (unat (base_pin info)) 4]"
  by (simp add: ARA_263_get_count_def Let_def wrappers)

text \<open>ARA-264.\<close>

lemma ARA_264_invalid:
  "\<not> num_type_is info ''m'' \<Longrightarrow> \<not> num_type_is info ''s'' \<Longrightarrow> invalid_run d (ARA_264_multiple_activate lib info (d, []))"
  by (simp add: ARA_264_multiple_activate_def Let_def report_defs for_loop_ten invalid_run_def compare_guarded_def)

lemma ARA_264_invalid_ret:
  "\<not> num_type_is info ''m'' \<Longrightarrow> \<not> num_type_is info ''s'' \<Longrightarrow> fst (ARA_264_multiple_activate lib info w) = - EINVAL"
  by (simp add: ARA_264_multiple_activate_def Let_def report_defs for_loop_ten)

lemma ARA_264_result:
  "num_type_is info ''m'' \<or> num_type_is info ''s'' \<Longrightarrow>
     reported (snd (snd (ARA_264_multiple_activate lib info (d, [])))) =
       [step_result 0 (before_result (snd (snd (ARA_264_multiple_activate lib info (d, [])))))]"
  by (cases "num_type_is info ''m''"; cases "num_type_is info ''s''"; simp add: ARA_264_multiple_activate_def Let_def;
      (intro printed_leave result_rules | assumption)+)

lemma ARA_264_invalid_after:
  "\<not> num_type_is info ''m'' \<Longrightarrow> \<not> num_type_is info ''s'' \<Longrightarrow> after_result (snd (snd (ARA_264_multiple_activate lib info (d, [])))) = []"
  by (simp add: ARA_264_multiple_activate_def Let_def report_defs for_loop_ten after_result_def)

lemma ARA_264_stepped:
  "num_type_is info ''m'' \<or> num_type_is info ''s'' \<Longrightarrow>
     lib_calls (before_result (snd (snd (ARA_264_multiple_activate lib info (d, []))))) \<noteq> []"
  by (cases "num_type_is info ''m''"; cases "num_type_is info ''s''"; simp add: ARA_264_multiple_activate_def Let_def for_loop_ten;
      (intro stepped_leave phase_rules | assumption)+)

lemma ARA_264_recovered:
  "num_type_is info ''m'' \<or> num_type_is info ''s'' \<Longrightarrow>
     list_all is_release (after_result (snd (snd (ARA_264_multiple_activate lib info (d, []))))) \<and>
     length (after_result (snd (snd (ARA_264_multiple_activate lib info (d, []))))) = Suc 0"
  by (cases "num_type_is info ''m''"; cases "num_type_is info ''s''"; simp add: ARA_264_multiple_activate_def Let_def for_loop_ten;
      (intro recovered_leave phase_rules | assumption)+)

lemma ARA_264_guarded: "compare_guarded (snd (snd (ARA_264_multiple_activate lib info (d, []))))"
proof (cases "num_type_is info ''m'' \<or> num_type_is info ''s''")
  case True
  then show ?thesis
    by (cases "num_type_is info ''m''"; cases "num_type_is info ''s''"; simp add: ARA_264_multiple_activate_def Let_def;
        (intro guarded_leave guarded_rules | assumption)+)
next
  case False
  then show ?thesis
    using ARA_264_invalid [where info = info and d = d and lib = lib] by (simp add: invalid_run_def)
qed

lemma ARA_264_single:
  "\<not> num_type_is info ''m'' \<Longrightarrow> num_type_is info ''s'' \<Longrightarrow>
     set (lines_touched (snd (snd (ARA_264_multiple_activate lib info (d, []))))) = {line (base_pin info) (gpio_pin1 info)} \<and>
     set (activated_lines (snd (snd (ARA_264_multiple_activate lib info (d, []))))) = {line (base_pin info) (gpio_pin1 info)} \<and>
     set (released_lines (snd (snd (ARA_264_multiple_activate lib info (d, []))))) = {line (base_pin info) (gpio_pin1 info)}"
  by (simp add: ARA_264_multiple_activate_def Let_def wrappers frame_sel for_loop_ten lines_touched_def
      activated_lines_def released_lines_def closing_deactivations_def)

lemma ARA_264_multiple:
  "num_type_is info ''m'' \<Longrightarrow>
     lines_touched (snd (snd (ARA_264_multiple_activate lib info (d, [])))) \<noteq> [] \<and>
     triples_of (line (base_pin info) (gpio_pin1 info)) (line (base_pin info) (gpio_pin2 info)) (line (base_pin info) (gpio_pin3 info))
       (lines_touched (snd (snd (ARA_264_multiple_activate lib info (d, []))))) \<and>
     activated_lines (snd (snd (ARA_264_multiple_activate lib info (d, [])))) =
       [line (base_pin info) (gpio_pin1 info), line (base_pin info) (gpio_pin2 info), line (base_pin info) (gpio_pin3 info)] \<and>
     released_lines (snd (snd (ARA_264_multiple_activate lib info (d, [])))) =
       [line (base_pin info) (gpio_pin1 info), line (base_pin info) (gpio_pin2 info), line (base_pin info) (gpio_pin3 info)]"
  by (simp add: ARA_264_multiple_activate_def Let_def wrappers frame_sel lines_touched_def
      activated_lines_def released_lines_def closing_deactivations_def)

lemma ARA_264_recovery:
  "set (released_lines (snd (snd (ARA_264_multiple_activate lib info (d, []))))) =
     set (activated_lines (snd (snd (ARA_264_multiple_activate lib info (d, [])))))"
proof -
  consider (m) "num_type_is info ''m''" | (s) "\<not> num_type_is info ''m'' \<and> num_type_is info ''s''" | (none) "\<not> num_type_is info ''m'' \<and> \<not> num_type_is info ''s''"
    by blast
  then show ?thesis
  proof cases
    case m
    then show ?thesis
      using ARA_264_multiple [where info = info and d = d and lib = lib] by simp
  next
    case s
    then show ?thesis
      using ARA_264_single [where info = info and d = d and lib = lib] by simp
  next
    case none
    then show ?thesis
      using ARA_264_invalid [where info = info and d = d and lib = lib]
      by (simp add: invalid_run_def released_lines_def activated_lines_def closing_deactivations_def)
  qed
qed

text \<open>ARA-267.\<close>

lemma ARA_267_invalid:
  "\<not> num_type_is info ''m'' \<Longrightarrow> \<not> num_type_is info ''s'' \<Longrightarrow> invalid_run d (ARA_267_multiple_deactivate lib info (d, []))"
  by (simp add: ARA_267_multiple_deactivate_def Let_def report_defs for_loop_ten invalid_run_def compare_guarded_def)

lemma ARA_267_invalid_ret:
  "\<not> num_type_is info ''m'' \<Longrightarrow> \<not> num_type_is info ''s'' \<Longrightarrow> fst (ARA_267_multiple_deactivate lib info w) = - EINVAL"
  by (simp add: ARA_267_multiple_deactivate_def Let_def report_defs for_loop_ten)

lemma ARA_267_result:
  "num_type_is info ''m'' \<or> num_type_is info ''s'' \<Longrightarrow>
     reported (snd (snd (ARA_267_multiple_deactivate lib info (d, [])))) =
       [step_result 0 (before_result (snd (snd (ARA_267_multiple_deactivate lib info (d, [])))))]"
  by (cases "num_type_is info ''m''"; cases "num_type_is info ''s''"; simp add: ARA_267_multiple_deactivate_def Let_def;
      (intro printed_leave result_rules | assumption)+)

lemma ARA_267_invalid_after:
  "\<not> num_type_is info ''m'' \<Longrightarrow> \<not> num_type_is info ''s'' \<Longrightarrow> after_result (snd (snd (ARA_267_multiple_deactivate lib info (d, [])))) = []"
  by (simp add: ARA_267_multiple_deactivate_def Let_def report_defs for_loop_ten after_result_def)

lemma ARA_267_stepped:
  "num_type_is info ''m'' \<or> num_type_is info ''s'' \<Longrightarrow>
     lib_calls (before_result (snd (snd (ARA_267_multiple_deactivate lib info (d, []))))) \<noteq> []"
  by (cases "num_type_is info ''m''"; cases "num_type_is info ''s''"; simp add: ARA_267_multiple_deactivate_def Let_def for_loop_ten;
      (intro stepped_leave phase_rules | assumption)+)

lemma ARA_267_recovered:
  "num_type_is info ''m'' \<or> num_type_is info ''s'' \<Longrightarrow>
     after_result (snd (snd (ARA_267_multiple_deactivate lib info (d, [])))) = []"
  by (cases "num_type_is info ''m''"; cases "num_type_is info ''s''"; simp add: ARA_267_multiple_deactivate_def Let_def for_loop_ten;
      (intro recovered_nothing phase_rules | assumption)+)

lemma ARA_267_guarded: "compare_guarded (snd (snd (ARA_267_multiple_deactivate lib info (d, []))))"
proof (cases "num_type_is info ''m'' \<or> num_type_is info ''s''")
  case True
  then show ?thesis
    by (cases "num_type_is info ''m''"; cases "num_type_is info ''s''"; simp add: ARA_267_multiple_deactivate_def Let_def;
        (intro guarded_leave guarded_rules | assumption)+)
next
  case False
  then show ?thesis
    using ARA_267_invalid [where info = info and d = d and lib = lib] by (simp add: invalid_run_def)
qed

lemma ARA_267_single:
  "\<not> num_type_is info ''m'' \<Longrightarrow> num_type_is info ''s'' \<Longrightarrow>
     set (lines_touched (snd (snd (ARA_267_multiple_deactivate lib info (d, []))))) = {line (base_pin info) (gpio_pin1 info)} \<and>
     set (activated_lines (snd (snd (ARA_267_multiple_deactivate lib info (d, []))))) = {line (base_pin info) (gpio_pin1 info)} \<and>
     set (released_lines (snd (snd (ARA_267_multiple_deactivate lib info (d, []))))) = {line (base_pin info) (gpio_pin1 info)}"
  by (simp add: ARA_267_multiple_deactivate_def Let_def wrappers frame_sel for_loop_ten lines_touched_def
      activated_lines_def released_lines_def closing_deactivations_def)

lemma ARA_267_multiple:
  "num_type_is info ''m'' \<Longrightarrow>
     lines_touched (snd (snd (ARA_267_multiple_deactivate lib info (d, [])))) \<noteq> [] \<and>
     triples_of (line (base_pin info) (gpio_pin1 info)) (line (base_pin info) (gpio_pin2 info)) (line (base_pin info) (gpio_pin3 info))
       (lines_touched (snd (snd (ARA_267_multiple_deactivate lib info (d, []))))) \<and>
     activated_lines (snd (snd (ARA_267_multiple_deactivate lib info (d, [])))) =
       [line (base_pin info) (gpio_pin1 info), line (base_pin info) (gpio_pin2 info), line (base_pin info) (gpio_pin3 info)] \<and>
     released_lines (snd (snd (ARA_267_multiple_deactivate lib info (d, [])))) =
       [line (base_pin info) (gpio_pin1 info), line (base_pin info) (gpio_pin2 info), line (base_pin info) (gpio_pin3 info)]"
  by (simp add: ARA_267_multiple_deactivate_def Let_def wrappers frame_sel lines_touched_def
      activated_lines_def released_lines_def closing_deactivations_def)

lemma ARA_267_recovery:
  "set (released_lines (snd (snd (ARA_267_multiple_deactivate lib info (d, []))))) =
     set (activated_lines (snd (snd (ARA_267_multiple_deactivate lib info (d, [])))))"
proof -
  consider (m) "num_type_is info ''m''" | (s) "\<not> num_type_is info ''m'' \<and> num_type_is info ''s''" | (none) "\<not> num_type_is info ''m'' \<and> \<not> num_type_is info ''s''"
    by blast
  then show ?thesis
  proof cases
    case m
    then show ?thesis
      using ARA_267_multiple [where info = info and d = d and lib = lib] by simp
  next
    case s
    then show ?thesis
      using ARA_267_single [where info = info and d = d and lib = lib] by simp
  next
    case none
    then show ?thesis
      using ARA_267_invalid [where info = info and d = d and lib = lib]
      by (simp add: invalid_run_def released_lines_def activated_lines_def closing_deactivations_def)
  qed
qed

text \<open>ARA-270.\<close>

lemma ARA_270_invalid:
  "\<not> num_type_is info ''m'' \<Longrightarrow> \<not> num_type_is info ''s'' \<Longrightarrow> invalid_run d (ARA_270_multiple_direction lib info (d, []))"
  by (simp add: ARA_270_multiple_direction_def Let_def report_defs for_loop_ten invalid_run_def compare_guarded_def)

lemma ARA_270_invalid_ret:
  "\<not> num_type_is info ''m'' \<Longrightarrow> \<not> num_type_is info ''s'' \<Longrightarrow> fst (ARA_270_multiple_direction lib info w) = - EINVAL"
  by (simp add: ARA_270_multiple_direction_def Let_def report_defs for_loop_ten)

lemma ARA_270_result:
  "num_type_is info ''m'' \<or> num_type_is info ''s'' \<Longrightarrow>
     reported (snd (snd (ARA_270_multiple_direction lib info (d, [])))) =
       [step_result 0 (before_result (snd (snd (ARA_270_multiple_direction lib info (d, [])))))]"
  by (cases "num_type_is info ''m''"; cases "num_type_is info ''s''"; simp add: ARA_270_multiple_direction_def Let_def;
      (intro printed_leave result_rules | assumption)+)

lemma ARA_270_invalid_after:
  "\<not> num_type_is info ''m'' \<Longrightarrow> \<not> num_type_is info ''s'' \<Longrightarrow> after_result (snd (snd (ARA_270_multiple_direction lib info (d, [])))) = []"
  by (simp add: ARA_270_multiple_direction_def Let_def report_defs for_loop_ten after_result_def)

lemma ARA_270_stepped:
  "num_type_is info ''m'' \<or> num_type_is info ''s'' \<Longrightarrow>
     lib_calls (before_result (snd (snd (ARA_270_multiple_direction lib info (d, []))))) \<noteq> []"
  by (cases "num_type_is info ''m''"; cases "num_type_is info ''s''"; simp add: ARA_270_multiple_direction_def Let_def for_loop_ten;
      (intro stepped_leave phase_rules | assumption)+)

lemma ARA_270_recovered:
  "num_type_is info ''m'' \<or> num_type_is info ''s'' \<Longrightarrow>
     list_all is_release (after_result (snd (snd (ARA_270_multiple_direction lib info (d, []))))) \<and>
     length (after_result (snd (snd (ARA_270_multiple_direction lib info (d, []))))) = Suc 0"
  by (cases "num_type_is info ''m''"; cases "num_type_is info ''s''"; simp add: ARA_270_multiple_direction_def Let_def for_loop_ten;
      (intro recovered_leave phase_rules | assumption)+)

lemma ARA_270_guarded: "compare_guarded (snd (snd (ARA_270_multiple_direction lib info (d, []))))"
proof (cases "num_type_is info ''m'' \<or> num_type_is info ''s''")
  case True
  then show ?thesis
    by (cases "num_type_is info ''m''"; cases "num_type_is info ''s''"; simp add: ARA_270_multiple_direction_def Let_def;
        (intro guarded_leave guarded_rules | assumption)+)
next
  case False
  then show ?thesis
    using ARA_270_invalid [where info = info and d = d and lib = lib] by (simp add: invalid_run_def)
qed

lemma ARA_270_single:
  "\<not> num_type_is info ''m'' \<Longrightarrow> num_type_is info ''s'' \<Longrightarrow>
     set (lines_touched (snd (snd (ARA_270_multiple_direction lib info (d, []))))) = {line (base_pin info) (gpio_pin1 info)} \<and>
     set (activated_lines (snd (snd (ARA_270_multiple_direction lib info (d, []))))) = {line (base_pin info) (gpio_pin1 info)} \<and>
     set (released_lines (snd (snd (ARA_270_multiple_direction lib info (d, []))))) = {line (base_pin info) (gpio_pin1 info)}"
  by (simp add: ARA_270_multiple_direction_def Let_def wrappers frame_sel for_loop_ten lines_touched_def
      activated_lines_def released_lines_def closing_deactivations_def)

lemma ARA_270_multiple:
  "num_type_is info ''m'' \<Longrightarrow>
     lines_touched (snd (snd (ARA_270_multiple_direction lib info (d, [])))) \<noteq> [] \<and>
     triples_of (line (base_pin info) (gpio_pin1 info)) (line (base_pin info) (gpio_pin2 info)) (line (base_pin info) (gpio_pin3 info))
       (lines_touched (snd (snd (ARA_270_multiple_direction lib info (d, []))))) \<and>
     activated_lines (snd (snd (ARA_270_multiple_direction lib info (d, [])))) =
       [line (base_pin info) (gpio_pin1 info), line (base_pin info) (gpio_pin2 info), line (base_pin info) (gpio_pin3 info)] \<and>
     released_lines (snd (snd (ARA_270_multiple_direction lib info (d, [])))) =
       [line (base_pin info) (gpio_pin1 info), line (base_pin info) (gpio_pin2 info), line (base_pin info) (gpio_pin3 info)]"
  by (simp add: ARA_270_multiple_direction_def Let_def wrappers frame_sel lines_touched_def
      activated_lines_def released_lines_def closing_deactivations_def)

lemma ARA_270_recovery:
  "set (released_lines (snd (snd (ARA_270_multiple_direction lib info (d, []))))) =
     set (activated_lines (snd (snd (ARA_270_multiple_direction lib info (d, [])))))"
proof -
  consider (m) "num_type_is info ''m''" | (s) "\<not> num_type_is info ''m'' \<and> num_type_is info ''s''" | (none) "\<not> num_type_is info ''m'' \<and> \<not> num_type_is info ''s''"
    by blast
  then show ?thesis
  proof cases
    case m
    then show ?thesis
      using ARA_270_multiple [where info = info and d = d and lib = lib] by simp
  next
    case s
    then show ?thesis
      using ARA_270_single [where info = info and d = d and lib = lib] by simp
  next
    case none
    then show ?thesis
      using ARA_270_invalid [where info = info and d = d and lib = lib]
      by (simp add: invalid_run_def released_lines_def activated_lines_def closing_deactivations_def)
  qed
qed

text \<open>ARA-271.\<close>

lemma ARA_271_invalid:
  "\<not> num_type_is info ''s'' \<Longrightarrow> invalid_run d (ARA_271_multiple_times_direction lib info (d, []))"
  by (simp add: ARA_271_multiple_times_direction_def Let_def report_defs for_loop_ten invalid_run_def compare_guarded_def)

lemma ARA_271_invalid_ret:
  "\<not> num_type_is info ''s'' \<Longrightarrow> fst (ARA_271_multiple_times_direction lib info w) = - EINVAL"
  by (simp add: ARA_271_multiple_times_direction_def Let_def report_defs for_loop_ten)

lemma ARA_271_result:
  "num_type_is info ''s'' \<Longrightarrow>
     reported (snd (snd (ARA_271_multiple_times_direction lib info (d, [])))) =
       [step_result 0 (before_result (snd (snd (ARA_271_multiple_times_direction lib info (d, [])))))]"
  by (cases "num_type_is info ''s''"; simp add: ARA_271_multiple_times_direction_def Let_def;
      (intro printed_leave result_rules | assumption)+)

lemma ARA_271_invalid_after:
  "\<not> num_type_is info ''s'' \<Longrightarrow> after_result (snd (snd (ARA_271_multiple_times_direction lib info (d, [])))) = []"
  by (simp add: ARA_271_multiple_times_direction_def Let_def report_defs for_loop_ten after_result_def)

lemma ARA_271_stepped:
  "num_type_is info ''s'' \<Longrightarrow>
     lib_calls (before_result (snd (snd (ARA_271_multiple_times_direction lib info (d, []))))) \<noteq> []"
  by (cases "num_type_is info ''s''"; simp add: ARA_271_multiple_times_direction_def Let_def for_loop_ten;
      (intro stepped_leave phase_rules | assumption)+)

lemma ARA_271_recovered:
  "num_type_is info ''s'' \<Longrightarrow>
     list_all is_release (after_result (snd (snd (ARA_271_multiple_times_direction lib info (d, []))))) \<and>
     length (after_result (snd (snd (ARA_271_multiple_times_direction lib info (d, []))))) = Suc 0"
  by (cases "num_type_is info ''s''"; simp add: ARA_271_multiple_times_direction_def Let_def for_loop_ten;
      (intro recovered_leave phase_rules | assumption)+)

lemma ARA_271_guarded: "compare_guarded (snd (snd (ARA_271_multiple_times_direction lib info (d, []))))"
proof (cases "num_type_is info ''s''")
  case True
  then show ?thesis
    by (cases "num_type_is info ''s''"; simp add: ARA_271_multiple_times_direction_def Let_def;
        (intro guarded_leave guarded_rules | assumption)+)
next
  case False
  then show ?thesis
    using ARA_271_invalid [where info = info and d = d and lib = lib] by (simp add: invalid_run_def)
qed

lemma ARA_271_single:
  "num_type_is info ''s'' \<Longrightarrow>
     set (lines_touched (snd (snd (ARA_271_multiple_times_direction lib info (d, []))))) = {line (base_pin info) (gpio_pin1 info)} \<and>
     set (activated_lines (snd (snd (ARA_271_multiple_times_direction lib info (d, []))))) = {line (base_pin info) (gpio_pin1 info)} \<and>
     set (released_lines (snd (snd (ARA_271_multiple_times_direction lib info (d, []))))) = {line (base_pin info) (gpio_pin1 info)}"
  by (simp add: ARA_271_multiple_times_direction_def Let_def wrappers frame_sel for_loop_ten lines_touched_def
      activated_lines_def released_lines_def closing_deactivations_def)

lemma ARA_271_recovery:
  "set (released_lines (snd (snd (ARA_271_multiple_times_direction lib info (d, []))))) =
     set (activated_lines (snd (snd (ARA_271_multiple_times_direction lib info (d, [])))))"
proof -
  consider (s) "num_type_is info ''s''" | (none) "\<not> num_type_is info ''s''"
    by blast
  then show ?thesis
  proof cases
    case s
    then show ?thesis
      using ARA_271_single [where info = info and d = d and lib = lib] by simp
  next
    case none
    then show ?thesis
      using ARA_271_invalid [where info = info and d = d and lib = lib]
      by (simp add: invalid_run_def released_lines_def activated_lines_def closing_deactivations_def)
  qed
qed

text \<open>ARA-272.\<close>

lemma ARA_272_invalid:
  "\<not> num_type_is info ''a'' \<Longrightarrow> \<not> num_type_is info ''m'' \<Longrightarrow> \<not> num_type_is info ''s'' \<Longrightarrow> invalid_run d (ARA_272_all_direction lib info (d, []))"
  by (simp add: ARA_272_all_direction_def Let_def report_defs for_loop_ten invalid_run_def compare_guarded_def)

lemma ARA_272_invalid_ret:
  "\<not> num_type_is info ''a'' \<Longrightarrow> \<not> num_type_is info ''m'' \<Longrightarrow> \<not> num_type_is info ''s'' \<Longrightarrow> fst (ARA_272_all_direction lib info w) = - EINVAL"
  by (simp add: ARA_272_all_direction_def Let_def report_defs for_loop_ten)

lemma ARA_272_result:
  "num_type_is info ''a'' \<or> num_type_is info ''m'' \<or> num_type_is info ''s'' \<Longrightarrow>
     reported (snd (snd (ARA_272_all_direction lib info (d, [])))) =
       [step_result 0 (before_result (snd (snd (ARA_272_all_direction lib info (d, [])))))]"
  by (cases "num_type_is info ''a''"; cases "num_type_is info ''m''"; cases "num_type_is info ''s''"; simp add: ARA_272_all_direction_def Let_def;
      (intro printed_leave result_rules | assumption)+)

lemma ARA_272_invalid_after:
  "\<not> num_type_is info ''a'' \<Longrightarrow> \<not> num_type_is info ''m'' \<Longrightarrow> \<not> num_type_is info ''s'' \<Longrightarrow> after_result (snd (snd (ARA_272_all_direction lib info (d, [])))) = []"
  by (simp add: ARA_272_all_direction_def Let_def report_defs for_loop_ten after_result_def)

lemma ARA_272_stepped:
  "\<not> num_type_is info ''a'' \<Longrightarrow> num_type_is info ''m'' \<or> num_type_is info ''s'' \<Longrightarrow>
     lib_calls (before_result (snd (snd (ARA_272_all_direction lib info (d, []))))) \<noteq> []"
  by (cases "num_type_is info ''m''"; cases "num_type_is info ''s''"; simp add: ARA_272_all_direction_def Let_def for_loop_ten;
      (intro stepped_leave phase_rules | assumption)+)

lemma ARA_272_recovered:
  "\<not> num_type_is info ''a'' \<Longrightarrow> num_type_is info ''m'' \<or> num_type_is info ''s'' \<Longrightarrow>
     list_all is_release (after_result (snd (snd (ARA_272_all_direction lib info (d, []))))) \<and>
     length (after_result (snd (snd (ARA_272_all_direction lib info (d, []))))) = Suc 0"
  by (cases "num_type_is info ''m''"; cases "num_type_is info ''s''"; simp add: ARA_272_all_direction_def Let_def for_loop_ten;
      (intro recovered_leave phase_rules | assumption)+)

lemma ARA_272_guarded: "compare_guarded (snd (snd (ARA_272_all_direction lib info (d, []))))"
proof (cases "num_type_is info ''a'' \<or> num_type_is info ''m'' \<or> num_type_is info ''s''")
  case True
  then show ?thesis
    by (cases "num_type_is info ''a''"; cases "num_type_is info ''m''"; cases "num_type_is info ''s''"; simp add: ARA_272_all_direction_def Let_def;
        (intro guarded_leave guarded_rules | assumption)+)
next
  case False
  then show ?thesis
    using ARA_272_invalid [where info = info and d = d and lib = lib] by (simp add: invalid_run_def)
qed

lemma ARA_272_single:
  "\<not> num_type_is info ''a'' \<Longrightarrow> \<not> num_type_is info ''m'' \<Longrightarrow> num_type_is info ''s'' \<Longrightarrow>
     set (lines_touched (snd (snd (ARA_272_all_direction lib info (d, []))))) = {line (base_pin info) (gpio_pin1 info)} \<and>
     set (activated_lines (snd (snd (ARA_272_all_direction lib info (d, []))))) = {line (base_pin info) (gpio_pin1 info)} \<and>
     set (released_lines (snd (snd (ARA_272_all_direction lib info (d, []))))) = {line (base_pin info) (gpio_pin1 info)}"
  by (simp add: ARA_272_all_direction_def Let_def wrappers frame_sel for_loop_ten lines_touched_def
      activated_lines_def released_lines_def closing_deactivations_def)

lemma ARA_272_multiple:
  "\<not> num_type_is info ''a'' \<Longrightarrow> num_type_is info ''m'' \<Longrightarrow>
     lines_touched (snd (snd (ARA_272_all_direction lib info (d, [])))) \<noteq> [] \<and>
     triples_of (line (base_pin info) (gpio_pin1 info)) (line (base_pin info) (gpio_pin2 info)) (line (base_pin info) (gpio_pin3 info))
       (lines_touched (snd (snd (ARA_272_all_direction lib info (d, []))))) \<and>
     activated_lines (snd (snd (ARA_272_all_direction lib info (d, [])))) =
       [line (base_pin info) (gpio_pin1 info), line (base_pin info) (gpio_pin2 info), line (base_pin info) (gpio_pin3 info)] \<and>
     released_lines (snd (snd (ARA_272_all_direction lib info (d, [])))) =
       [line (base_pin info) (gpio_pin1 info), line (base_pin info) (gpio_pin2 info), line (base_pin info) (gpio_pin3 info)]"
  by (simp add: ARA_272_all_direction_def Let_def wrappers frame_sel lines_touched_def
      activated_lines_def released_lines_def closing_deactivations_def)

lemma map_shift: "map (\<lambda>i. f (b + i)) [0..<n] = map f [b..<b + n]"
proof -
  have "map (\<lambda>i. f (b + i)) [0..<n] = map f (map (\<lambda>i. i + b) [0..<n])"
    by (simp add: add.commute)
  also have "\<dots> = map f [b..<b + n]"
    by (simp only: map_add_upt add.commute)
  finally show ?thesis .
qed

lemma ARA_272_all_calls:
  "num_type_is info ''a'' \<Longrightarrow>
     lib_calls (snd (snd (ARA_272_all_direction lib info (d, [])))) =
       map (ActivateGpioPin (case_id info))
         [unat (base_pin info)..<unat (base_pin info) + unat (max_count info)] @
       map (\<lambda>p. GetGpioDirection (case_id info) p 4)
         [unat (base_pin info)..<unat (base_pin info) + unat (max_count info)] @
       map (DeactivateGpioPin (case_id info))
         [unat (base_pin info)..<unat (base_pin info) + unat (max_count info)]"
  by (simp add: ARA_272_all_direction_def Let_def wrappers calls_for_loop
      map_shift [where f = "ActivateGpioPin (case_id info)"]
      map_shift [where f = "\<lambda>p. GetGpioDirection (case_id info) p 4"]
      map_shift [where f = "DeactivateGpioPin (case_id info)"])

lemma takeWhile_closing:
  assumes "\<And>x. x \<in> set ds \<Longrightarrow> P x" and "\<And>x. x \<in> set gs \<Longrightarrow> \<not> P x"
    and "gs = [] \<Longrightarrow> as = []"
  shows "takeWhile P (ds @ gs @ as) = ds"
proof (cases gs)
  case Nil
  with assms show ?thesis by simp
next
  case (Cons g gs')
  with assms(2) have "\<not> P g" by simp
  with assms(1) Cons show ?thesis by simp
qed

lemma ARA_272_all:
  assumes "num_type_is info ''a''"
  shows "lines_touched (snd (snd (ARA_272_all_direction lib info (d, [])))) =
           [unat (base_pin info)..<unat (base_pin info) + unat (max_count info)] @
           [unat (base_pin info)..<unat (base_pin info) + unat (max_count info)] @
           [unat (base_pin info)..<unat (base_pin info) + unat (max_count info)] \<and>
         activated_lines (snd (snd (ARA_272_all_direction lib info (d, [])))) =
           [unat (base_pin info)..<unat (base_pin info) + unat (max_count info)] \<and>
         released_lines (snd (snd (ARA_272_all_direction lib info (d, [])))) =
           [unat (base_pin info)..<unat (base_pin info) + unat (max_count info)]"
proof -
  let ?ls = "[unat (base_pin info)..<unat (base_pin info) + unat (max_count info)]"
  let ?A = "map (ActivateGpioPin (case_id info)) ?ls"
  let ?G = "map (\<lambda>p. GetGpioDirection (case_id info) p 4) ?ls"
  let ?D = "map (DeactivateGpioPin (case_id info)) ?ls"
  have c: "lib_calls (snd (snd (ARA_272_all_direction lib info (d, [])))) = ?A @ ?G @ ?D"
    by (rule ARA_272_all_calls [OF assms])
  have l: "concat (map call_lines ?A) = ?ls" "concat (map call_lines ?G) = ?ls"
    "concat (map call_lines ?D) = ?ls"
    by (simp_all add: comp_def)
  have f: "filter is_activate ?A = ?A" "filter is_activate ?G = []" "filter is_activate ?D = []"
    by (simp_all add: filter_map comp_def)
  have t: "takeWhile is_deactivate (rev ?D @ rev ?G @ rev ?A) = rev ?D"
    by (rule takeWhile_closing) auto
  show ?thesis
    using l f t by (simp add: c lines_touched_def activated_lines_def released_lines_def
        closing_deactivations_def)
qed

lemma ARA_272_recovery:
  "set (released_lines (snd (snd (ARA_272_all_direction lib info (d, []))))) =
     set (activated_lines (snd (snd (ARA_272_all_direction lib info (d, [])))))"
proof -
  consider (a) "num_type_is info ''a''" | (m) "\<not> num_type_is info ''a'' \<and> num_type_is info ''m''" | (s) "\<not> num_type_is info ''a'' \<and> \<not> num_type_is info ''m'' \<and> num_type_is info ''s''" | (none) "\<not> num_type_is info ''a'' \<and> \<not> num_type_is info ''m'' \<and> \<not> num_type_is info ''s''"
    by blast
  then show ?thesis
  proof cases
    case a
    then show ?thesis
      using ARA_272_all [where info = info and d = d and lib = lib] by simp
  next
    case m
    then show ?thesis
      using ARA_272_multiple [where info = info and d = d and lib = lib] by simp
  next
    case s
    then show ?thesis
      using ARA_272_single [where info = info and d = d and lib = lib] by simp
  next
    case none
    then show ?thesis
      using ARA_272_invalid [where info = info and d = d and lib = lib]
      by (simp add: invalid_run_def released_lines_def activated_lines_def closing_deactivations_def)
  qed
qed

text \<open>ARA-273.\<close>

lemma ARA_273_invalid:
  "\<not> num_type_is info ''m'' \<Longrightarrow> \<not> num_type_is info ''s'' \<Longrightarrow> invalid_run d (ARA_273_multiple_input lib info (d, []))"
  by (simp add: ARA_273_multiple_input_def Let_def report_defs for_loop_ten invalid_run_def compare_guarded_def)

lemma ARA_273_invalid_ret:
  "\<not> num_type_is info ''m'' \<Longrightarrow> \<not> num_type_is info ''s'' \<Longrightarrow> fst (ARA_273_multiple_input lib info w) = - EINVAL"
  by (simp add: ARA_273_multiple_input_def Let_def report_defs for_loop_ten)

lemma ARA_273_result:
  "num_type_is info ''m'' \<or> num_type_is info ''s'' \<Longrightarrow>
     reported (snd (snd (ARA_273_multiple_input lib info (d, [])))) =
       [step_result 0 (before_result (snd (snd (ARA_273_multiple_input lib info (d, [])))))]"
  by (cases "num_type_is info ''m''"; cases "num_type_is info ''s''"; simp add: ARA_273_multiple_input_def Let_def;
      (intro printed_leave result_rules | assumption)+)

lemma ARA_273_invalid_after:
  "\<not> num_type_is info ''m'' \<Longrightarrow> \<not> num_type_is info ''s'' \<Longrightarrow> after_result (snd (snd (ARA_273_multiple_input lib info (d, [])))) = []"
  by (simp add: ARA_273_multiple_input_def Let_def report_defs for_loop_ten after_result_def)

lemma ARA_273_stepped:
  "num_type_is info ''m'' \<or> num_type_is info ''s'' \<Longrightarrow>
     lib_calls (before_result (snd (snd (ARA_273_multiple_input lib info (d, []))))) \<noteq> []"
  by (cases "num_type_is info ''m''"; cases "num_type_is info ''s''"; simp add: ARA_273_multiple_input_def Let_def for_loop_ten;
      (intro stepped_leave phase_rules | assumption)+)

lemma ARA_273_recovered:
  "num_type_is info ''m'' \<or> num_type_is info ''s'' \<Longrightarrow>
     list_all is_release (after_result (snd (snd (ARA_273_multiple_input lib info (d, []))))) \<and>
     length (after_result (snd (snd (ARA_273_multiple_input lib info (d, []))))) = Suc 0"
  by (cases "num_type_is info ''m''"; cases "num_type_is info ''s''"; simp add: ARA_273_multiple_input_def Let_def for_loop_ten;
      (intro recovered_leave phase_rules | assumption)+)

lemma ARA_273_guarded: "compare_guarded (snd (snd (ARA_273_multiple_input lib info (d, []))))"
proof (cases "num_type_is info ''m'' \<or> num_type_is info ''s''")
  case True
  then show ?thesis
    by (cases "num_type_is info ''m''"; cases "num_type_is info ''s''"; simp add: ARA_273_multiple_input_def Let_def;
        (intro guarded_leave guarded_rules | assumption)+)
next
  case False
  then show ?thesis
    using ARA_273_invalid [where info = info and d = d and lib = lib] by (simp add: invalid_run_def)
qed

lemma ARA_273_single:
  "\<not> num_type_is info ''m'' \<Longrightarrow> num_type_is info ''s'' \<Longrightarrow>
     set (lines_touched (snd (snd (ARA_273_multiple_input lib info (d, []))))) = {line (base_pin info) (gpio_pin1 info)} \<and>
     set (activated_lines (snd (snd (ARA_273_multiple_input lib info (d, []))))) = {line (base_pin info) (gpio_pin1 info)} \<and>
     set (released_lines (snd (snd (ARA_273_multiple_input lib info (d, []))))) = {line (base_pin info) (gpio_pin1 info)}"
  by (simp add: ARA_273_multiple_input_def Let_def wrappers frame_sel for_loop_ten lines_touched_def
      activated_lines_def released_lines_def closing_deactivations_def)

lemma ARA_273_multiple:
  "num_type_is info ''m'' \<Longrightarrow>
     lines_touched (snd (snd (ARA_273_multiple_input lib info (d, [])))) \<noteq> [] \<and>
     triples_of (line (base_pin info) (gpio_pin1 info)) (line (base_pin info) (gpio_pin2 info)) (line (base_pin info) (gpio_pin3 info))
       (lines_touched (snd (snd (ARA_273_multiple_input lib info (d, []))))) \<and>
     activated_lines (snd (snd (ARA_273_multiple_input lib info (d, [])))) =
       [line (base_pin info) (gpio_pin1 info), line (base_pin info) (gpio_pin2 info), line (base_pin info) (gpio_pin3 info)] \<and>
     released_lines (snd (snd (ARA_273_multiple_input lib info (d, [])))) =
       [line (base_pin info) (gpio_pin1 info), line (base_pin info) (gpio_pin2 info), line (base_pin info) (gpio_pin3 info)]"
  by (simp add: ARA_273_multiple_input_def Let_def wrappers frame_sel lines_touched_def
      activated_lines_def released_lines_def closing_deactivations_def)

lemma ARA_273_recovery:
  "set (released_lines (snd (snd (ARA_273_multiple_input lib info (d, []))))) =
     set (activated_lines (snd (snd (ARA_273_multiple_input lib info (d, [])))))"
proof -
  consider (m) "num_type_is info ''m''" | (s) "\<not> num_type_is info ''m'' \<and> num_type_is info ''s''" | (none) "\<not> num_type_is info ''m'' \<and> \<not> num_type_is info ''s''"
    by blast
  then show ?thesis
  proof cases
    case m
    then show ?thesis
      using ARA_273_multiple [where info = info and d = d and lib = lib] by simp
  next
    case s
    then show ?thesis
      using ARA_273_single [where info = info and d = d and lib = lib] by simp
  next
    case none
    then show ?thesis
      using ARA_273_invalid [where info = info and d = d and lib = lib]
      by (simp add: invalid_run_def released_lines_def activated_lines_def closing_deactivations_def)
  qed
qed

text \<open>ARA-274.\<close>

lemma ARA_274_invalid:
  "\<not> num_type_is info ''s'' \<Longrightarrow> invalid_run d (ARA_274_multiple_times_input lib info (d, []))"
  by (simp add: ARA_274_multiple_times_input_def Let_def report_defs for_loop_ten invalid_run_def compare_guarded_def)

lemma ARA_274_invalid_ret:
  "\<not> num_type_is info ''s'' \<Longrightarrow> fst (ARA_274_multiple_times_input lib info w) = - EINVAL"
  by (simp add: ARA_274_multiple_times_input_def Let_def report_defs for_loop_ten)

lemma ARA_274_result:
  "num_type_is info ''s'' \<Longrightarrow>
     reported (snd (snd (ARA_274_multiple_times_input lib info (d, [])))) =
       [step_result 0 (before_result (snd (snd (ARA_274_multiple_times_input lib info (d, [])))))]"
  by (cases "num_type_is info ''s''"; simp add: ARA_274_multiple_times_input_def Let_def;
      (intro printed_leave result_rules | assumption)+)

lemma ARA_274_invalid_after:
  "\<not> num_type_is info ''s'' \<Longrightarrow> after_result (snd (snd (ARA_274_multiple_times_input lib info (d, [])))) = []"
  by (simp add: ARA_274_multiple_times_input_def Let_def report_defs for_loop_ten after_result_def)

lemma ARA_274_stepped:
  "num_type_is info ''s'' \<Longrightarrow>
     lib_calls (before_result (snd (snd (ARA_274_multiple_times_input lib info (d, []))))) \<noteq> []"
  by (cases "num_type_is info ''s''"; simp add: ARA_274_multiple_times_input_def Let_def for_loop_ten;
      (intro stepped_leave phase_rules | assumption)+)

lemma ARA_274_recovered:
  "num_type_is info ''s'' \<Longrightarrow>
     list_all is_release (after_result (snd (snd (ARA_274_multiple_times_input lib info (d, []))))) \<and>
     length (after_result (snd (snd (ARA_274_multiple_times_input lib info (d, []))))) = Suc 0"
  by (cases "num_type_is info ''s''"; simp add: ARA_274_multiple_times_input_def Let_def for_loop_ten;
      (intro recovered_leave phase_rules | assumption)+)

lemma ARA_274_guarded: "compare_guarded (snd (snd (ARA_274_multiple_times_input lib info (d, []))))"
proof (cases "num_type_is info ''s''")
  case True
  then show ?thesis
    by (cases "num_type_is info ''s''"; simp add: ARA_274_multiple_times_input_def Let_def;
        (intro guarded_leave guarded_rules | assumption)+)
next
  case False
  then show ?thesis
    using ARA_274_invalid [where info = info and d = d and lib = lib] by (simp add: invalid_run_def)
qed

lemma ARA_274_single:
  "num_type_is info ''s'' \<Longrightarrow>
     set (lines_touched (snd (snd (ARA_274_multiple_times_input lib info (d, []))))) = {line (base_pin info) (gpio_pin1 info)} \<and>
     set (activated_lines (snd (snd (ARA_274_multiple_times_input lib info (d, []))))) = {line (base_pin info) (gpio_pin1 info)} \<and>
     set (released_lines (snd (snd (ARA_274_multiple_times_input lib info (d, []))))) = {line (base_pin info) (gpio_pin1 info)}"
  by (simp add: ARA_274_multiple_times_input_def Let_def wrappers frame_sel for_loop_ten lines_touched_def
      activated_lines_def released_lines_def closing_deactivations_def)

lemma ARA_274_recovery:
  "set (released_lines (snd (snd (ARA_274_multiple_times_input lib info (d, []))))) =
     set (activated_lines (snd (snd (ARA_274_multiple_times_input lib info (d, [])))))"
proof -
  consider (s) "num_type_is info ''s''" | (none) "\<not> num_type_is info ''s''"
    by blast
  then show ?thesis
  proof cases
    case s
    then show ?thesis
      using ARA_274_single [where info = info and d = d and lib = lib] by simp
  next
    case none
    then show ?thesis
      using ARA_274_invalid [where info = info and d = d and lib = lib]
      by (simp add: invalid_run_def released_lines_def activated_lines_def closing_deactivations_def)
  qed
qed

text \<open>ARA-276.\<close>

lemma ARA_276_invalid:
  "\<not> num_type_is info ''m'' \<Longrightarrow> \<not> num_type_is info ''s'' \<Longrightarrow> invalid_run d (ARA_276_multiple_output lib info (d, []))"
  by (simp add: ARA_276_multiple_output_def Let_def report_defs for_loop_ten invalid_run_def compare_guarded_def)

lemma ARA_276_invalid_ret:
  "\<not> num_type_is info ''m'' \<Longrightarrow> \<not> num_type_is info ''s'' \<Longrightarrow> fst (ARA_276_multiple_output lib info w) = - EINVAL"
  by (simp add: ARA_276_multiple_output_def Let_def report_defs for_loop_ten)

lemma ARA_276_result:
  "num_type_is info ''m'' \<or> num_type_is info ''s'' \<Longrightarrow>
     reported (snd (snd (ARA_276_multiple_output lib info (d, [])))) =
       [step_result 0 (before_result (snd (snd (ARA_276_multiple_output lib info (d, [])))))]"
  by (cases "num_type_is info ''m''"; cases "num_type_is info ''s''"; simp add: ARA_276_multiple_output_def Let_def;
      (intro printed_leave result_rules | assumption)+)

lemma ARA_276_invalid_after:
  "\<not> num_type_is info ''m'' \<Longrightarrow> \<not> num_type_is info ''s'' \<Longrightarrow> after_result (snd (snd (ARA_276_multiple_output lib info (d, [])))) = []"
  by (simp add: ARA_276_multiple_output_def Let_def report_defs for_loop_ten after_result_def)

lemma ARA_276_stepped:
  "num_type_is info ''m'' \<or> num_type_is info ''s'' \<Longrightarrow>
     lib_calls (before_result (snd (snd (ARA_276_multiple_output lib info (d, []))))) \<noteq> []"
  by (cases "num_type_is info ''m''"; cases "num_type_is info ''s''"; simp add: ARA_276_multiple_output_def Let_def for_loop_ten;
      (intro stepped_leave phase_rules | assumption)+)

lemma ARA_276_recovered:
  "num_type_is info ''m'' \<or> num_type_is info ''s'' \<Longrightarrow>
     list_all is_release (after_result (snd (snd (ARA_276_multiple_output lib info (d, []))))) \<and>
     length (after_result (snd (snd (ARA_276_multiple_output lib info (d, []))))) = Suc 0"
  by (cases "num_type_is info ''m''"; cases "num_type_is info ''s''"; simp add: ARA_276_multiple_output_def Let_def for_loop_ten;
      (intro recovered_leave phase_rules | assumption)+)

lemma ARA_276_guarded: "compare_guarded (snd (snd (ARA_276_multiple_output lib info (d, []))))"
proof (cases "num_type_is info ''m'' \<or> num_type_is info ''s''")
  case True
  then show ?thesis
    by (cases "num_type_is info ''m''"; cases "num_type_is info ''s''"; simp add: ARA_276_multiple_output_def Let_def;
        (intro guarded_leave guarded_rules | assumption)+)
next
  case False
  then show ?thesis
    using ARA_276_invalid [where info = info and d = d and lib = lib] by (simp add: invalid_run_def)
qed

lemma ARA_276_single:
  "\<not> num_type_is info ''m'' \<Longrightarrow> num_type_is info ''s'' \<Longrightarrow>
     set (lines_touched (snd (snd (ARA_276_multiple_output lib info (d, []))))) = {line (base_pin info) (gpio_pin1 info)} \<and>
     set (activated_lines (snd (snd (ARA_276_multiple_output lib info (d, []))))) = {line (base_pin info) (gpio_pin1 info)} \<and>
     set (released_lines (snd (snd (ARA_276_multiple_output lib info (d, []))))) = {line (base_pin info) (gpio_pin1 info)}"
  by (simp add: ARA_276_multiple_output_def Let_def wrappers frame_sel for_loop_ten lines_touched_def
      activated_lines_def released_lines_def closing_deactivations_def)

lemma ARA_276_multiple:
  "num_type_is info ''m'' \<Longrightarrow>
     lines_touched (snd (snd (ARA_276_multiple_output lib info (d, [])))) \<noteq> [] \<and>
     triples_of (line (base_pin info) (gpio_pin1 info)) (line (base_pin info) (gpio_pin2 info)) (line (base_pin info) (gpio_pin3 info))
       (lines_touched (snd (snd (ARA_276_multiple_output lib info (d, []))))) \<and>
     activated_lines (snd (snd (ARA_276_multiple_output lib info (d, [])))) =
       [line (base_pin info) (gpio_pin1 info), line (base_pin info) (gpio_pin2 info), line (base_pin info) (gpio_pin3 info)] \<and>
     released_lines (snd (snd (ARA_276_multiple_output lib info (d, [])))) =
       [line (base_pin info) (gpio_pin1 info), line (base_pin info) (gpio_pin2 info), line (base_pin info) (gpio_pin3 info)]"
  by (simp add: ARA_276_multiple_output_def Let_def wrappers frame_sel lines_touched_def
      activated_lines_def released_lines_def closing_deactivations_def)

lemma ARA_276_recovery:
  "set (released_lines (snd (snd (ARA_276_multiple_output lib info (d, []))))) =
     set (activated_lines (snd (snd (ARA_276_multiple_output lib info (d, [])))))"
proof -
  consider (m) "num_type_is info ''m''" | (s) "\<not> num_type_is info ''m'' \<and> num_type_is info ''s''" | (none) "\<not> num_type_is info ''m'' \<and> \<not> num_type_is info ''s''"
    by blast
  then show ?thesis
  proof cases
    case m
    then show ?thesis
      using ARA_276_multiple [where info = info and d = d and lib = lib] by simp
  next
    case s
    then show ?thesis
      using ARA_276_single [where info = info and d = d and lib = lib] by simp
  next
    case none
    then show ?thesis
      using ARA_276_invalid [where info = info and d = d and lib = lib]
      by (simp add: invalid_run_def released_lines_def activated_lines_def closing_deactivations_def)
  qed
qed

text \<open>ARA-277.\<close>

lemma ARA_277_invalid:
  "\<not> num_type_is info ''s'' \<Longrightarrow> invalid_run d (ARA_277_multiple_times_output lib info (d, []))"
  by (simp add: ARA_277_multiple_times_output_def Let_def report_defs for_loop_ten invalid_run_def compare_guarded_def)

lemma ARA_277_invalid_ret:
  "\<not> num_type_is info ''s'' \<Longrightarrow> fst (ARA_277_multiple_times_output lib info w) = - EINVAL"
  by (simp add: ARA_277_multiple_times_output_def Let_def report_defs for_loop_ten)

lemma ARA_277_result:
  "num_type_is info ''s'' \<Longrightarrow>
     reported (snd (snd (ARA_277_multiple_times_output lib info (d, [])))) =
       [step_result 0 (before_result (snd (snd (ARA_277_multiple_times_output lib info (d, [])))))]"
  by (cases "num_type_is info ''s''"; simp add: ARA_277_multiple_times_output_def Let_def;
      (intro printed_leave result_rules | assumption)+)

lemma ARA_277_invalid_after:
  "\<not> num_type_is info ''s'' \<Longrightarrow> after_result (snd (snd (ARA_277_multiple_times_output lib info (d, [])))) = []"
  by (simp add: ARA_277_multiple_times_output_def Let_def report_defs for_loop_ten after_result_def)

lemma ARA_277_stepped:
  "num_type_is info ''s'' \<Longrightarrow>
     lib_calls (before_result (snd (snd (ARA_277_multiple_times_output lib info (d, []))))) \<noteq> []"
  by (cases "num_type_is info ''s''"; simp add: ARA_277_multiple_times_output_def Let_def for_loop_ten;
      (intro stepped_leave phase_rules | assumption)+)

lemma ARA_277_recovered:
  "num_type_is info ''s'' \<Longrightarrow>
     list_all is_release (after_result (snd (snd (ARA_277_multiple_times_output lib info (d, []))))) \<and>
     length (after_result (snd (snd (ARA_277_multiple_times_output lib info (d, []))))) = Suc 0"
  by (cases "num_type_is info ''s''"; simp add: ARA_277_multiple_times_output_def Let_def for_loop_ten;
      (intro recovered_leave phase_rules | assumption)+)

lemma ARA_277_guarded: "compare_guarded (snd (snd (ARA_277_multiple_times_output lib info (d, []))))"
proof (cases "num_type_is info ''s''")
  case True
  then show ?thesis
    by (cases "num_type_is info ''s''"; simp add: ARA_277_multiple_times_output_def Let_def;
        (intro guarded_leave guarded_rules | assumption)+)
next
  case False
  then show ?thesis
    using ARA_277_invalid [where info = info and d = d and lib = lib] by (simp add: invalid_run_def)
qed

lemma ARA_277_single:
  "num_type_is info ''s'' \<Longrightarrow>
     set (lines_touched (snd (snd (ARA_277_multiple_times_output lib info (d, []))))) = {line (base_pin info) (gpio_pin1 info)} \<and>
     set (activated_lines (snd (snd (ARA_277_multiple_times_output lib info (d, []))))) = {line (base_pin info) (gpio_pin1 info)} \<and>
     set (released_lines (snd (snd (ARA_277_multiple_times_output lib info (d, []))))) = {line (base_pin info) (gpio_pin1 info)}"
  by (simp add: ARA_277_multiple_times_output_def Let_def wrappers frame_sel for_loop_ten lines_touched_def
      activated_lines_def released_lines_def closing_deactivations_def)

lemma ARA_277_recovery:
  "set (released_lines (snd (snd (ARA_277_multiple_times_output lib info (d, []))))) =
     set (activated_lines (snd (snd (ARA_277_multiple_times_output lib info (d, [])))))"
proof -
  consider (s) "num_type_is info ''s''" | (none) "\<not> num_type_is info ''s''"
    by blast
  then show ?thesis
  proof cases
    case s
    then show ?thesis
      using ARA_277_single [where info = info and d = d and lib = lib] by simp
  next
    case none
    then show ?thesis
      using ARA_277_invalid [where info = info and d = d and lib = lib]
      by (simp add: invalid_run_def released_lines_def activated_lines_def closing_deactivations_def)
  qed
qed

text \<open>ARA-279.\<close>

lemma ARA_279_invalid:
  "\<not> num_type_is info ''m'' \<Longrightarrow> \<not> num_type_is info ''s'' \<Longrightarrow> invalid_run d (ARA_279_get_value lib info (d, []))"
  by (simp add: ARA_279_get_value_def Let_def report_defs for_loop_ten invalid_run_def compare_guarded_def)

lemma ARA_279_invalid_ret:
  "\<not> num_type_is info ''m'' \<Longrightarrow> \<not> num_type_is info ''s'' \<Longrightarrow> fst (ARA_279_get_value lib info w) = - EINVAL"
  by (simp add: ARA_279_get_value_def Let_def report_defs for_loop_ten)

lemma ARA_279_result:
  "num_type_is info ''m'' \<or> num_type_is info ''s'' \<Longrightarrow>
     reported (snd (snd (ARA_279_get_value lib info (d, [])))) =
       [step_result 0 (before_result (snd (snd (ARA_279_get_value lib info (d, [])))))]"
  by (cases "num_type_is info ''m''"; cases "num_type_is info ''s''"; simp add: ARA_279_get_value_def Let_def;
      (intro printed_leave result_rules | assumption)+)

lemma ARA_279_invalid_after:
  "\<not> num_type_is info ''m'' \<Longrightarrow> \<not> num_type_is info ''s'' \<Longrightarrow> after_result (snd (snd (ARA_279_get_value lib info (d, [])))) = []"
  by (simp add: ARA_279_get_value_def Let_def report_defs for_loop_ten after_result_def)

lemma ARA_279_stepped:
  "num_type_is info ''m'' \<or> num_type_is info ''s'' \<Longrightarrow>
     lib_calls (before_result (snd (snd (ARA_279_get_value lib info (d, []))))) \<noteq> []"
  by (cases "num_type_is info ''m''"; cases "num_type_is info ''s''"; simp add: ARA_279_get_value_def Let_def for_loop_ten;
      (intro stepped_leave phase_rules | assumption)+)

lemma ARA_279_recovered:
  "num_type_is info ''m'' \<or> num_type_is info ''s'' \<Longrightarrow>
     list_all is_release (after_result (snd (snd (ARA_279_get_value lib info (d, []))))) \<and>
     length (after_result (snd (snd (ARA_279_get_value lib info (d, []))))) = Suc 0"
  by (cases "num_type_is info ''m''"; cases "num_type_is info ''s''"; simp add: ARA_279_get_value_def Let_def for_loop_ten;
      (intro recovered_leave phase_rules | assumption)+)

lemma ARA_279_guarded: "compare_guarded (snd (snd (ARA_279_get_value lib info (d, []))))"
proof (cases "num_type_is info ''m'' \<or> num_type_is info ''s''")
  case True
  then show ?thesis
    by (cases "num_type_is info ''m''"; cases "num_type_is info ''s''"; simp add: ARA_279_get_value_def Let_def;
        (intro guarded_leave guarded_rules | assumption)+)
next
  case False
  then show ?thesis
    using ARA_279_invalid [where info = info and d = d and lib = lib] by (simp add: invalid_run_def)
qed

lemma ARA_279_single:
  "\<not> num_type_is info ''m'' \<Longrightarrow> num_type_is info ''s'' \<Longrightarrow>
     set (lines_touched (snd (snd (ARA_279_get_value lib info (d, []))))) = {line (base_pin info) (gpio_pin1 info)} \<and>
     set (activated_lines (snd (snd (ARA_279_get_value lib info (d, []))))) = {line (base_pin info) (gpio_pin1 info)} \<and>
     set (released_lines (snd (snd (ARA_279_get_value lib info (d, []))))) = {line (base_pin info) (gpio_pin1 info)}"
  by (simp add: ARA_279_get_value_def Let_def wrappers frame_sel for_loop_ten lines_touched_def
      activated_lines_def released_lines_def closing_deactivations_def)

lemma ARA_279_multiple:
  "num_type_is info ''m'' \<Longrightarrow>
     lines_touched (snd (snd (ARA_279_get_value lib info (d, [])))) \<noteq> [] \<and>
     triples_of (line (base_pin info) (gpio_pin1 info)) (line (base_pin info) (gpio_pin2 info)) (line (base_pin info) (gpio_pin3 info))
       (lines_touched (snd (snd (ARA_279_get_value lib info (d, []))))) \<and>
     activated_lines (snd (snd (ARA_279_get_value lib info (d, [])))) =
       [line (base_pin info) (gpio_pin1 info), line (base_pin info) (gpio_pin2 info), line (base_pin info) (gpio_pin3 info)] \<and>
     released_lines (snd (snd (ARA_279_get_value lib info (d, [])))) =
       [line (base_pin info) (gpio_pin1 info), line (base_pin info) (gpio_pin2 info), line (base_pin info) (gpio_pin3 info)]"
  by (simp add: ARA_279_get_value_def Let_def wrappers frame_sel lines_touched_def
      activated_lines_def released_lines_def closing_deactivations_def)

lemma ARA_279_recovery:
  "set (released_lines (snd (snd (ARA_279_get_value lib info (d, []))))) =
     set (activated_lines (snd (snd (ARA_279_get_value lib info (d, [])))))"
proof -
  consider (m) "num_type_is info ''m''" | (s) "\<not> num_type_is info ''m'' \<and> num_type_is info ''s''" | (none) "\<not> num_type_is info ''m'' \<and> \<not> num_type_is info ''s''"
    by blast
  then show ?thesis
  proof cases
    case m
    then show ?thesis
      using ARA_279_multiple [where info = info and d = d and lib = lib] by simp
  next
    case s
    then show ?thesis
      using ARA_279_single [where info = info and d = d and lib = lib] by simp
  next
    case none
    then show ?thesis
      using ARA_279_invalid [where info = info and d = d and lib = lib]
      by (simp add: invalid_run_def released_lines_def activated_lines_def closing_deactivations_def)
  qed
qed

text \<open>ARA-281.\<close>

lemma ARA_281_invalid:
  "\<not> num_type_is info ''s'' \<Longrightarrow> invalid_run d (ARA_281_set_value_high lib info (d, []))"
  by (simp add: ARA_281_set_value_high_def Let_def report_defs for_loop_ten invalid_run_def compare_guarded_def)

lemma ARA_281_invalid_ret:
  "\<not> num_type_is info ''s'' \<Longrightarrow> fst (ARA_281_set_value_high lib info w) = - EINVAL"
  by (simp add: ARA_281_set_value_high_def Let_def report_defs for_loop_ten)

lemma ARA_281_result:
  "num_type_is info ''s'' \<Longrightarrow>
     reported (snd (snd (ARA_281_set_value_high lib info (d, [])))) =
       [step_result 0 (before_result (snd (snd (ARA_281_set_value_high lib info (d, [])))))]"
  by (cases "num_type_is info ''s''"; simp add: ARA_281_set_value_high_def Let_def;
      (intro printed_leave result_rules | assumption)+)

lemma ARA_281_invalid_after:
  "\<not> num_type_is info ''s'' \<Longrightarrow> after_result (snd (snd (ARA_281_set_value_high lib info (d, [])))) = []"
  by (simp add: ARA_281_set_value_high_def Let_def report_defs for_loop_ten after_result_def)

lemma ARA_281_stepped:
  "num_type_is info ''s'' \<Longrightarrow>
     lib_calls (before_result (snd (snd (ARA_281_set_value_high lib info (d, []))))) \<noteq> []"
  by (cases "num_type_is info ''s''"; simp add: ARA_281_set_value_high_def Let_def for_loop_ten;
      (intro stepped_leave phase_rules | assumption)+)

lemma ARA_281_recovered:
  "num_type_is info ''s'' \<Longrightarrow>
     list_all is_release (after_result (snd (snd (ARA_281_set_value_high lib info (d, []))))) \<and>
     length (after_result (snd (snd (ARA_281_set_value_high lib info (d, []))))) = Suc 0"
  by (cases "num_type_is info ''s''"; simp add: ARA_281_set_value_high_def Let_def for_loop_ten;
      (intro recovered_leave phase_rules | assumption)+)

lemma ARA_281_guarded: "compare_guarded (snd (snd (ARA_281_set_value_high lib info (d, []))))"
proof (cases "num_type_is info ''s''")
  case True
  then show ?thesis
    by (cases "num_type_is info ''s''"; simp add: ARA_281_set_value_high_def Let_def;
        (intro guarded_leave guarded_rules | assumption)+)
next
  case False
  then show ?thesis
    using ARA_281_invalid [where info = info and d = d and lib = lib] by (simp add: invalid_run_def)
qed

lemma ARA_281_single:
  "num_type_is info ''s'' \<Longrightarrow>
     set (lines_touched (snd (snd (ARA_281_set_value_high lib info (d, []))))) = {line (base_pin info) (gpio_pin1 info)} \<and>
     set (activated_lines (snd (snd (ARA_281_set_value_high lib info (d, []))))) = {line (base_pin info) (gpio_pin1 info)} \<and>
     set (released_lines (snd (snd (ARA_281_set_value_high lib info (d, []))))) = {line (base_pin info) (gpio_pin1 info)}"
  by (simp add: ARA_281_set_value_high_def Let_def wrappers frame_sel for_loop_ten lines_touched_def
      activated_lines_def released_lines_def closing_deactivations_def)

lemma ARA_281_recovery:
  "set (released_lines (snd (snd (ARA_281_set_value_high lib info (d, []))))) =
     set (activated_lines (snd (snd (ARA_281_set_value_high lib info (d, [])))))"
proof -
  consider (s) "num_type_is info ''s''" | (none) "\<not> num_type_is info ''s''"
    by blast
  then show ?thesis
  proof cases
    case s
    then show ?thesis
      using ARA_281_single [where info = info and d = d and lib = lib] by simp
  next
    case none
    then show ?thesis
      using ARA_281_invalid [where info = info and d = d and lib = lib]
      by (simp add: invalid_run_def released_lines_def activated_lines_def closing_deactivations_def)
  qed
qed

text \<open>ARA-282.\<close>

lemma ARA_282_invalid:
  "\<not> num_type_is info ''s'' \<Longrightarrow> invalid_run d (ARA_282_set_value_low lib info (d, []))"
  by (simp add: ARA_282_set_value_low_def Let_def report_defs for_loop_ten invalid_run_def compare_guarded_def)

lemma ARA_282_invalid_ret:
  "\<not> num_type_is info ''s'' \<Longrightarrow> fst (ARA_282_set_value_low lib info w) = - EINVAL"
  by (simp add: ARA_282_set_value_low_def Let_def report_defs for_loop_ten)

lemma ARA_282_result:
  "num_type_is info ''s'' \<Longrightarrow>
     reported (snd (snd (ARA_282_set_value_low lib info (d, [])))) =
       [step_result 0 (before_result (snd (snd (ARA_282_set_value_low lib info (d, [])))))]"
  by (cases "num_type_is info ''s''"; simp add: ARA_282_set_value_low_def Let_def;
      (intro printed_leave result_rules | assumption)+)

lemma ARA_282_invalid_after:
  "\<not> num_type_is info ''s'' \<Longrightarrow> after_result (snd (snd (ARA_282_set_value_low lib info (d, [])))) = []"
  by (simp add: ARA_282_set_value_low_def Let_def report_defs for_loop_ten after_result_def)

lemma ARA_282_stepped:
  "num_type_is info ''s'' \<Longrightarrow>
     lib_calls (before_result (snd (snd (ARA_282_set_value_low lib info (d, []))))) \<noteq> []"
  by (cases "num_type_is info ''s''"; simp add: ARA_282_set_value_low_def Let_def for_loop_ten;
      (intro stepped_leave phase_rules | assumption)+)

lemma ARA_282_recovered:
  "num_type_is info ''s'' \<Longrightarrow>
     list_all is_release (after_result (snd (snd (ARA_282_set_value_low lib info (d, []))))) \<and>
     length (after_result (snd (snd (ARA_282_set_value_low lib info (d, []))))) = Suc 0"
  by (cases "num_type_is info ''s''"; simp add: ARA_282_set_value_low_def Let_def for_loop_ten;
      (intro recovered_leave phase_rules | assumption)+)

lemma ARA_282_guarded: "compare_guarded (snd (snd (ARA_282_set_value_low lib info (d, []))))"
proof (cases "num_type_is info ''s''")
  case True
  then show ?thesis
    by (cases "num_type_is info ''s''"; simp add: ARA_282_set_value_low_def Let_def;
        (intro guarded_leave guarded_rules | assumption)+)
next
  case False
  then show ?thesis
    using ARA_282_invalid [where info = info and d = d and lib = lib] by (simp add: invalid_run_def)
qed

lemma ARA_282_single:
  "num_type_is info ''s'' \<Longrightarrow>
     set (lines_touched (snd (snd (ARA_282_set_value_low lib info (d, []))))) = {line (base_pin info) (gpio_pin1 info)} \<and>
     set (activated_lines (snd (snd (ARA_282_set_value_low lib info (d, []))))) = {line (base_pin info) (gpio_pin1 info)} \<and>
     set (released_lines (snd (snd (ARA_282_set_value_low lib info (d, []))))) = {line (base_pin info) (gpio_pin1 info)}"
  by (simp add: ARA_282_set_value_low_def Let_def wrappers frame_sel for_loop_ten lines_touched_def
      activated_lines_def released_lines_def closing_deactivations_def)

lemma ARA_282_recovery:
  "set (released_lines (snd (snd (ARA_282_set_value_low lib info (d, []))))) =
     set (activated_lines (snd (snd (ARA_282_set_value_low lib info (d, [])))))"
proof -
  consider (s) "num_type_is info ''s''" | (none) "\<not> num_type_is info ''s''"
    by blast
  then show ?thesis
  proof cases
    case s
    then show ?thesis
      using ARA_282_single [where info = info and d = d and lib = lib] by simp
  next
    case none
    then show ?thesis
      using ARA_282_invalid [where info = info and d = d and lib = lib]
      by (simp add: invalid_run_def released_lines_def activated_lines_def closing_deactivations_def)
  qed
qed

text \<open>ARA-286.\<close>

lemma ARA_286_invalid:
  "\<not> num_type_is info ''s'' \<Longrightarrow> invalid_run d (ARA_286_set_edge_rising lib info (d, []))"
  by (simp add: ARA_286_set_edge_rising_def Let_def report_defs for_loop_ten invalid_run_def compare_guarded_def)

lemma ARA_286_invalid_ret:
  "\<not> num_type_is info ''s'' \<Longrightarrow> fst (ARA_286_set_edge_rising lib info w) = - EINVAL"
  by (simp add: ARA_286_set_edge_rising_def Let_def report_defs for_loop_ten)

lemma ARA_286_result:
  "num_type_is info ''s'' \<Longrightarrow>
     reported (snd (snd (ARA_286_set_edge_rising lib info (d, [])))) =
       [step_result 0 (before_result (snd (snd (ARA_286_set_edge_rising lib info (d, [])))))]"
  by (cases "num_type_is info ''s''"; simp add: ARA_286_set_edge_rising_def Let_def;
      (intro printed_leave result_rules | assumption)+)

lemma ARA_286_invalid_after:
  "\<not> num_type_is info ''s'' \<Longrightarrow> after_result (snd (snd (ARA_286_set_edge_rising lib info (d, [])))) = []"
  by (simp add: ARA_286_set_edge_rising_def Let_def report_defs for_loop_ten after_result_def)

lemma ARA_286_stepped:
  "num_type_is info ''s'' \<Longrightarrow>
     lib_calls (before_result (snd (snd (ARA_286_set_edge_rising lib info (d, []))))) \<noteq> []"
  by (cases "num_type_is info ''s''"; simp add: ARA_286_set_edge_rising_def Let_def for_loop_ten;
      (intro stepped_leave phase_rules | assumption)+)

lemma ARA_286_recovered:
  "num_type_is info ''s'' \<Longrightarrow>
     list_all is_release (after_result (snd (snd (ARA_286_set_edge_rising lib info (d, []))))) \<and>
     length (after_result (snd (snd (ARA_286_set_edge_rising lib info (d, []))))) = Suc 0"
  by (cases "num_type_is info ''s''"; simp add: ARA_286_set_edge_rising_def Let_def for_loop_ten;
      (intro recovered_leave phase_rules | assumption)+)

lemma ARA_286_guarded: "compare_guarded (snd (snd (ARA_286_set_edge_rising lib info (d, []))))"
proof (cases "num_type_is info ''s''")
  case True
  then show ?thesis
    by (cases "num_type_is info ''s''"; simp add: ARA_286_set_edge_rising_def Let_def;
        (intro guarded_leave guarded_rules | assumption)+)
next
  case False
  then show ?thesis
    using ARA_286_invalid [where info = info and d = d and lib = lib] by (simp add: invalid_run_def)
qed

lemma ARA_286_single:
  "num_type_is info ''s'' \<Longrightarrow>
     set (lines_touched (snd (snd (ARA_286_set_edge_rising lib info (d, []))))) = {line (base_pin info) (gpio_pin1 info)} \<and>
     set (activated_lines (snd (snd (ARA_286_set_edge_rising lib info (d, []))))) = {line (base_pin info) (gpio_pin1 info)} \<and>
     set (released_lines (snd (snd (ARA_286_set_edge_rising lib info (d, []))))) = {line (base_pin info) (gpio_pin1 info)}"
  by (simp add: ARA_286_set_edge_rising_def Let_def wrappers frame_sel for_loop_ten lines_touched_def
      activated_lines_def released_lines_def closing_deactivations_def)

lemma ARA_286_recovery:
  "set (released_lines (snd (snd (ARA_286_set_edge_rising lib info (d, []))))) =
     set (activated_lines (snd (snd (ARA_286_set_edge_rising lib info (d, [])))))"
proof -
  consider (s) "num_type_is info ''s''" | (none) "\<not> num_type_is info ''s''"
    by blast
  then show ?thesis
  proof cases
    case s
    then show ?thesis
      using ARA_286_single [where info = info and d = d and lib = lib] by simp
  next
    case none
    then show ?thesis
      using ARA_286_invalid [where info = info and d = d and lib = lib]
      by (simp add: invalid_run_def released_lines_def activated_lines_def closing_deactivations_def)
  qed
qed

text \<open>ARA-287.\<close>

lemma ARA_287_invalid:
  "\<not> num_type_is info ''s'' \<Longrightarrow> invalid_run d (ARA_287_set_edge_falling lib info (d, []))"
  by (simp add: ARA_287_set_edge_falling_def Let_def report_defs for_loop_ten invalid_run_def compare_guarded_def)

lemma ARA_287_invalid_ret:
  "\<not> num_type_is info ''s'' \<Longrightarrow> fst (ARA_287_set_edge_falling lib info w) = - EINVAL"
  by (simp add: ARA_287_set_edge_falling_def Let_def report_defs for_loop_ten)

lemma ARA_287_result:
  "num_type_is info ''s'' \<Longrightarrow>
     reported (snd (snd (ARA_287_set_edge_falling lib info (d, [])))) =
       [step_result 0 (before_result (snd (snd (ARA_287_set_edge_falling lib info (d, [])))))]"
  by (cases "num_type_is info ''s''"; simp add: ARA_287_set_edge_falling_def Let_def;
      (intro printed_leave result_rules | assumption)+)

lemma ARA_287_invalid_after:
  "\<not> num_type_is info ''s'' \<Longrightarrow> after_result (snd (snd (ARA_287_set_edge_falling lib info (d, [])))) = []"
  by (simp add: ARA_287_set_edge_falling_def Let_def report_defs for_loop_ten after_result_def)

lemma ARA_287_stepped:
  "num_type_is info ''s'' \<Longrightarrow>
     lib_calls (before_result (snd (snd (ARA_287_set_edge_falling lib info (d, []))))) \<noteq> []"
  by (cases "num_type_is info ''s''"; simp add: ARA_287_set_edge_falling_def Let_def for_loop_ten;
      (intro stepped_leave phase_rules | assumption)+)

lemma ARA_287_recovered:
  "num_type_is info ''s'' \<Longrightarrow>
     list_all is_release (after_result (snd (snd (ARA_287_set_edge_falling lib info (d, []))))) \<and>
     length (after_result (snd (snd (ARA_287_set_edge_falling lib info (d, []))))) = Suc 0"
  by (cases "num_type_is info ''s''"; simp add: ARA_287_set_edge_falling_def Let_def for_loop_ten;
      (intro recovered_leave phase_rules | assumption)+)

lemma ARA_287_guarded: "compare_guarded (snd (snd (ARA_287_set_edge_falling lib info (d, []))))"
proof (cases "num_type_is info ''s''")
  case True
  then show ?thesis
    by (cases "num_type_is info ''s''"; simp add: ARA_287_set_edge_falling_def Let_def;
        (intro guarded_leave guarded_rules | assumption)+)
next
  case False
  then show ?thesis
    using ARA_287_invalid [where info = info and d = d and lib = lib] by (simp add: invalid_run_def)
qed

lemma ARA_287_single:
  "num_type_is info ''s'' \<Longrightarrow>
     set (lines_touched (snd (snd (ARA_287_set_edge_falling lib info (d, []))))) = {line (base_pin info) (gpio_pin1 info)} \<and>
     set (activated_lines (snd (snd (ARA_287_set_edge_falling lib info (d, []))))) = {line (base_pin info) (gpio_pin1 info)} \<and>
     set (released_lines (snd (snd (ARA_287_set_edge_falling lib info (d, []))))) = {line (base_pin info) (gpio_pin1 info)}"
  by (simp add: ARA_287_set_edge_falling_def Let_def wrappers frame_sel for_loop_ten lines_touched_def
      activated_lines_def released_lines_def closing_deactivations_def)

lemma ARA_287_recovery:
  "set (released_lines (snd (snd (ARA_287_set_edge_falling lib info (d, []))))) =
     set (activated_lines (snd (snd (ARA_287_set_edge_falling lib info (d, [])))))"
proof -
  consider (s) "num_type_is info ''s''" | (none) "\<not> num_type_is info ''s''"
    by blast
  then show ?thesis
  proof cases
    case s
    then show ?thesis
      using ARA_287_single [where info = info and d = d and lib = lib] by simp
  next
    case none
    then show ?thesis
      using ARA_287_invalid [where info = info and d = d and lib = lib]
      by (simp add: invalid_run_def released_lines_def activated_lines_def closing_deactivations_def)
  qed
qed

text \<open>ARA-288.\<close>

lemma ARA_288_invalid:
  "\<not> num_type_is info ''s'' \<Longrightarrow> invalid_run d (ARA_288_set_edge_both lib info (d, []))"
  by (simp add: ARA_288_set_edge_both_def Let_def report_defs for_loop_ten invalid_run_def compare_guarded_def)

lemma ARA_288_invalid_ret:
  "\<not> num_type_is info ''s'' \<Longrightarrow> fst (ARA_288_set_edge_both lib info w) = - EINVAL"
  by (simp add: ARA_288_set_edge_both_def Let_def report_defs for_loop_ten)

lemma ARA_288_result:
  "num_type_is info ''s'' \<Longrightarrow>
     reported (snd (snd (ARA_288_set_edge_both lib info (d, [])))) =
       [step_result 0 (before_result (snd (snd (ARA_288_set_edge_both lib info (d, [])))))]"
  by (cases "num_type_is info ''s''"; simp add: ARA_288_set_edge_both_def Let_def;
      (intro printed_leave result_rules | assumption)+)

lemma ARA_288_invalid_after:
  "\<not> num_type_is info ''s'' \<Longrightarrow> after_result (snd (snd (ARA_288_set_edge_both lib info (d, [])))) = []"
  by (simp add: ARA_288_set_edge_both_def Let_def report_defs for_loop_ten after_result_def)

lemma ARA_288_stepped:
  "num_type_is info ''s'' \<Longrightarrow>
     lib_calls (before_result (snd (snd (ARA_288_set_edge_both lib info (d, []))))) \<noteq> []"
  by (cases "num_type_is info ''s''"; simp add: ARA_288_set_edge_both_def Let_def for_loop_ten;
      (intro stepped_leave phase_rules | assumption)+)

lemma ARA_288_recovered:
  "num_type_is info ''s'' \<Longrightarrow>
     list_all is_release (after_result (snd (snd (ARA_288_set_edge_both lib info (d, []))))) \<and>
     length (after_result (snd (snd (ARA_288_set_edge_both lib info (d, []))))) = Suc 0"
  by (cases "num_type_is info ''s''"; simp add: ARA_288_set_edge_both_def Let_def for_loop_ten;
      (intro recovered_leave phase_rules | assumption)+)

lemma ARA_288_guarded: "compare_guarded (snd (snd (ARA_288_set_edge_both lib info (d, []))))"
proof (cases "num_type_is info ''s''")
  case True
  then show ?thesis
    by (cases "num_type_is info ''s''"; simp add: ARA_288_set_edge_both_def Let_def;
        (intro guarded_leave guarded_rules | assumption)+)
next
  case False
  then show ?thesis
    using ARA_288_invalid [where info = info and d = d and lib = lib] by (simp add: invalid_run_def)
qed

lemma ARA_288_single:
  "num_type_is info ''s'' \<Longrightarrow>
     set (lines_touched (snd (snd (ARA_288_set_edge_both lib info (d, []))))) = {line (base_pin info) (gpio_pin1 info)} \<and>
     set (activated_lines (snd (snd (ARA_288_set_edge_both lib info (d, []))))) = {line (base_pin info) (gpio_pin1 info)} \<and>
     set (released_lines (snd (snd (ARA_288_set_edge_both lib info (d, []))))) = {line (base_pin info) (gpio_pin1 info)}"
  by (simp add: ARA_288_set_edge_both_def Let_def wrappers frame_sel for_loop_ten lines_touched_def
      activated_lines_def released_lines_def closing_deactivations_def)

lemma ARA_288_recovery:
  "set (released_lines (snd (snd (ARA_288_set_edge_both lib info (d, []))))) =
     set (activated_lines (snd (snd (ARA_288_set_edge_both lib info (d, [])))))"
proof -
  consider (s) "num_type_is info ''s''" | (none) "\<not> num_type_is info ''s''"
    by blast
  then show ?thesis
  proof cases
    case s
    then show ?thesis
      using ARA_288_single [where info = info and d = d and lib = lib] by simp
  next
    case none
    then show ?thesis
      using ARA_288_invalid [where info = info and d = d and lib = lib]
      by (simp add: invalid_run_def released_lines_def activated_lines_def closing_deactivations_def)
  qed
qed

text \<open>ARA-409.\<close>

lemma ARA_409_invalid:
  "\<not> num_type_is info ''s'' \<Longrightarrow> invalid_run d (ARA_409_input_to_output lib info (d, []))"
  by (simp add: ARA_409_input_to_output_def Let_def report_defs for_loop_ten invalid_run_def compare_guarded_def)

lemma ARA_409_invalid_ret:
  "\<not> num_type_is info ''s'' \<Longrightarrow> fst (ARA_409_input_to_output lib info w) = - EINVAL"
  by (simp add: ARA_409_input_to_output_def Let_def report_defs for_loop_ten)

lemma ARA_409_result:
  "num_type_is info ''s'' \<Longrightarrow>
     reported (snd (snd (ARA_409_input_to_output lib info (d, [])))) =
       [step_result 0 (before_result (snd (snd (ARA_409_input_to_output lib info (d, [])))))]"
  by (cases "num_type_is info ''s''"; simp add: ARA_409_input_to_output_def Let_def;
      (intro printed_leave result_rules | assumption)+)

lemma ARA_409_invalid_after:
  "\<not> num_type_is info ''s'' \<Longrightarrow> after_result (snd (snd (ARA_409_input_to_output lib info (d, [])))) = []"
  by (simp add: ARA_409_input_to_output_def Let_def report_defs for_loop_ten after_result_def)

lemma ARA_409_stepped:
  "num_type_is info ''s'' \<Longrightarrow>
     lib_calls (before_result (snd (snd (ARA_409_input_to_output lib info (d, []))))) \<noteq> []"
  by (cases "num_type_is info ''s''"; simp add: ARA_409_input_to_output_def Let_def for_loop_ten;
      (intro stepped_leave phase_rules | assumption)+)

lemma ARA_409_recovered:
  "num_type_is info ''s'' \<Longrightarrow>
     list_all is_release (after_result (snd (snd (ARA_409_input_to_output lib info (d, []))))) \<and>
     length (after_result (snd (snd (ARA_409_input_to_output lib info (d, []))))) = Suc 0"
  by (cases "num_type_is info ''s''"; simp add: ARA_409_input_to_output_def Let_def for_loop_ten;
      (intro recovered_leave phase_rules | assumption)+)

lemma ARA_409_guarded: "compare_guarded (snd (snd (ARA_409_input_to_output lib info (d, []))))"
proof (cases "num_type_is info ''s''")
  case True
  then show ?thesis
    by (cases "num_type_is info ''s''"; simp add: ARA_409_input_to_output_def Let_def;
        (intro guarded_leave guarded_rules | assumption)+)
next
  case False
  then show ?thesis
    using ARA_409_invalid [where info = info and d = d and lib = lib] by (simp add: invalid_run_def)
qed

lemma ARA_409_single:
  "num_type_is info ''s'' \<Longrightarrow>
     set (lines_touched (snd (snd (ARA_409_input_to_output lib info (d, []))))) = {line (base_pin info) (gpio_pin1 info)} \<and>
     set (activated_lines (snd (snd (ARA_409_input_to_output lib info (d, []))))) = {line (base_pin info) (gpio_pin1 info)} \<and>
     set (released_lines (snd (snd (ARA_409_input_to_output lib info (d, []))))) = {line (base_pin info) (gpio_pin1 info)}"
  by (simp add: ARA_409_input_to_output_def Let_def wrappers frame_sel for_loop_ten lines_touched_def
      activated_lines_def released_lines_def closing_deactivations_def)

lemma ARA_409_recovery:
  "set (released_lines (snd (snd (ARA_409_input_to_output lib info (d, []))))) =
     set (activated_lines (snd (snd (ARA_409_input_to_output lib info (d, [])))))"
proof -
  consider (s) "num_type_is info ''s''" | (none) "\<not> num_type_is info ''s''"
    by blast
  then show ?thesis
  proof cases
    case s
    then show ?thesis
      using ARA_409_single [where info = info and d = d and lib = lib] by simp
  next
    case none
    then show ?thesis
      using ARA_409_invalid [where info = info and d = d and lib = lib]
      by (simp add: invalid_run_def released_lines_def activated_lines_def closing_deactivations_def)
  qed
qed

text \<open>ARA-410.\<close>

lemma ARA_410_invalid:
  "\<not> num_type_is info ''s'' \<Longrightarrow> invalid_run d (ARA_410_output_to_input lib info (d, []))"
  by (simp add: ARA_410_output_to_input_def Let_def report_defs for_loop_ten invalid_run_def compare_guarded_def)

lemma ARA_410_invalid_ret:
  "\<not> num_type_is info ''s'' \<Longrightarrow> fst (ARA_410_output_to_input lib info w) = - EINVAL"
  by (simp add: ARA_410_output_to_input_def Let_def report_defs for_loop_ten)

lemma ARA_410_result:
  "num_type_is info ''s'' \<Longrightarrow>
     reported (snd (snd (ARA_410_output_to_input lib info (d, [])))) =
       [step_result 0 (before_result (snd (snd (ARA_410_output_to_input lib info (d, [])))))]"
  by (cases "num_type_is info ''s''"; simp add: ARA_410_output_to_input_def Let_def;
      (intro printed_leave result_rules | assumption)+)

lemma ARA_410_invalid_after:
  "\<not> num_type_is info ''s'' \<Longrightarrow> after_result (snd (snd (ARA_410_output_to_input lib info (d, [])))) = []"
  by (simp add: ARA_410_output_to_input_def Let_def report_defs for_loop_ten after_result_def)

lemma ARA_410_stepped:
  "num_type_is info ''s'' \<Longrightarrow>
     lib_calls (before_result (snd (snd (ARA_410_output_to_input lib info (d, []))))) \<noteq> []"
  by (cases "num_type_is info ''s''"; simp add: ARA_410_output_to_input_def Let_def for_loop_ten;
      (intro stepped_leave phase_rules | assumption)+)

lemma ARA_410_recovered:
  "num_type_is info ''s'' \<Longrightarrow>
     list_all is_release (after_result (snd (snd (ARA_410_output_to_input lib info (d, []))))) \<and>
     length (after_result (snd (snd (ARA_410_output_to_input lib info (d, []))))) = Suc 0"
  by (cases "num_type_is info ''s''"; simp add: ARA_410_output_to_input_def Let_def for_loop_ten;
      (intro recovered_leave phase_rules | assumption)+)

lemma ARA_410_guarded: "compare_guarded (snd (snd (ARA_410_output_to_input lib info (d, []))))"
proof (cases "num_type_is info ''s''")
  case True
  then show ?thesis
    by (cases "num_type_is info ''s''"; simp add: ARA_410_output_to_input_def Let_def;
        (intro guarded_leave guarded_rules | assumption)+)
next
  case False
  then show ?thesis
    using ARA_410_invalid [where info = info and d = d and lib = lib] by (simp add: invalid_run_def)
qed

lemma ARA_410_single:
  "num_type_is info ''s'' \<Longrightarrow>
     set (lines_touched (snd (snd (ARA_410_output_to_input lib info (d, []))))) = {line (base_pin info) (gpio_pin1 info)} \<and>
     set (activated_lines (snd (snd (ARA_410_output_to_input lib info (d, []))))) = {line (base_pin info) (gpio_pin1 info)} \<and>
     set (released_lines (snd (snd (ARA_410_output_to_input lib info (d, []))))) = {line (base_pin info) (gpio_pin1 info)}"
  by (simp add: ARA_410_output_to_input_def Let_def wrappers frame_sel for_loop_ten lines_touched_def
      activated_lines_def released_lines_def closing_deactivations_def)

lemma ARA_410_recovery:
  "set (released_lines (snd (snd (ARA_410_output_to_input lib info (d, []))))) =
     set (activated_lines (snd (snd (ARA_410_output_to_input lib info (d, [])))))"
proof -
  consider (s) "num_type_is info ''s''" | (none) "\<not> num_type_is info ''s''"
    by blast
  then show ?thesis
  proof cases
    case s
    then show ?thesis
      using ARA_410_single [where info = info and d = d and lib = lib] by simp
  next
    case none
    then show ?thesis
      using ARA_410_invalid [where info = info and d = d and lib = lib]
      by (simp add: invalid_run_def released_lines_def activated_lines_def closing_deactivations_def)
  qed
qed

text \<open>ARA-411.\<close>

lemma ARA_411_invalid:
  "\<not> num_type_is info ''s'' \<Longrightarrow> invalid_run d (ARA_411_falling_to_rising lib info (d, []))"
  by (simp add: ARA_411_falling_to_rising_def Let_def report_defs for_loop_ten invalid_run_def compare_guarded_def)

lemma ARA_411_invalid_ret:
  "\<not> num_type_is info ''s'' \<Longrightarrow> fst (ARA_411_falling_to_rising lib info w) = - EINVAL"
  by (simp add: ARA_411_falling_to_rising_def Let_def report_defs for_loop_ten)

lemma ARA_411_result:
  "num_type_is info ''s'' \<Longrightarrow>
     reported (snd (snd (ARA_411_falling_to_rising lib info (d, [])))) =
       [step_result 0 (before_result (snd (snd (ARA_411_falling_to_rising lib info (d, [])))))]"
  by (cases "num_type_is info ''s''"; simp add: ARA_411_falling_to_rising_def Let_def;
      (intro printed_leave result_rules | assumption)+)

lemma ARA_411_invalid_after:
  "\<not> num_type_is info ''s'' \<Longrightarrow> after_result (snd (snd (ARA_411_falling_to_rising lib info (d, [])))) = []"
  by (simp add: ARA_411_falling_to_rising_def Let_def report_defs for_loop_ten after_result_def)

lemma ARA_411_stepped:
  "num_type_is info ''s'' \<Longrightarrow>
     lib_calls (before_result (snd (snd (ARA_411_falling_to_rising lib info (d, []))))) \<noteq> []"
  by (cases "num_type_is info ''s''"; simp add: ARA_411_falling_to_rising_def Let_def for_loop_ten;
      (intro stepped_leave phase_rules | assumption)+)

lemma ARA_411_recovered:
  "num_type_is info ''s'' \<Longrightarrow>
     list_all is_release (after_result (snd (snd (ARA_411_falling_to_rising lib info (d, []))))) \<and>
     length (after_result (snd (snd (ARA_411_falling_to_rising lib info (d, []))))) = Suc 0"
  by (cases "num_type_is info ''s''"; simp add: ARA_411_falling_to_rising_def Let_def for_loop_ten;
      (intro recovered_leave phase_rules | assumption)+)

lemma ARA_411_guarded: "compare_guarded (snd (snd (ARA_411_falling_to_rising lib info (d, []))))"
proof (cases "num_type_is info ''s''")
  case True
  then show ?thesis
    by (cases "num_type_is info ''s''"; simp add: ARA_411_falling_to_rising_def Let_def;
        (intro guarded_leave guarded_rules | assumption)+)
next
  case False
  then show ?thesis
    using ARA_411_invalid [where info = info and d = d and lib = lib] by (simp add: invalid_run_def)
qed

lemma ARA_411_single:
  "num_type_is info ''s'' \<Longrightarrow>
     set (lines_touched (snd (snd (ARA_411_falling_to_rising lib info (d, []))))) = {line (base_pin info) (gpio_pin1 info)} \<and>
     set (activated_lines (snd (snd (ARA_411_falling_to_rising lib info (d, []))))) = {line (base_pin info) (gpio_pin1 info)} \<and>
     set (released_lines (snd (snd (ARA_411_falling_to_rising lib info (d, []))))) = {line (base_pin info) (gpio_pin1 info)}"
  by (simp add: ARA_411_falling_to_rising_def Let_def wrappers frame_sel for_loop_ten lines_touched_def
      activated_lines_def released_lines_def closing_deactivations_def)

lemma ARA_411_recovery:
  "set (released_lines (snd (snd (ARA_411_falling_to_rising lib info (d, []))))) =
     set (activated_lines (snd (snd (ARA_411_falling_to_rising lib info (d, [])))))"
proof -
  consider (s) "num_type_is info ''s''" | (none) "\<not> num_type_is info ''s''"
    by blast
  then show ?thesis
  proof cases
    case s
    then show ?thesis
      using ARA_411_single [where info = info and d = d and lib = lib] by simp
  next
    case none
    then show ?thesis
      using ARA_411_invalid [where info = info and d = d and lib = lib]
      by (simp add: invalid_run_def released_lines_def activated_lines_def closing_deactivations_def)
  qed
qed

text \<open>ARA-412.\<close>

lemma ARA_412_invalid:
  "\<not> num_type_is info ''s'' \<Longrightarrow> invalid_run d (ARA_412_rising_to_falling lib info (d, []))"
  by (simp add: ARA_412_rising_to_falling_def Let_def report_defs for_loop_ten invalid_run_def compare_guarded_def)

lemma ARA_412_invalid_ret:
  "\<not> num_type_is info ''s'' \<Longrightarrow> fst (ARA_412_rising_to_falling lib info w) = - EINVAL"
  by (simp add: ARA_412_rising_to_falling_def Let_def report_defs for_loop_ten)

lemma ARA_412_result:
  "num_type_is info ''s'' \<Longrightarrow>
     reported (snd (snd (ARA_412_rising_to_falling lib info (d, [])))) =
       [step_result 0 (before_result (snd (snd (ARA_412_rising_to_falling lib info (d, [])))))]"
  by (cases "num_type_is info ''s''"; simp add: ARA_412_rising_to_falling_def Let_def;
      (intro printed_leave result_rules | assumption)+)

lemma ARA_412_invalid_after:
  "\<not> num_type_is info ''s'' \<Longrightarrow> after_result (snd (snd (ARA_412_rising_to_falling lib info (d, [])))) = []"
  by (simp add: ARA_412_rising_to_falling_def Let_def report_defs for_loop_ten after_result_def)

lemma ARA_412_stepped:
  "num_type_is info ''s'' \<Longrightarrow>
     lib_calls (before_result (snd (snd (ARA_412_rising_to_falling lib info (d, []))))) \<noteq> []"
  by (cases "num_type_is info ''s''"; simp add: ARA_412_rising_to_falling_def Let_def for_loop_ten;
      (intro stepped_leave phase_rules | assumption)+)

lemma ARA_412_recovered:
  "num_type_is info ''s'' \<Longrightarrow>
     list_all is_release (after_result (snd (snd (ARA_412_rising_to_falling lib info (d, []))))) \<and>
     length (after_result (snd (snd (ARA_412_rising_to_falling lib info (d, []))))) = Suc 0"
  by (cases "num_type_is info ''s''"; simp add: ARA_412_rising_to_falling_def Let_def for_loop_ten;
      (intro recovered_leave phase_rules | assumption)+)

lemma ARA_412_guarded: "compare_guarded (snd (snd (ARA_412_rising_to_falling lib info (d, []))))"
proof (cases "num_type_is info ''s''")
  case True
  then show ?thesis
    by (cases "num_type_is info ''s''"; simp add: ARA_412_rising_to_falling_def Let_def;
        (intro guarded_leave guarded_rules | assumption)+)
next
  case False
  then show ?thesis
    using ARA_412_invalid [where info = info and d = d and lib = lib] by (simp add: invalid_run_def)
qed

lemma ARA_412_single:
  "num_type_is info ''s'' \<Longrightarrow>
     set (lines_touched (snd (snd (ARA_412_rising_to_falling lib info (d, []))))) = {line (base_pin info) (gpio_pin1 info)} \<and>
     set (activated_lines (snd (snd (ARA_412_rising_to_falling lib info (d, []))))) = {line (base_pin info) (gpio_pin1 info)} \<and>
     set (released_lines (snd (snd (ARA_412_rising_to_falling lib info (d, []))))) = {line (base_pin info) (gpio_pin1 info)}"
  by (simp add: ARA_412_rising_to_falling_def Let_def wrappers frame_sel for_loop_ten lines_touched_def
      activated_lines_def released_lines_def closing_deactivations_def)

lemma ARA_412_recovery:
  "set (released_lines (snd (snd (ARA_412_rising_to_falling lib info (d, []))))) =
     set (activated_lines (snd (snd (ARA_412_rising_to_falling lib info (d, [])))))"
proof -
  consider (s) "num_type_is info ''s''" | (none) "\<not> num_type_is info ''s''"
    by blast
  then show ?thesis
  proof cases
    case s
    then show ?thesis
      using ARA_412_single [where info = info and d = d and lib = lib] by simp
  next
    case none
    then show ?thesis
      using ARA_412_invalid [where info = info and d = d and lib = lib]
      by (simp add: invalid_run_def released_lines_def activated_lines_def closing_deactivations_def)
  qed
qed

text \<open>ARA-413.\<close>

lemma ARA_413_invalid:
  "\<not> num_type_is info ''s'' \<Longrightarrow> invalid_run d (ARA_413_rising_to_both lib info (d, []))"
  by (simp add: ARA_413_rising_to_both_def Let_def report_defs for_loop_ten invalid_run_def compare_guarded_def)

lemma ARA_413_invalid_ret:
  "\<not> num_type_is info ''s'' \<Longrightarrow> fst (ARA_413_rising_to_both lib info w) = - EINVAL"
  by (simp add: ARA_413_rising_to_both_def Let_def report_defs for_loop_ten)

lemma ARA_413_result:
  "num_type_is info ''s'' \<Longrightarrow>
     reported (snd (snd (ARA_413_rising_to_both lib info (d, [])))) =
       [step_result 0 (before_result (snd (snd (ARA_413_rising_to_both lib info (d, [])))))]"
  by (cases "num_type_is info ''s''"; simp add: ARA_413_rising_to_both_def Let_def;
      (intro printed_leave result_rules | assumption)+)

lemma ARA_413_invalid_after:
  "\<not> num_type_is info ''s'' \<Longrightarrow> after_result (snd (snd (ARA_413_rising_to_both lib info (d, [])))) = []"
  by (simp add: ARA_413_rising_to_both_def Let_def report_defs for_loop_ten after_result_def)

lemma ARA_413_stepped:
  "num_type_is info ''s'' \<Longrightarrow>
     lib_calls (before_result (snd (snd (ARA_413_rising_to_both lib info (d, []))))) \<noteq> []"
  by (cases "num_type_is info ''s''"; simp add: ARA_413_rising_to_both_def Let_def for_loop_ten;
      (intro stepped_leave phase_rules | assumption)+)

lemma ARA_413_recovered:
  "num_type_is info ''s'' \<Longrightarrow>
     list_all is_release (after_result (snd (snd (ARA_413_rising_to_both lib info (d, []))))) \<and>
     length (after_result (snd (snd (ARA_413_rising_to_both lib info (d, []))))) = Suc 0"
  by (cases "num_type_is info ''s''"; simp add: ARA_413_rising_to_both_def Let_def for_loop_ten;
      (intro recovered_leave phase_rules | assumption)+)

lemma ARA_413_guarded: "compare_guarded (snd (snd (ARA_413_rising_to_both lib info (d, []))))"
proof (cases "num_type_is info ''s''")
  case True
  then show ?thesis
    by (cases "num_type_is info ''s''"; simp add: ARA_413_rising_to_both_def Let_def;
        (intro guarded_leave guarded_rules | assumption)+)
next
  case False
  then show ?thesis
    using ARA_413_invalid [where info = info and d = d and lib = lib] by (simp add: invalid_run_def)
qed

lemma ARA_413_single:
  "num_type_is info ''s'' \<Longrightarrow>
     set (lines_touched (snd (snd (ARA_413_rising_to_both lib info (d, []))))) = {line (base_pin info) (gpio_pin1 info)} \<and>
     set (activated_lines (snd (snd (ARA_413_rising_to_both lib info (d, []))))) = {line (base_pin info) (gpio_pin1 info)} \<and>
     set (released_lines (snd (snd (ARA_413_rising_to_both lib info (d, []))))) = {line (base_pin info) (gpio_pin1 info)}"
  by (simp add: ARA_413_rising_to_both_def Let_def wrappers frame_sel for_loop_ten lines_touched_def
      activated_lines_def released_lines_def closing_deactivations_def)

lemma ARA_413_recovery:
  "set (released_lines (snd (snd (ARA_413_rising_to_both lib info (d, []))))) =
     set (activated_lines (snd (snd (ARA_413_rising_to_both lib info (d, [])))))"
proof -
  consider (s) "num_type_is info ''s''" | (none) "\<not> num_type_is info ''s''"
    by blast
  then show ?thesis
  proof cases
    case s
    then show ?thesis
      using ARA_413_single [where info = info and d = d and lib = lib] by simp
  next
    case none
    then show ?thesis
      using ARA_413_invalid [where info = info and d = d and lib = lib]
      by (simp add: invalid_run_def released_lines_def activated_lines_def closing_deactivations_def)
  qed
qed

text \<open>ARA-416.\<close>

lemma ARA_416_invalid:
  "\<not> num_type_is info ''s'' \<Longrightarrow> invalid_run d (ARA_416_none_to_both lib info (d, []))"
  by (simp add: ARA_416_none_to_both_def Let_def report_defs for_loop_ten invalid_run_def compare_guarded_def)

lemma ARA_416_invalid_ret:
  "\<not> num_type_is info ''s'' \<Longrightarrow> fst (ARA_416_none_to_both lib info w) = - EINVAL"
  by (simp add: ARA_416_none_to_both_def Let_def report_defs for_loop_ten)

lemma ARA_416_result:
  "num_type_is info ''s'' \<Longrightarrow>
     reported (snd (snd (ARA_416_none_to_both lib info (d, [])))) =
       [step_result 0 (before_result (snd (snd (ARA_416_none_to_both lib info (d, [])))))]"
  by (cases "num_type_is info ''s''"; simp add: ARA_416_none_to_both_def Let_def;
      (intro printed_leave result_rules | assumption)+)

lemma ARA_416_invalid_after:
  "\<not> num_type_is info ''s'' \<Longrightarrow> after_result (snd (snd (ARA_416_none_to_both lib info (d, [])))) = []"
  by (simp add: ARA_416_none_to_both_def Let_def report_defs for_loop_ten after_result_def)

lemma ARA_416_stepped:
  "num_type_is info ''s'' \<Longrightarrow>
     lib_calls (before_result (snd (snd (ARA_416_none_to_both lib info (d, []))))) \<noteq> []"
  by (cases "num_type_is info ''s''"; simp add: ARA_416_none_to_both_def Let_def for_loop_ten;
      (intro stepped_leave phase_rules | assumption)+)

lemma ARA_416_recovered:
  "num_type_is info ''s'' \<Longrightarrow>
     list_all is_release (after_result (snd (snd (ARA_416_none_to_both lib info (d, []))))) \<and>
     length (after_result (snd (snd (ARA_416_none_to_both lib info (d, []))))) = Suc 0"
  by (cases "num_type_is info ''s''"; simp add: ARA_416_none_to_both_def Let_def for_loop_ten;
      (intro recovered_leave phase_rules | assumption)+)

lemma ARA_416_guarded: "compare_guarded (snd (snd (ARA_416_none_to_both lib info (d, []))))"
proof (cases "num_type_is info ''s''")
  case True
  then show ?thesis
    by (cases "num_type_is info ''s''"; simp add: ARA_416_none_to_both_def Let_def;
        (intro guarded_leave guarded_rules | assumption)+)
next
  case False
  then show ?thesis
    using ARA_416_invalid [where info = info and d = d and lib = lib] by (simp add: invalid_run_def)
qed

lemma ARA_416_single:
  "num_type_is info ''s'' \<Longrightarrow>
     set (lines_touched (snd (snd (ARA_416_none_to_both lib info (d, []))))) = {line (base_pin info) (gpio_pin1 info)} \<and>
     set (activated_lines (snd (snd (ARA_416_none_to_both lib info (d, []))))) = {line (base_pin info) (gpio_pin1 info)} \<and>
     set (released_lines (snd (snd (ARA_416_none_to_both lib info (d, []))))) = {line (base_pin info) (gpio_pin1 info)}"
  by (simp add: ARA_416_none_to_both_def Let_def wrappers frame_sel for_loop_ten lines_touched_def
      activated_lines_def released_lines_def closing_deactivations_def)

lemma ARA_416_recovery:
  "set (released_lines (snd (snd (ARA_416_none_to_both lib info (d, []))))) =
     set (activated_lines (snd (snd (ARA_416_none_to_both lib info (d, [])))))"
proof -
  consider (s) "num_type_is info ''s''" | (none) "\<not> num_type_is info ''s''"
    by blast
  then show ?thesis
  proof cases
    case s
    then show ?thesis
      using ARA_416_single [where info = info and d = d and lib = lib] by simp
  next
    case none
    then show ?thesis
      using ARA_416_invalid [where info = info and d = d and lib = lib]
      by (simp add: invalid_run_def released_lines_def activated_lines_def closing_deactivations_def)
  qed
qed

text \<open>ARA-417.\<close>

lemma ARA_417_invalid:
  "\<not> num_type_is info ''s'' \<Longrightarrow> invalid_run d (ARA_417_both_to_none lib info (d, []))"
  by (simp add: ARA_417_both_to_none_def Let_def report_defs for_loop_ten invalid_run_def compare_guarded_def)

lemma ARA_417_invalid_ret:
  "\<not> num_type_is info ''s'' \<Longrightarrow> fst (ARA_417_both_to_none lib info w) = - EINVAL"
  by (simp add: ARA_417_both_to_none_def Let_def report_defs for_loop_ten)

lemma ARA_417_result:
  "num_type_is info ''s'' \<Longrightarrow>
     reported (snd (snd (ARA_417_both_to_none lib info (d, [])))) =
       [step_result 0 (before_result (snd (snd (ARA_417_both_to_none lib info (d, [])))))]"
  by (cases "num_type_is info ''s''"; simp add: ARA_417_both_to_none_def Let_def;
      (intro printed_leave result_rules | assumption)+)

lemma ARA_417_invalid_after:
  "\<not> num_type_is info ''s'' \<Longrightarrow> after_result (snd (snd (ARA_417_both_to_none lib info (d, [])))) = []"
  by (simp add: ARA_417_both_to_none_def Let_def report_defs for_loop_ten after_result_def)

lemma ARA_417_stepped:
  "num_type_is info ''s'' \<Longrightarrow>
     lib_calls (before_result (snd (snd (ARA_417_both_to_none lib info (d, []))))) \<noteq> []"
  by (cases "num_type_is info ''s''"; simp add: ARA_417_both_to_none_def Let_def for_loop_ten;
      (intro stepped_leave phase_rules | assumption)+)

lemma ARA_417_recovered:
  "num_type_is info ''s'' \<Longrightarrow>
     list_all is_release (after_result (snd (snd (ARA_417_both_to_none lib info (d, []))))) \<and>
     length (after_result (snd (snd (ARA_417_both_to_none lib info (d, []))))) = Suc 0"
  by (cases "num_type_is info ''s''"; simp add: ARA_417_both_to_none_def Let_def for_loop_ten;
      (intro recovered_leave phase_rules | assumption)+)

lemma ARA_417_guarded: "compare_guarded (snd (snd (ARA_417_both_to_none lib info (d, []))))"
proof (cases "num_type_is info ''s''")
  case True
  then show ?thesis
    by (cases "num_type_is info ''s''"; simp add: ARA_417_both_to_none_def Let_def;
        (intro guarded_leave guarded_rules | assumption)+)
next
  case False
  then show ?thesis
    using ARA_417_invalid [where info = info and d = d and lib = lib] by (simp add: invalid_run_def)
qed

lemma ARA_417_single:
  "num_type_is info ''s'' \<Longrightarrow>
     set (lines_touched (snd (snd (ARA_417_both_to_none lib info (d, []))))) = {line (base_pin info) (gpio_pin1 info)} \<and>
     set (activated_lines (snd (snd (ARA_417_both_to_none lib info (d, []))))) = {line (base_pin info) (gpio_pin1 info)} \<and>
     set (released_lines (snd (snd (ARA_417_both_to_none lib info (d, []))))) = {line (base_pin info) (gpio_pin1 info)}"
  by (simp add: ARA_417_both_to_none_def Let_def wrappers frame_sel for_loop_ten lines_touched_def
      activated_lines_def released_lines_def closing_deactivations_def)

lemma ARA_417_recovery:
  "set (released_lines (snd (snd (ARA_417_both_to_none lib info (d, []))))) =
     set (activated_lines (snd (snd (ARA_417_both_to_none lib info (d, [])))))"
proof -
  consider (s) "num_type_is info ''s''" | (none) "\<not> num_type_is info ''s''"
    by blast
  then show ?thesis
  proof cases
    case s
    then show ?thesis
      using ARA_417_single [where info = info and d = d and lib = lib] by simp
  next
    case none
    then show ?thesis
      using ARA_417_invalid [where info = info and d = d and lib = lib]
      by (simp add: invalid_run_def released_lines_def activated_lines_def closing_deactivations_def)
  qed
qed


subsection \<open>The dispatcher\<close>

lemma switch_case_number_cases:
  assumes "case_id info \<in> recognized"
    and "case_id info = 263 \<Longrightarrow> P (ARA_263_get_count lib info w)"
    and "case_id info = 264 \<Longrightarrow> P (ARA_264_multiple_activate lib info w)"
    and "case_id info = 267 \<Longrightarrow> P (ARA_267_multiple_deactivate lib info w)"
    and "case_id info = 270 \<Longrightarrow> P (ARA_270_multiple_direction lib info w)"
    and "case_id info = 271 \<Longrightarrow> P (ARA_271_multiple_times_direction lib info w)"
    and "case_id info = 272 \<Longrightarrow> P (ARA_272_all_direction lib info w)"
    and "case_id info = 273 \<Longrightarrow> P (ARA_273_multiple_input lib info w)"
    and "case_id info = 274 \<Longrightarrow> P (ARA_274_multiple_times_input lib info w)"
    and "case_id info = 276 \<Longrightarrow> P (ARA_276_multiple_output lib info w)"
    and "case_id info = 277 \<Longrightarrow> P (ARA_277_multiple_times_output lib info w)"
    and "case_id info = 279 \<Longrightarrow> P (ARA_279_get_value lib info w)"
    and "case_id info = 281 \<Longrightarrow> P (ARA_281_set_value_high lib info w)"
    and "case_id info = 282 \<Longrightarrow> P (ARA_282_set_value_low lib info w)"
    and "case_id info = 286 \<Longrightarrow> P (ARA_286_set_edge_rising lib info w)"
    and "case_id info = 287 \<Longrightarrow> P (ARA_287_set_edge_falling lib info w)"
    and "case_id info = 288 \<Longrightarrow> P (ARA_288_set_edge_both lib info w)"
    and "case_id info = 409 \<Longrightarrow> P (ARA_409_input_to_output lib info w)"
    and "case_id info = 410 \<Longrightarrow> P (ARA_410_output_to_input lib info w)"
    and "case_id info = 411 \<Longrightarrow> P (ARA_411_falling_to_rising lib info w)"
    and "case_id info = 412 \<Longrightarrow> P (ARA_412_rising_to_falling lib info w)"
    and "case_id info = 413 \<Longrightarrow> P (ARA_413_rising_to_both lib info w)"
    and "case_id info = 416 \<Longrightarrow> P (ARA_416_none_to_both lib info w)"
    and "case_id info = 417 \<Longrightarrow> P (ARA_417_both_to_none lib info w)"
  shows "P (switch_case_number lib info w)"
proof -
  consider (c263) "case_id info = 263"
    | (c264) "case_id info = 264"
    | (c267) "case_id info = 267"
    | (c270) "case_id info = 270"
    | (c271) "case_id info = 271"
    | (c272) "case_id info = 272"
    | (c273) "case_id info = 273"
    | (c274) "case_id info = 274"
    | (c276) "case_id info = 276"
    | (c277) "case_id info = 277"
    | (c279) "case_id info = 279"
    | (c281) "case_id info = 281"
    | (c282) "case_id info = 282"
    | (c286) "case_id info = 286"
    | (c287) "case_id info = 287"
    | (c288) "case_id info = 288"
    | (c409) "case_id info = 409"
    | (c410) "case_id info = 410"
    | (c411) "case_id info = 411"
    | (c412) "case_id info = 412"
    | (c413) "case_id info = 413"
    | (c416) "case_id info = 416"
    | (c417) "case_id info = 417"
    using assms(1) by (auto simp: recognized_def)
  then show ?thesis
    by cases (use assms(2-) in \<open>simp_all add: switch_case_number_def\<close>)
qed

lemma switch_case_number_default:
  "case_id info \<notin> recognized \<Longrightarrow>
     switch_case_number lib info w =
       (- EINVAL, fst w, snd w @ [PrintLog 0 ''Error: The command had error case_id.''])"
  by (simp add: switch_case_number_def recognized_def)

subsection \<open>Runs of the dispatcher\<close>

lemma not_unsupported:
  assumes "\<not> unsupported info" and "case_id info \<in> recognized"
  shows "case_id info = 263 \<or> \<not> list_all (\<lambda>t. \<not> num_type_is info t) (tags_of (case_id info))"
  using assms by (auto simp: unsupported_def)

lemma run_result_supported:
  assumes "case_id info \<in> recognized" and "\<not> unsupported info"
  shows "reported (run_trace lib info d) =
           [step_result 0 (before_result (run_trace lib info d))]"
  unfolding run_trace_def
  using not_unsupported [OF assms(2,1)]
  by (intro switch_case_number_cases [OF assms(1), where
        P = "\<lambda>r. reported (snd (snd r)) = [step_result 0 (before_result (snd (snd r)))]"])
     (simp_all add: tags_of_def ARA_263_result ARA_264_result ARA_267_result ARA_270_result
       ARA_271_result ARA_272_result ARA_273_result ARA_274_result ARA_276_result
       ARA_277_result ARA_279_result ARA_281_result ARA_282_result ARA_286_result
       ARA_287_result ARA_288_result ARA_409_result ARA_410_result ARA_411_result
       ARA_412_result ARA_413_result ARA_416_result ARA_417_result)

lemma run_guarded: "compare_guarded (run_trace lib info d)"
proof (cases "case_id info \<in> recognized")
  case True
  show ?thesis
    unfolding run_trace_def
    by (intro switch_case_number_cases [OF True, where P = "\<lambda>r. compare_guarded (snd (snd r))"])
       (simp_all add: ARA_263_guarded ARA_264_guarded ARA_267_guarded ARA_270_guarded
         ARA_271_guarded ARA_272_guarded ARA_273_guarded ARA_274_guarded ARA_276_guarded
         ARA_277_guarded ARA_279_guarded ARA_281_guarded ARA_282_guarded ARA_286_guarded
         ARA_287_guarded ARA_288_guarded ARA_409_guarded ARA_410_guarded ARA_411_guarded
         ARA_412_guarded ARA_413_guarded ARA_416_guarded ARA_417_guarded)
next
  case False
  then show ?thesis
    by (simp add: run_trace_def switch_case_number_default compare_guarded_def)
qed

lemma ARA_263_recovery:
  "set (released_lines (snd (snd (ARA_263_get_count lib info (d, []))))) =
     set (activated_lines (snd (snd (ARA_263_get_count lib info (d, [])))))"
  by (simp add: ARA_263_calls released_lines_def activated_lines_def closing_deactivations_def)

lemma run_recovery:
  "set (released_lines (run_trace lib info d)) = set (activated_lines (run_trace lib info d))"
proof (cases "case_id info \<in> recognized")
  case True
  show ?thesis
    unfolding run_trace_def
    by (intro switch_case_number_cases [OF True, where
          P = "\<lambda>r. set (released_lines (snd (snd r))) = set (activated_lines (snd (snd r)))"])
       (simp_all add: ARA_263_recovery ARA_264_recovery ARA_267_recovery ARA_270_recovery
         ARA_271_recovery ARA_272_recovery ARA_273_recovery ARA_274_recovery ARA_276_recovery
         ARA_277_recovery ARA_279_recovery ARA_281_recovery ARA_282_recovery ARA_286_recovery
         ARA_287_recovery ARA_288_recovery ARA_409_recovery ARA_410_recovery ARA_411_recovery
         ARA_412_recovery ARA_413_recovery ARA_416_recovery ARA_417_recovery)
next
  case False
  then show ?thesis
    by (simp add: run_trace_def switch_case_number_default released_lines_def
        activated_lines_def closing_deactivations_def)
qed

lemma run_single:
  assumes "case_id info \<in> recognized" and "case_id info \<noteq> 263" and "num_type_is info ''s''"
  shows "set (lines_touched (run_trace lib info d)) = {line (base_pin info) (gpio_pin1 info)} \<and>
         set (activated_lines (run_trace lib info d)) = {line (base_pin info) (gpio_pin1 info)} \<and>
         set (released_lines (run_trace lib info d)) = {line (base_pin info) (gpio_pin1 info)}"
  unfolding run_trace_def
  using assms(2,3) tags_exclusive(5,6) [OF assms(3)]
  by (intro switch_case_number_cases [OF assms(1), where
        P = "\<lambda>r. set (lines_touched (snd (snd r))) = {line (base_pin info) (gpio_pin1 info)} \<and>
               set (activated_lines (snd (snd r))) = {line (base_pin info) (gpio_pin1 info)} \<and>
               set (released_lines (snd (snd r))) = {line (base_pin info) (gpio_pin1 info)}"])
     (simp_all add: ARA_264_single ARA_267_single ARA_270_single ARA_271_single ARA_272_single
       ARA_273_single ARA_274_single ARA_276_single ARA_277_single ARA_279_single
       ARA_281_single ARA_282_single ARA_286_single ARA_287_single ARA_288_single
       ARA_409_single ARA_410_single ARA_411_single ARA_412_single ARA_413_single
       ARA_416_single ARA_417_single)

lemma run_multiple:
  assumes "case_id info \<in> {264, 267, 270, 272, 273, 276, 279}" and "num_type_is info ''m''"
  shows "lines_touched (run_trace lib info d) \<noteq> [] \<and>
         triples_of (line (base_pin info) (gpio_pin1 info)) (line (base_pin info) (gpio_pin2 info))
           (line (base_pin info) (gpio_pin3 info)) (lines_touched (run_trace lib info d)) \<and>
         activated_lines (run_trace lib info d) =
           [line (base_pin info) (gpio_pin1 info), line (base_pin info) (gpio_pin2 info),
            line (base_pin info) (gpio_pin3 info)] \<and>
         released_lines (run_trace lib info d) =
           [line (base_pin info) (gpio_pin1 info), line (base_pin info) (gpio_pin2 info),
            line (base_pin info) (gpio_pin3 info)]"
proof -
  have r: "case_id info \<in> recognized"
    using assms(1) by (auto simp: recognized_def)
  show ?thesis
    unfolding run_trace_def
    using assms tags_exclusive(4) [OF assms(2)]
    by (intro switch_case_number_cases [OF r, where
          P = "\<lambda>r. lines_touched (snd (snd r)) \<noteq> [] \<and>
                 triples_of (line (base_pin info) (gpio_pin1 info))
                   (line (base_pin info) (gpio_pin2 info))
                   (line (base_pin info) (gpio_pin3 info)) (lines_touched (snd (snd r))) \<and>
                 activated_lines (snd (snd r)) =
                   [line (base_pin info) (gpio_pin1 info), line (base_pin info) (gpio_pin2 info),
                    line (base_pin info) (gpio_pin3 info)] \<and>
                 released_lines (snd (snd r)) =
                   [line (base_pin info) (gpio_pin1 info), line (base_pin info) (gpio_pin2 info),
                    line (base_pin info) (gpio_pin3 info)]"])
       (simp_all add: ARA_264_multiple ARA_267_multiple ARA_270_multiple ARA_272_multiple
         ARA_273_multiple ARA_276_multiple ARA_279_multiple)
qed

lemma run_case:
  "case_id info = 272 \<Longrightarrow> switch_case_number lib info w = ARA_272_all_direction lib info w"
  "case_id info = 273 \<Longrightarrow> switch_case_number lib info w = ARA_273_multiple_input lib info w"
  "case_id info = 274 \<Longrightarrow> switch_case_number lib info w = ARA_274_multiple_times_input lib info w"
  "case_id info = 281 \<Longrightarrow> switch_case_number lib info w = ARA_281_set_value_high lib info w"
  "case_id info = 416 \<Longrightarrow> switch_case_number lib info w = ARA_416_none_to_both lib info w"
  by (simp_all add: switch_case_number_def)

text \<open>The end of a test case that verifies its last read.\<close>

lemma final_verify_trace:
  "\<exists>pre rc txt post.
     snd (snd (leave (call_ret lib c' (print_test_result cid
       (if_not_ret (strcmp_buf lit) (call_buf lib c s)))))) =
     pre @ [LibCall c rc txt] @ (if rc = 0 then [Strcmp txt lit] else []) @
       PrintTestResult cid (if rc = 0 then strcmp txt lit else rc) # post"
proof -
  let ?rc = "fst (fst (lib c (dev s)))" and ?txt = "snd (fst (lib c (dev s)))"
  let ?s = "print_test_result cid (if_not_ret (strcmp_buf lit) (call_buf lib c s))"
  have "snd (snd (leave (call_ret lib c' ?s))) =
          trace s @ [LibCall c ?rc ?txt] @ (if ?rc = 0 then [Strcmp ?txt lit] else []) @
            PrintTestResult cid (if ?rc = 0 then strcmp ?txt lit else ?rc) #
            [LibCall c' (fst (fst (lib c' (dev ?s)))) (snd (fst (lib c' (dev ?s))))]"
    by (simp add: leave_def frame_sel)
  then show ?thesis by blast
qed

text \<open>The same, with the deactivation that follows the print.\<close>

lemma final_verify_release:
  "\<exists>pre rc txt rc' txt'.
     snd (snd (leave (call_ret lib c' (print_test_result cid
       (if_not_ret (strcmp_buf lit) (call_buf lib c s)))))) =
     pre @ [LibCall c rc txt] @ (if rc = 0 then [Strcmp txt lit] else []) @
       [PrintTestResult cid (if rc = 0 then strcmp txt lit else rc), LibCall c' rc' txt']"
proof -
  let ?rc = "fst (fst (lib c (dev s)))" and ?txt = "snd (fst (lib c (dev s)))"
  let ?s = "print_test_result cid (if_not_ret (strcmp_buf lit) (call_buf lib c s))"
  have "snd (snd (leave (call_ret lib c' ?s))) =
          trace s @ [LibCall c ?rc ?txt] @ (if ?rc = 0 then [Strcmp ?txt lit] else []) @
            [PrintTestResult cid (if ?rc = 0 then strcmp ?txt lit else ?rc),
             LibCall c' (fst (fst (lib c' (dev ?s)))) (snd (fst (lib c' (dev ?s))))]"
    by (simp add: leave_def frame_sel)
  then show ?thesis by blast
qed

text \<open>ARA-272 in all-lines mode: the three loops.\<close>

lemma ARA_272_all_phases:
  assumes "num_type_is info ''a''"
  shows "list_all is_release (after_result (snd (snd (ARA_272_all_direction lib info (d, []))))) \<and>
         length (after_result (snd (snd (ARA_272_all_direction lib info (d, []))))) =
           unat (max_count info) \<and>
         (lib_calls (before_result (snd (snd (ARA_272_all_direction lib info (d, []))))) = []) =
           (max_count info = 0)"
proof -
  let ?n = "unat (max_count info)"
  let ?A = "\<lambda>i s. activate_gpio_pin lib (case_id info) (unat (base_pin info) + i) s"
  let ?G = "\<lambda>i s. get_gpio_direction lib (case_id info) (unat (base_pin info) + i) 4 s"
  let ?D = "\<lambda>i s. deactivate_gpio_pin lib (case_id info) (unat (base_pin info) + i) s"
  let ?P = "for_loop 0 ?n ?G (check_step_result (case_id info) (for_loop 0 ?n ?A (enter (d, []))))"
  let ?R = "print_test_result (case_id info) ?P"
  have e: "ARA_272_all_direction lib info (d, []) = leave (for_loop 0 ?n ?D ?R)"
    using assms by (simp add: ARA_272_all_direction_def Let_def)
  have p: "result_pending ?P"
    by (intro phase_rules | assumption)+
  have r: "recovered (0 + (?n - 0)) (for_loop 0 ?n ?D ?R)"
    by (rule recovered_for_loop [OF _ recovered_print [OF p]]) (rule recovered_release)
  have q: "reported (trace ?R) \<noteq> []"
    by (simp add: frame_sel)
  have "before_result (trace (for_loop 0 ?n ?D ?R)) = before_result (trace ?R)"
    by (rule before_result_for_loop [OF _ q])
       (simp add: deactivate_gpio_pin_def frame_sel before_result_more)
  also have "\<dots> = trace ?P"
    using p by (simp add: result_pending_def frame_sel before_result_all)
  finally have b: "before_result (snd (snd (leave (for_loop 0 ?n ?D ?R)))) = trace ?P"
    by (simp add: leave_def)
  have c: "calls ?P =
      map (\<lambda>i. ActivateGpioPin (case_id info) (unat (base_pin info) + i)) [0..<?n] @
      map (\<lambda>i. GetGpioDirection (case_id info) (unat (base_pin info) + i) 4) [0..<?n]"
    by (simp add: wrappers calls_for_loop)
  have z: "(calls ?P = []) = (max_count info = 0)"
    unfolding c by (simp add: unat_eq_0)
  show ?thesis
    using recovered_leave [OF r] z by (simp add: e b calls_def)
qed

lemma guarded_from_nth:
  "guarded_from prev xs \<Longrightarrow> i < length xs \<Longrightarrow>
     step_check (if i = 0 then prev else Some (xs ! (i - 1))) (xs ! i)"
proof (induction xs arbitrary: prev i)
  case Nil
  then show ?case by simp
next
  case (Cons x xs)
  show ?case
  proof (cases i)
    case 0
    with Cons.prems show ?thesis by simp
  next
    case (Suc j)
    with Cons.prems have "step_check (if j = 0 then Some x else Some (xs ! (j - 1))) (xs ! j)"
      using Cons.IH [of "Some x" j] by simp
    with Suc show ?thesis by (cases j) simp_all
  qed
qed

lemma tag_evaluation:
  "num_type_is (test_info cid ''s'' n p1 p2 p3) ''s''"
  "num_type_is (test_info cid ''S'' n p1 p2 p3) ''s''"
  "num_type_is (test_info cid ''m'' n p1 p2 p3) ''m''"
  "num_type_is (test_info cid ''M'' n p1 p2 p3) ''m''"
  "num_type_is (test_info cid ''a'' n p1 p2 p3) ''a''"
  "num_type_is (test_info cid ''A'' n p1 p2 p3) ''a''"
  "\<not> num_type_is (test_info cid ''m'' n p1 p2 p3) ''s''"
  "\<not> num_type_is (test_info cid ''s'' n p1 p2 p3) ''m''"
  "\<not> num_type_is (test_info cid ''s'' n p1 p2 p3) ''a''"
  "\<not> num_type_is (test_info cid ''m'' n p1 p2 p3) ''a''"
  "\<not> num_type_is (test_info cid ''a'' n p1 p2 p3) ''m''"
  "\<not> num_type_is (test_info cid ''a'' n p1 p2 p3) ''s''"
  "\<not> num_type_is (test_info cid [] n p1 p2 p3) ''s''"
  "\<not> num_type_is (test_info cid [] n p1 p2 p3) ''m''"
  "\<not> num_type_is (test_info cid [] n p1 p2 p3) ''a''"
  by (simp_all add: num_type_is_letter test_info_def tolower_def)

lemma test_info_sel [simp]:
  "case_id (test_info cid tag n p1 p2 p3) = cid"
  "base_pin (test_info cid tag n p1 p2 p3) = 100"
  "max_count (test_info cid tag n p1 p2 p3) = n"
  "gpio_pin1 (test_info cid tag n p1 p2 p3) = p1"
  "gpio_pin2 (test_info cid tag n p1 p2 p3) = p2"
  "gpio_pin3 (test_info cid tag n p1 p2 p3) = p3"
  by (simp_all add: test_info_def)

lemmas run_eval =
  run_ret_def run_dev_def run_trace_def switch_case_number_def Let_def wrappers frame_sel
  leave_def for_loop_ten for_loop_done stuck_lib_def failing_reads_def tag_evaluation line_def

section \<open>The claims\<close>

subsection \<open>Unknown case identifiers and unsupported modes\<close>

lemma unsupported_run:
  assumes "unsupported info"
  shows "invalid_run d (switch_case_number lib info (d, []))"
proof -
  from assms have r: "case_id info \<in> recognized" and n: "case_id info \<noteq> 263"
    and t: "list_all (\<lambda>t. \<not> num_type_is info t) (tags_of (case_id info))"
    by (simp_all add: unsupported_def)
  show ?thesis
    using n t
    by (intro switch_case_number_cases [OF r, where P = "invalid_run d"])
       (simp_all add: tags_of_def ARA_264_invalid ARA_267_invalid ARA_270_invalid ARA_271_invalid
         ARA_272_invalid ARA_273_invalid ARA_274_invalid ARA_276_invalid ARA_277_invalid
         ARA_279_invalid ARA_281_invalid ARA_282_invalid ARA_286_invalid ARA_287_invalid
         ARA_288_invalid ARA_409_invalid ARA_410_invalid ARA_411_invalid ARA_412_invalid
         ARA_413_invalid ARA_416_invalid ARA_417_invalid)
qed

lemma unsupported_ret:
  assumes "unsupported info"
  shows "fst (switch_case_number lib info w) = - EINVAL"
proof -
  from assms have r: "case_id info \<in> recognized" and n: "case_id info \<noteq> 263"
    and t: "list_all (\<lambda>t. \<not> num_type_is info t) (tags_of (case_id info))"
    by (simp_all add: unsupported_def)
  show ?thesis
    using n t
    by (intro switch_case_number_cases [OF r, where P = "\<lambda>r. fst r = - EINVAL"])
       (simp_all add: tags_of_def ARA_264_invalid_ret ARA_267_invalid_ret ARA_270_invalid_ret
         ARA_271_invalid_ret ARA_272_invalid_ret ARA_273_invalid_ret ARA_274_invalid_ret
         ARA_276_invalid_ret ARA_277_invalid_ret ARA_279_invalid_ret ARA_281_invalid_ret
         ARA_282_invalid_ret ARA_286_invalid_ret ARA_287_invalid_ret ARA_288_invalid_ret
         ARA_409_invalid_ret ARA_410_invalid_ret ARA_411_invalid_ret ARA_412_invalid_ret
         ARA_413_invalid_ret ARA_416_invalid_ret ARA_417_invalid_ret)
qed

lemma unsupported_after:
  assumes "unsupported info"
  shows "after_result (run_trace lib info d) = []"
proof -
  from assms have r: "case_id info \<in> recognized" and n: "case_id info \<noteq> 263"
    and t: "list_all (\<lambda>t. \<not> num_type_is info t) (tags_of (case_id info))"
    by (simp_all add: unsupported_def)
  show ?thesis
    unfolding run_trace_def
    using n t
    by (intro switch_case_number_cases [OF r, where P = "\<lambda>r. after_result (snd (snd r)) = []"])
       (simp_all add: tags_of_def
         ARA_264_invalid_after ARA_267_invalid_after ARA_270_invalid_after ARA_271_invalid_after ARA_272_invalid_after
         ARA_273_invalid_after ARA_274_invalid_after ARA_276_invalid_after ARA_277_invalid_after ARA_279_invalid_after
         ARA_281_invalid_after ARA_282_invalid_after ARA_286_invalid_after ARA_287_invalid_after ARA_288_invalid_after
         ARA_409_invalid_after ARA_410_invalid_after ARA_411_invalid_after ARA_412_invalid_after ARA_413_invalid_after
         ARA_416_invalid_after ARA_417_invalid_after)
qed

text \<open>
  A run in a supported mode, ARA-272 in all-lines mode apart: a library call precedes the
  print, and what follows the print is one deactivation call, or nothing in ARA-263 and
  ARA-267.
\<close>

lemma supported_phases:
  assumes "case_id info \<in> recognized" and "\<not> unsupported info"
    and "\<not> (case_id info = 272 \<and> num_type_is info ''a'')"
  shows "lib_calls (before_result (run_trace lib info d)) \<noteq> [] \<and>
         list_all is_release (after_result (run_trace lib info d)) \<and>
         length (after_result (run_trace lib info d)) =
           (if case_id info = 263 \<or> case_id info = 267 then 0 else 1)"
  unfolding run_trace_def
  using not_unsupported [OF assms(2,1)] assms(3)
  by (intro switch_case_number_cases [OF assms(1), where
        P = "\<lambda>r. lib_calls (before_result (snd (snd r))) \<noteq> [] \<and>
               list_all is_release (after_result (snd (snd r))) \<and>
               length (after_result (snd (snd r))) =
                 (if case_id info = 263 \<or> case_id info = 267 then 0 else 1)"])
     (simp_all add: tags_of_def
       ARA_263_stepped ARA_264_stepped ARA_267_stepped ARA_270_stepped ARA_271_stepped
       ARA_272_stepped ARA_273_stepped ARA_274_stepped ARA_276_stepped ARA_277_stepped
       ARA_279_stepped ARA_281_stepped ARA_282_stepped ARA_286_stepped ARA_287_stepped
       ARA_288_stepped ARA_409_stepped ARA_410_stepped ARA_411_stepped ARA_412_stepped
       ARA_413_stepped ARA_416_stepped ARA_417_stepped
       ARA_263_recovered ARA_264_recovered ARA_267_recovered ARA_270_recovered ARA_271_recovered
       ARA_272_recovered ARA_273_recovered ARA_274_recovered ARA_276_recovered ARA_277_recovered
       ARA_279_recovered ARA_281_recovered ARA_282_recovered ARA_286_recovered ARA_287_recovered
       ARA_288_recovered ARA_409_recovered ARA_410_recovered ARA_411_recovered ARA_412_recovered
       ARA_413_recovered ARA_416_recovered ARA_417_recovered)

lemma run_phases:
  assumes "case_id info \<in> recognized"
  shows "list_all is_release (after_result (run_trace lib info d)) \<and>
         length (after_result (run_trace lib info d)) =
           (if unsupported info \<or> case_id info = 263 \<or> case_id info = 267 then 0
            else if case_id info = 272 \<and> num_type_is info ''a'' then unat (max_count info)
            else 1) \<and>
         (lib_calls (before_result (run_trace lib info d)) = []) =
           (unsupported info \<or>
            case_id info = 272 \<and> num_type_is info ''a'' \<and> max_count info = 0)"
proof -
  consider (invalid) "unsupported info"
    | (all) "\<not> unsupported info" "case_id info = 272 \<and> num_type_is info ''a''"
    | (other) "\<not> unsupported info" "\<not> (case_id info = 272 \<and> num_type_is info ''a'')"
    by blast
  then show ?thesis
  proof cases
    case invalid
    have "lib_calls (run_trace lib info d) = []"
      using unsupported_run [OF invalid, of d lib] by (simp add: invalid_run_def run_trace_def)
    then have "lib_calls (before_result (run_trace lib info d)) = []"
      by (rule lib_calls_before_result)
    then show ?thesis
      using invalid unsupported_after [OF invalid, of lib d] by simp
  next
    case all
    then show ?thesis
      using ARA_272_all_phases [of info lib d] by (simp add: run_trace_def run_case)
  next
    case other
    then show ?thesis
      using supported_phases [OF assms other, of lib d] by auto
  qed
qed

text \<open>
  C4.  For every case identifier outside the recognized set, dispatch returns the
  unknown-case error \<^verbatim>\<open>-EINVAL\<close> and makes no library call: the device is untouched and
  the only thing added to the trace is the error line of the log.
\<close>

theorem C4_unknown_case_no_calls:
  assumes "case_id info \<notin> recognized"
  shows "switch_case_number lib info (d, t) =
           (- EINVAL, d, t @ [PrintLog 0 ''Error: The command had error case_id.'']) \<and>
         run_ret lib info d = - EINVAL \<and> run_dev lib info d = d \<and>
         lib_calls (run_trace lib info d) = []"
  using assms
  by (simp add: switch_case_number_default run_ret_def run_dev_def run_trace_def)

theorem C4_unknown_case_witness:
  "(999 :: 16 word) \<notin> recognized \<and>
   run_ret honest_lib (test_info 999 ''s'' 4 0 1 2) fresh_dev = - EINVAL \<and>
   run_dev honest_lib (test_info 999 ''s'' 4 0 1 2) fresh_dev = fresh_dev \<and>
   lib_calls (run_trace honest_lib (test_info 999 ''s'' 4 0 1 2) fresh_dev) = []"
proof -
  have h: "case_id (test_info 999 ''s'' 4 0 1 2) \<notin> recognized"
    by (simp add: recognized_def)
  show ?thesis
    using h C4_unknown_case_no_calls [OF h, of honest_lib fresh_dev "[]"] by simp
qed

text \<open>
  C5.  When the tag matches none of the branches of the selected test case, every step of
  the test case yields \<^verbatim>\<open>-EINVAL\<close>: each value passed to \<^verbatim>\<open>check_step_result\<close> and the
  value passed to \<^verbatim>\<open>print_test_result\<close> is \<^verbatim>\<open>-EINVAL\<close>, the test case returns
  \<^verbatim>\<open>-EINVAL\<close>, and it makes no library call (no activate, get, set or deactivate), so the
  device is untouched.  This covers the 22 test cases that branch on the tag.  ARA-263
  never looks at the tag, so it has no unsupported tag: its run is the same under every
  tag.
\<close>

theorem C5_unsupported_mode_no_calls:
  "(unsupported info \<longrightarrow>
      run_ret lib info d = - EINVAL \<and> run_dev lib info d = d \<and>
      lib_calls (run_trace lib info d) = [] \<and>
      reported (run_trace lib info d) = [- EINVAL] \<and>
      list_all (\<lambda>v. v = - EINVAL) (checked (run_trace lib info d))) \<and>
   (case_id info = 263 \<longrightarrow>
      switch_case_number lib (info\<lparr>num_type := tag\<rparr>) w = switch_case_number lib info w)"
proof (intro conjI impI)
  assume u: "unsupported info"
  show "run_ret lib info d = - EINVAL" "run_dev lib info d = d"
    "lib_calls (run_trace lib info d) = []" "reported (run_trace lib info d) = [- EINVAL]"
    "list_all (\<lambda>v. v = - EINVAL) (checked (run_trace lib info d))"
    using unsupported_run [OF u, of d lib]
    by (simp_all add: invalid_run_def run_ret_def run_dev_def run_trace_def)
next
  assume "case_id info = 263"
  then show "switch_case_number lib (info\<lparr>num_type := tag\<rparr>) w = switch_case_number lib info w"
    by (simp add: switch_case_number_def ARA_263_get_count_def)
qed

theorem C5_unsupported_mode_witness:
  "unsupported (test_info 271 ''m'' 4 0 1 2) \<and>
   run_ret honest_lib (test_info 271 ''m'' 4 0 1 2) fresh_dev = - EINVAL \<and>
   run_dev honest_lib (test_info 271 ''m'' 4 0 1 2) fresh_dev = fresh_dev \<and>
   lib_calls (run_trace honest_lib (test_info 271 ''m'' 4 0 1 2) fresh_dev) = [] \<and>
   reported (run_trace honest_lib (test_info 271 ''m'' 4 0 1 2) fresh_dev) = [- EINVAL]"
proof -
  have h: "unsupported (test_info 271 ''m'' 4 0 1 2)"
    by (simp add: unsupported_def recognized_def tags_of_def tag_evaluation)
  show ?thesis
    using h C5_unsupported_mode_no_calls [of "test_info 271 ''m'' 4 0 1 2" honest_lib fresh_dev]
    by simp
qed

subsection \<open>What is reported, and when a read-back text is compared\<close>

text \<open>
  C1.  Every recognized test case calls \<^verbatim>\<open>print_test_result\<close> exactly once.  What follows
  that call is the recovery phase and nothing else: deactivation calls only, one in single
  and in multiple mode, one for each line in the all-lines mode of ARA-272, none in ARA-263
  and ARA-267 (which have no recovery phase) and none in an unsupported mode.  So the
  events before the call are the main sequence, and the value printed is the result of
  its last step: the return code of the last library call or, when that call was a
  successful read that is verified, the outcome of its comparison.  Results of earlier
  steps do not enter it.  In an unsupported mode the value is \<^verbatim>\<open>-EINVAL\<close>.  In a supported
  mode the main sequence makes at least one library call; the one exception is ARA-272 in
  all-lines mode on a controller without lines, where no step runs and the value printed
  is the initial 0.

  In ARA-416 under single addressing the eight library calls are fixed, and the printed
  value is decided by the final read of the edge type alone: whatever the trace before it
  holds (so also after a mismatch of the intermediate \<open>none\<close> check), a final read that
  succeeds with a text equal to \<open>both\<close> prints 0, and only the deactivation follows.
\<close>

theorem C1_last_step_result_reported:
  assumes "case_id info \<in> recognized"
  shows "reported (run_trace lib info d) =
           [if unsupported info then - EINVAL
            else step_result 0 (before_result (run_trace lib info d))] \<and>
         list_all is_release (after_result (run_trace lib info d)) \<and>
         length (after_result (run_trace lib info d)) =
           (if unsupported info \<or> case_id info = 263 \<or> case_id info = 267 then 0
            else if case_id info = 272 \<and> num_type_is info ''a'' then unat (max_count info)
            else 1) \<and>
         (lib_calls (before_result (run_trace lib info d)) = []) =
           (unsupported info \<or>
            case_id info = 272 \<and> num_type_is info ''a'' \<and> max_count info = 0) \<and>
         (case_id info = 416 \<and> num_type_is info ''s'' \<longrightarrow>
            lib_calls (run_trace lib info d) =
              [ActivateGpioPin 416 (unat (base_pin info) + unat (gpio_pin1 info)),
               SetGpioDirection 416 (unat (base_pin info) + unat (gpio_pin1 info)) ''out'' 8,
               SetGpioValue 416 (unat (base_pin info) + unat (gpio_pin1 info)) ''1'' 8,
               SetGpioEdge 416 (unat (base_pin info) + unat (gpio_pin1 info)) ''none'' 8,
               GetGpioEdge 416 (unat (base_pin info) + unat (gpio_pin1 info)) 8,
               SetGpioEdge 416 (unat (base_pin info) + unat (gpio_pin1 info)) ''both'' 8,
               GetGpioEdge 416 (unat (base_pin info) + unat (gpio_pin1 info)) 8,
               DeactivateGpioPin 416 (unat (base_pin info) + unat (gpio_pin1 info))] \<and>
            (\<exists>pre rc txt rc' txt'.
               run_trace lib info d =
                 pre @
                 [LibCall (GetGpioEdge 416 (unat (base_pin info) + unat (gpio_pin1 info)) 8) rc txt] @
                 (if rc = 0 then [Strcmp txt ''both''] else []) @
                 [PrintTestResult 416 (if rc = 0 then strcmp txt ''both'' else rc),
                  LibCall (DeactivateGpioPin 416 (unat (base_pin info) + unat (gpio_pin1 info)))
                    rc' txt']))"
proof -
  let ?l = "unat (base_pin info) + unat (gpio_pin1 info)"
  have one: "reported (run_trace lib info d) =
          [if unsupported info then - EINVAL
           else step_result 0 (before_result (run_trace lib info d))]"
  proof (cases "unsupported info")
    case True
    then show ?thesis
      using unsupported_run [OF True, of d lib] by (simp add: invalid_run_def run_trace_def)
  next
    case False
    then show ?thesis
      using run_result_supported [OF assms False, of lib d] by simp
  qed
  have calls: "lib_calls (run_trace lib info d) =
      [ActivateGpioPin 416 ?l, SetGpioDirection 416 ?l ''out'' 8, SetGpioValue 416 ?l ''1'' 8,
       SetGpioEdge 416 ?l ''none'' 8, GetGpioEdge 416 ?l 8, SetGpioEdge 416 ?l ''both'' 8,
       GetGpioEdge 416 ?l 8, DeactivateGpioPin 416 ?l]"
    if a: "case_id info = 416 \<and> num_type_is info ''s''"
    using a
    by (simp add: run_trace_def run_case ARA_416_none_to_both_def Let_def line_def wrappers
        frame_sel)
  have shape: "\<exists>pre rc txt rc' txt'.
      run_trace lib info d =
        pre @ [LibCall (GetGpioEdge 416 ?l 8) rc txt] @
        (if rc = 0 then [Strcmp txt ''both''] else []) @
        [PrintTestResult 416 (if rc = 0 then strcmp txt ''both'' else rc),
         LibCall (DeactivateGpioPin 416 ?l) rc' txt']"
    if a: "case_id info = 416 \<and> num_type_is info ''s''"
  proof -
    have "\<exists>s. run_trace lib info d =
            snd (snd (leave (call_ret lib (DeactivateGpioPin 416 ?l) (print_test_result 416
              (if_not_ret (strcmp_buf ''both'') (call_buf lib (GetGpioEdge 416 ?l 8) s))))))"
      using a
      by (auto simp: run_trace_def run_case ARA_416_none_to_both_def Let_def line_def
          deactivate_gpio_pin_def get_gpio_edge_def)
    then obtain s where "run_trace lib info d =
            snd (snd (leave (call_ret lib (DeactivateGpioPin 416 ?l) (print_test_result 416
              (if_not_ret (strcmp_buf ''both'') (call_buf lib (GetGpioEdge 416 ?l 8) s))))))" ..
    then show ?thesis
      using final_verify_release [of lib "DeactivateGpioPin 416 ?l" 416 "''both''"
          "GetGpioEdge 416 ?l 8" s]
      by simp
  qed
  show ?thesis
    using one run_phases [OF assms, of lib d] calls shape by blast
qed

text \<open>
  On a controller stuck at edge type \<open>both\<close> the intermediate check of \<open>none\<close> fails
  (the fifth \<^verbatim>\<open>check_step_result\<close> gets \<open>-12\<close>), and the printed result is 0: the result
  of the final comparison, after which only the deactivation follows.
\<close>

theorem C1_last_step_result_witness:
  "case_id (test_info 416 ''s'' 4 0 1 2) \<in> recognized \<and>
   checked (run_trace (stuck_lib ''both'') (test_info 416 ''s'' 4 0 1 2) ()) =
     [0, 0, 0, 0, - 12, 0] \<and>
   reported (run_trace (stuck_lib ''both'') (test_info 416 ''s'' 4 0 1 2) ()) = [0] \<and>
   after_result (run_trace (stuck_lib ''both'') (test_info 416 ''s'' 4 0 1 2) ()) =
     [LibCall (DeactivateGpioPin 416 100) 0 []]"
proof -
  have h: "case_id (test_info 416 ''s'' 4 0 1 2) \<in> recognized"
    by (simp add: recognized_def)
  have c: "checked (run_trace (stuck_lib ''both'') (test_info 416 ''s'' 4 0 1 2) ()) =
             [0, 0, 0, 0, - 12, 0]"
    by (simp add: run_eval ARA_416_none_to_both_def)
  have u: "\<not> unsupported (test_info 416 ''s'' 4 0 1 2)"
    by (simp add: unsupported_def tags_of_def tag_evaluation)
  have b: "step_result 0
             (before_result (run_trace (stuck_lib ''both'') (test_info 416 ''s'' 4 0 1 2) ())) = 0"
    by (simp add: run_eval ARA_416_none_to_both_def before_result_def)
  have a: "after_result (run_trace (stuck_lib ''both'') (test_info 416 ''s'' 4 0 1 2) ()) =
             [LibCall (DeactivateGpioPin 416 100) 0 []]"
    by (simp add: run_eval ARA_416_none_to_both_def after_result_def)
  have r: "reported (run_trace (stuck_lib ''both'') (test_info 416 ''s'' 4 0 1 2) ()) = [0]"
    using u b C1_last_step_result_reported [OF h, of "stuck_lib ''both''" "()"] by simp
  show ?thesis
    using h c a r by simp
qed

text \<open>
  C9.  In the trace of every run, a comparison \<^verbatim>\<open>strcmp(buf, expected)\<close> occurs only
  directly after a read call that returned 0, and it compares the text that call
  returned.  After a library call that failed, no comparison follows, and a value
  reported next (to \<^verbatim>\<open>check_step_result\<close> or \<^verbatim>\<open>print_test_result\<close>) is that call's
  return code, never the outcome of a comparison.
\<close>

theorem C9_compare_only_after_successful_read:
  "(\<forall>i a b. i < length (run_trace lib info d) \<and> run_trace lib info d ! i = Strcmp a b \<longrightarrow>
      0 < i \<and> (\<exists>c. is_read c \<and> run_trace lib info d ! (i - 1) = LibCall c 0 a)) \<and>
   (\<forall>i c rc txt.
      Suc i < length (run_trace lib info d) \<and> run_trace lib info d ! i = LibCall c rc txt \<and>
      rc \<noteq> 0 \<longrightarrow>
      (\<forall>a b. run_trace lib info d ! Suc i \<noteq> Strcmp a b) \<and>
      (\<forall>cid v. run_trace lib info d ! Suc i = CheckStepResult cid v \<or>
               run_trace lib info d ! Suc i = PrintTestResult cid v \<longrightarrow> v = rc))"
proof -
  let ?tr = "run_trace lib info d"
  have g: "guarded_from None ?tr"
    using run_guarded [of lib info d] by (simp add: compare_guarded_def)
  have first: "0 < i \<and> (\<exists>c. is_read c \<and> ?tr ! (i - 1) = LibCall c 0 a)"
    if "i < length ?tr" and "?tr ! i = Strcmp a b" for i a b
  proof -
    have s: "step_check (if i = 0 then None else Some (?tr ! (i - 1))) (Strcmp a b)"
      using guarded_from_nth [OF g that(1)] that(2) by simp
    then have "i \<noteq> 0" by (cases "i = 0") simp_all
    with s have "step_check (Some (?tr ! (i - 1))) (Strcmp a b)" by simp
    then have "\<exists>c. is_read c \<and> ?tr ! (i - 1) = LibCall c 0 a"
      by (cases "?tr ! (i - 1)") auto
    with \<open>i \<noteq> 0\<close> show ?thesis by simp
  qed
  have second: "(\<forall>a b. ?tr ! Suc i \<noteq> Strcmp a b) \<and>
      (\<forall>cid v. ?tr ! Suc i = CheckStepResult cid v \<or> ?tr ! Suc i = PrintTestResult cid v \<longrightarrow> v = rc)"
    if "Suc i < length ?tr" and "?tr ! i = LibCall c rc tx" and "rc \<noteq> 0" for i c rc tx
  proof -
    have "step_check (Some (LibCall c rc tx)) (?tr ! Suc i)"
      using guarded_from_nth [OF g that(1)] that(2) by simp
    with that(3) show ?thesis
      by (cases "?tr ! Suc i") auto
  qed
  show ?thesis
    using first second by blast
qed

text \<open>
  On a controller whose reads fail with \<open>-5\<close>, ARA-281 reports \<open>-5\<close> after each read and
  compares nothing; on the controller stuck at \<open>both\<close>, ARA-416 compares the text read.
\<close>

theorem C9_compare_only_after_successful_read_witness:
  "run_trace failing_reads (test_info 281 ''s'' 4 0 1 2) () ! 6 =
     LibCall (GetGpioDirection 281 100 4) (- 5) [] \<and>
   run_trace failing_reads (test_info 281 ''s'' 4 0 1 2) () ! 7 = CheckStepResult 281 (- 5) \<and>
   run_trace failing_reads (test_info 281 ''s'' 4 0 1 2) () ! 8 =
     LibCall (GetGpioValue 281 100 4) (- 5) [] \<and>
   run_trace failing_reads (test_info 281 ''s'' 4 0 1 2) () ! 9 = PrintTestResult 281 (- 5) \<and>
   run_trace (stuck_lib ''both'') (test_info 416 ''s'' 4 0 1 2) () ! 8 =
     LibCall (GetGpioEdge 416 100 8) 0 ''both'' \<and>
   run_trace (stuck_lib ''both'') (test_info 416 ''s'' 4 0 1 2) () ! 9 = Strcmp ''both'' ''none''"
proof -
  have t: "run_trace failing_reads (test_info 281 ''s'' 4 0 1 2) () =
     [LibCall (ActivateGpioPin 281 100) 0 [], CheckStepResult 281 0,
      LibCall (SetGpioDirection 281 100 ''out'' 4) 0 ''out'', CheckStepResult 281 0,
      LibCall (SetGpioValue 281 100 ''1'' 4) 0 ''1'', CheckStepResult 281 0,
      LibCall (GetGpioDirection 281 100 4) (- 5) [], CheckStepResult 281 (- 5),
      LibCall (GetGpioValue 281 100 4) (- 5) [], PrintTestResult 281 (- 5),
      LibCall (DeactivateGpioPin 281 100) 0 []]"
    by (simp add: run_eval ARA_281_set_value_high_def)
  have u: "run_trace (stuck_lib ''both'') (test_info 416 ''s'' 4 0 1 2) () =
     [LibCall (ActivateGpioPin 416 100) 0 [], CheckStepResult 416 0,
      LibCall (SetGpioDirection 416 100 ''out'' 8) 0 ''out'', CheckStepResult 416 0,
      LibCall (SetGpioValue 416 100 ''1'' 8) 0 ''1'', CheckStepResult 416 0,
      LibCall (SetGpioEdge 416 100 ''none'' 8) 0 ''none'', CheckStepResult 416 0,
      LibCall (GetGpioEdge 416 100 8) 0 ''both'', Strcmp ''both'' ''none'',
      CheckStepResult 416 (- 12),
      LibCall (SetGpioEdge 416 100 ''both'' 8) 0 ''both'', CheckStepResult 416 0,
      LibCall (GetGpioEdge 416 100 8) 0 ''both'', Strcmp ''both'' ''both'',
      PrintTestResult 416 0, LibCall (DeactivateGpioPin 416 100) 0 []]"
    by (simp add: run_eval ARA_416_none_to_both_def)
  show ?thesis
    using C9_compare_only_after_successful_read [of failing_reads "test_info 281 ''s'' 4 0 1 2" "()"]
      C9_compare_only_after_successful_read [of "stuck_lib ''both''" "test_info 416 ''s'' 4 0 1 2" "()"]
    by (simp add: t u)
qed

subsection \<open>Which lines a test case addresses\<close>

text \<open>
  C6.  Addressing is relative to the base pin and keeps the order of the offsets.  Under
  single addressing every library call of a test case addresses the one line
  \<open>base_pin + gpio_pin1\<close>.  Under multiple addressing the lines addressed, read off the
  calls in order, repeat the triple \<open>base_pin + gpio_pin1\<close>, \<open>base_pin + gpio_pin2\<close>,
  \<open>base_pin + gpio_pin3\<close>; nothing is removed when offsets coincide.  ARA-263 only
  queries the line count and addresses no line.  The tag is
  compared without regard to case: a branch for \<open>s\<close> is taken exactly for the texts
  \<open>s\<close> and \<open>S\<close>, and likewise for \<open>m\<close> and \<open>a\<close>.
\<close>

theorem C6_addressing_resolution:
  "(case_id info \<in> recognized \<and> case_id info \<noteq> 263 \<and> num_type_is info ''s'' \<longrightarrow>
      set (lines_touched (run_trace lib info d)) = {unat (base_pin info) + unat (gpio_pin1 info)}) \<and>
   (case_id info = 263 \<longrightarrow> lines_touched (run_trace lib info d) = []) \<and>
   (case_id info \<in> {264, 267, 270, 272, 273, 276, 279} \<and> num_type_is info ''m'' \<longrightarrow>
      lines_touched (run_trace lib info d) \<noteq> [] \<and>
      triples_of (unat (base_pin info) + unat (gpio_pin1 info))
        (unat (base_pin info) + unat (gpio_pin2 info))
        (unat (base_pin info) + unat (gpio_pin3 info)) (lines_touched (run_trace lib info d))) \<and>
   (num_type_is info ''s'' \<longleftrightarrow> cstring (num_type info) = ''s'' \<or> cstring (num_type info) = ''S'') \<and>
   (num_type_is info ''m'' \<longleftrightarrow> cstring (num_type info) = ''m'' \<or> cstring (num_type info) = ''M'') \<and>
   (num_type_is info ''a'' \<longleftrightarrow> cstring (num_type info) = ''a'' \<or> cstring (num_type info) = ''A'')"
proof (intro conjI impI)
  assume "case_id info \<in> recognized \<and> case_id info \<noteq> 263 \<and> num_type_is info ''s''"
  then show "set (lines_touched (run_trace lib info d)) =
      {unat (base_pin info) + unat (gpio_pin1 info)}"
    using run_single [of info lib d] by (simp add: line_def)
next
  assume "case_id info = 263"
  then show "lines_touched (run_trace lib info d) = []"
    by (simp add: run_trace_def switch_case_number_def ARA_263_calls lines_touched_def)
next
  assume m: "case_id info \<in> {264, 267, 270, 272, 273, 276, 279} \<and> num_type_is info ''m''"
  then show "lines_touched (run_trace lib info d) \<noteq> []"
    using run_multiple [of info lib d] by blast
  from m show "triples_of (unat (base_pin info) + unat (gpio_pin1 info))
        (unat (base_pin info) + unat (gpio_pin2 info))
        (unat (base_pin info) + unat (gpio_pin3 info)) (lines_touched (run_trace lib info d))"
    using run_multiple [of info lib d] by (simp add: line_def)
qed (rule num_type_is_cstring)+

text \<open>
  ARA-273 with the offsets 3, 3 and 1 under tag \<open>M\<close> addresses line 103 twice in each
  triple; ARA-264 under tag \<open>S\<close> addresses line 102 only.
\<close>

theorem C6_addressing_resolution_witness:
  "lines_touched (run_trace honest_lib (test_info 273 ''M'' 4 3 3 1) fresh_dev) =
     [103, 103, 101, 103, 103, 101, 103, 103, 101, 103, 103, 101] \<and>
   set (lines_touched (run_trace honest_lib (test_info 264 ''S'' 4 2 0 0) fresh_dev)) = {102} \<and>
   cstring (num_type (test_info 264 ''S'' 4 2 0 0)) = ''S''"
proof -
  have m: "num_type_is (test_info 273 ''M'' 4 3 3 1) ''m''"
    and s: "num_type_is (test_info 264 ''S'' 4 2 0 0) ''s''"
    by (rule tag_evaluation)+
  have r: "(264 :: 16 word) \<in> recognized"
    by (simp add: recognized_def)
  have l: "lines_touched (run_trace honest_lib (test_info 273 ''M'' 4 3 3 1) fresh_dev) =
     [103, 103, 101, 103, 103, 101, 103, 103, 101, 103, 103, 101]"
    by (simp add: run_eval ARA_273_multiple_input_def lines_touched_def)
  show ?thesis
    using m s r l
      C6_addressing_resolution [of "test_info 273 ''M'' 4 3 3 1" honest_lib fresh_dev]
      C6_addressing_resolution [of "test_info 264 ''S'' 4 2 0 0" honest_lib fresh_dev]
    by (simp add: cstring_def test_info_def)
qed

text \<open>
  C7.  ARA-274 under single addressing: after the activation the set-direction call is
  made exactly ten times, each for the line \<open>base_pin + gpio_pin1\<close> with the text
  \<open>in\<close>; then the direction of that line is read exactly once, the text read is compared
  with \<open>in\<close> when the read succeeded, and the outcome (or the read's error code) is the
  value printed; the line is deactivated last.
\<close>

theorem C7_ten_set_direction_calls:
  assumes "case_id info = 274" and "num_type_is info ''s''"
  shows "lib_calls (run_trace lib info d) =
           ActivateGpioPin 274 (unat (base_pin info) + unat (gpio_pin1 info)) #
           replicate 10 (SetGpioDirection 274 (unat (base_pin info) + unat (gpio_pin1 info)) ''in'' 4) @
           [GetGpioDirection 274 (unat (base_pin info) + unat (gpio_pin1 info)) 4,
            DeactivateGpioPin 274 (unat (base_pin info) + unat (gpio_pin1 info))] \<and>
         (\<exists>pre rc txt post.
            run_trace lib info d =
              pre @
              [LibCall (GetGpioDirection 274 (unat (base_pin info) + unat (gpio_pin1 info)) 4) rc txt] @
              (if rc = 0 then [Strcmp txt ''in''] else []) @
              PrintTestResult 274 (if rc = 0 then strcmp txt ''in'' else rc) # post)"
proof
  let ?l = "unat (base_pin info) + unat (gpio_pin1 info)"
  have ten: "replicate 10 x = [x, x, x, x, x, x, x, x, x, x]" for x :: lib_call
    by (simp add: eval_nat_numeral)
  show "lib_calls (run_trace lib info d) =
      ActivateGpioPin 274 ?l # replicate 10 (SetGpioDirection 274 ?l ''in'' 4) @
      [GetGpioDirection 274 ?l 4, DeactivateGpioPin 274 ?l]"
    using assms
    by (simp add: ten run_trace_def run_case ARA_274_multiple_times_input_def Let_def wrappers
        frame_sel for_loop_ten line_def)
  have "\<exists>s. run_trace lib info d =
          snd (snd (leave (call_ret lib (DeactivateGpioPin 274 ?l) (print_test_result 274
            (if_not_ret (strcmp_buf ''in'') (call_buf lib (GetGpioDirection 274 ?l 4) s))))))"
    using assms
    by (auto simp: run_trace_def run_case ARA_274_multiple_times_input_def Let_def line_def
        deactivate_gpio_pin_def get_gpio_direction_def)
  then obtain s where "run_trace lib info d =
          snd (snd (leave (call_ret lib (DeactivateGpioPin 274 ?l) (print_test_result 274
            (if_not_ret (strcmp_buf ''in'') (call_buf lib (GetGpioDirection 274 ?l 4) s))))))" ..
  then show "\<exists>pre rc txt post.
      run_trace lib info d =
        pre @ [LibCall (GetGpioDirection 274 ?l 4) rc txt] @
        (if rc = 0 then [Strcmp txt ''in''] else []) @
        PrintTestResult 274 (if rc = 0 then strcmp txt ''in'' else rc) # post"
    using final_verify_trace [of lib "DeactivateGpioPin 274 ?l" 274 "''in''"
        "GetGpioDirection 274 ?l 4" s]
    by simp
qed

text \<open>The run of ARA-274 for offset 2 on the controller that honours writes.\<close>

theorem C7_ten_set_direction_calls_witness:
  "run_trace honest_lib (test_info 274 ''s'' 4 2 0 0) fresh_dev =
     [LibCall (ActivateGpioPin 274 102) 0 [], CheckStepResult 274 0,
      LibCall (SetGpioDirection 274 102 ''in'' 4) 0 ''in'',
      LibCall (SetGpioDirection 274 102 ''in'' 4) 0 ''in'',
      LibCall (SetGpioDirection 274 102 ''in'' 4) 0 ''in'',
      LibCall (SetGpioDirection 274 102 ''in'' 4) 0 ''in'',
      LibCall (SetGpioDirection 274 102 ''in'' 4) 0 ''in'',
      LibCall (SetGpioDirection 274 102 ''in'' 4) 0 ''in'',
      LibCall (SetGpioDirection 274 102 ''in'' 4) 0 ''in'',
      LibCall (SetGpioDirection 274 102 ''in'' 4) 0 ''in'',
      LibCall (SetGpioDirection 274 102 ''in'' 4) 0 ''in'',
      LibCall (SetGpioDirection 274 102 ''in'' 4) 0 ''in'', CheckStepResult 274 0,
      LibCall (GetGpioDirection 274 102 4) 0 ''in'', Strcmp ''in'' ''in'',
      PrintTestResult 274 0, LibCall (DeactivateGpioPin 274 102) 0 []] \<and>
   lib_calls (run_trace honest_lib (test_info 274 ''s'' 4 2 0 0) fresh_dev) =
     ActivateGpioPin 274 102 # replicate 10 (SetGpioDirection 274 102 ''in'' 4) @
     [GetGpioDirection 274 102 4, DeactivateGpioPin 274 102]"
proof -
  have c: "case_id (test_info 274 ''s'' 4 2 0 0) = 274"
    and s: "num_type_is (test_info 274 ''s'' 4 2 0 0) ''s''"
    by (simp_all add: tag_evaluation)
  have t: "run_trace honest_lib (test_info 274 ''s'' 4 2 0 0) fresh_dev =
     [LibCall (ActivateGpioPin 274 102) 0 [], CheckStepResult 274 0,
      LibCall (SetGpioDirection 274 102 ''in'' 4) 0 ''in'',
      LibCall (SetGpioDirection 274 102 ''in'' 4) 0 ''in'',
      LibCall (SetGpioDirection 274 102 ''in'' 4) 0 ''in'',
      LibCall (SetGpioDirection 274 102 ''in'' 4) 0 ''in'',
      LibCall (SetGpioDirection 274 102 ''in'' 4) 0 ''in'',
      LibCall (SetGpioDirection 274 102 ''in'' 4) 0 ''in'',
      LibCall (SetGpioDirection 274 102 ''in'' 4) 0 ''in'',
      LibCall (SetGpioDirection 274 102 ''in'' 4) 0 ''in'',
      LibCall (SetGpioDirection 274 102 ''in'' 4) 0 ''in'',
      LibCall (SetGpioDirection 274 102 ''in'' 4) 0 ''in'', CheckStepResult 274 0,
      LibCall (GetGpioDirection 274 102 4) 0 ''in'', Strcmp ''in'' ''in'',
      PrintTestResult 274 0, LibCall (DeactivateGpioPin 274 102) 0 []]"
    by (simp add: run_eval ARA_274_multiple_times_input_def fresh_dev_def)
  have "lib_calls (run_trace honest_lib (test_info 274 ''s'' 4 2 0 0) fresh_dev) =
     ActivateGpioPin 274 102 # replicate 10 (SetGpioDirection 274 102 ''in'' 4) @
     [GetGpioDirection 274 102 4, DeactivateGpioPin 274 102]"
    using C7_ten_set_direction_calls [OF c s, of honest_lib fresh_dev] by simp
  with t show ?thesis by simp
qed

text \<open>
  C8.  Whatever the library calls return, the deactivations that close a run release
  exactly the set of lines the run activated.  Under single addressing that set is the
  line \<open>base_pin + gpio_pin1\<close>, under multiple addressing the three resolved lines, and
  in ARA-272 under all-lines addressing the lines \<open>base_pin\<close> up to
  \<open>base_pin + max_count - 1\<close>.
\<close>

theorem C8_recovery_releases_activated_lines:
  "set (released_lines (run_trace lib info d)) = set (activated_lines (run_trace lib info d)) \<and>
   (case_id info \<in> recognized \<and> case_id info \<noteq> 263 \<and> num_type_is info ''s'' \<longrightarrow>
      set (activated_lines (run_trace lib info d)) =
        {unat (base_pin info) + unat (gpio_pin1 info)}) \<and>
   (case_id info \<in> {264, 267, 270, 272, 273, 276, 279} \<and> num_type_is info ''m'' \<longrightarrow>
      activated_lines (run_trace lib info d) =
        [unat (base_pin info) + unat (gpio_pin1 info), unat (base_pin info) + unat (gpio_pin2 info),
         unat (base_pin info) + unat (gpio_pin3 info)]) \<and>
   (case_id info = 272 \<and> num_type_is info ''a'' \<longrightarrow>
      activated_lines (run_trace lib info d) =
        [unat (base_pin info)..<unat (base_pin info) + unat (max_count info)])"
proof (intro conjI impI)
  show "set (released_lines (run_trace lib info d)) = set (activated_lines (run_trace lib info d))"
    by (rule run_recovery)
next
  assume "case_id info \<in> recognized \<and> case_id info \<noteq> 263 \<and> num_type_is info ''s''"
  then show "set (activated_lines (run_trace lib info d)) =
      {unat (base_pin info) + unat (gpio_pin1 info)}"
    using run_single [of info lib d] by (simp add: line_def)
next
  assume "case_id info \<in> {264, 267, 270, 272, 273, 276, 279} \<and> num_type_is info ''m''"
  then show "activated_lines (run_trace lib info d) =
      [unat (base_pin info) + unat (gpio_pin1 info), unat (base_pin info) + unat (gpio_pin2 info),
       unat (base_pin info) + unat (gpio_pin3 info)]"
    using run_multiple [of info lib d] by (simp add: line_def)
next
  assume "case_id info = 272 \<and> num_type_is info ''a''"
  then show "activated_lines (run_trace lib info d) =
      [unat (base_pin info)..<unat (base_pin info) + unat (max_count info)]"
    using ARA_272_all [of info lib d] by (simp add: run_trace_def run_case)
qed

text \<open>
  ARA-281 on the controller whose reads fail: both verifications fail, and line 100 is
  activated and released all the same.
\<close>

theorem C8_recovery_releases_activated_lines_witness:
  "reported (run_trace failing_reads (test_info 281 ''s'' 4 0 1 2) ()) = [- 5] \<and>
   activated_lines (run_trace failing_reads (test_info 281 ''s'' 4 0 1 2) ()) = [100] \<and>
   released_lines (run_trace failing_reads (test_info 281 ''s'' 4 0 1 2) ()) = [100]"
proof -
  have r: "(281 :: 16 word) \<in> recognized"
    by (simp add: recognized_def)
  have s: "num_type_is (test_info 281 ''s'' 4 0 1 2) ''s''"
    by (rule tag_evaluation)
  have t: "reported (run_trace failing_reads (test_info 281 ''s'' 4 0 1 2) ()) = [- 5]"
    "activated_lines (run_trace failing_reads (test_info 281 ''s'' 4 0 1 2) ()) = [100]"
    "released_lines (run_trace failing_reads (test_info 281 ''s'' 4 0 1 2) ()) = [100]"
    by (simp_all add: run_eval ARA_281_set_value_high_def activated_lines_def released_lines_def
        closing_deactivations_def)
  show ?thesis
    using r s t C8_recovery_releases_activated_lines [of failing_reads "test_info 281 ''s'' 4 0 1 2" "()"]
    by simp
qed

text \<open>
  C3.  As stated the claim fails: with a line count of 0 the all-lines loops of ARA-272
  run zero times, \<^verbatim>\<open>ret\<close> keeps its initial 0, and the test case prints and returns 0
  (a pass), not \<^verbatim>\<open>-EINVAL\<close>.
\<close>

theorem C3_zero_lines_counterexample:
  "num_type_is (test_info 272 ''a'' 0 0 1 2) ''a'' \<and>
   max_count (test_info 272 ''a'' 0 0 1 2) = 0 \<and>
   run_ret honest_lib (test_info 272 ''a'' 0 0 1 2) fresh_dev = 0 \<and>
   run_ret honest_lib (test_info 272 ''a'' 0 0 1 2) fresh_dev \<noteq> - EINVAL \<and>
   run_trace honest_lib (test_info 272 ''a'' 0 0 1 2) fresh_dev =
     [CheckStepResult 272 0, PrintTestResult 272 0]"
  by (simp add: run_eval ARA_272_all_direction_def report_defs EINVAL_def)

text \<open>
  C3, amended.  Under all-lines addressing ARA-272 activates, reads and deactivates
  exactly the lines \<open>base_pin\<close>, \<open>base_pin + 1\<close>, ..., \<open>base_pin + max_count - 1\<close>, each
  pass in ascending order; when the line count is 0 it makes no library call and prints
  and returns 0.
\<close>

theorem C3_all_lines_in_order:
  assumes "case_id info = 272" and "num_type_is info ''a''"
  shows "lib_calls (run_trace lib info d) =
           map (ActivateGpioPin 272)
             [unat (base_pin info)..<unat (base_pin info) + unat (max_count info)] @
           map (\<lambda>p. GetGpioDirection 272 p 4)
             [unat (base_pin info)..<unat (base_pin info) + unat (max_count info)] @
           map (DeactivateGpioPin 272)
             [unat (base_pin info)..<unat (base_pin info) + unat (max_count info)] \<and>
         (unat (max_count info) = 0 \<longrightarrow>
            lib_calls (run_trace lib info d) = [] \<and> run_ret lib info d = 0 \<and>
            reported (run_trace lib info d) = [0])"
proof (intro conjI impI)
  show c: "lib_calls (run_trace lib info d) =
           map (ActivateGpioPin 272)
             [unat (base_pin info)..<unat (base_pin info) + unat (max_count info)] @
           map (\<lambda>p. GetGpioDirection 272 p 4)
             [unat (base_pin info)..<unat (base_pin info) + unat (max_count info)] @
           map (DeactivateGpioPin 272)
             [unat (base_pin info)..<unat (base_pin info) + unat (max_count info)]"
    using assms ARA_272_all_calls [of info lib d] by (simp add: run_trace_def run_case)
  assume z: "unat (max_count info) = 0"
  with c show "lib_calls (run_trace lib info d) = []" by simp
  from z assms show "run_ret lib info d = 0"
    by (simp add: run_ret_def run_case ARA_272_all_direction_def Let_def for_loop_done
        report_defs)
  from z assms show "reported (run_trace lib info d) = [0]"
    by (simp add: run_trace_def run_case ARA_272_all_direction_def Let_def for_loop_done
        report_defs)
qed

text \<open>ARA-272 under tag \<open>A\<close> with three lines from base pin 100.\<close>

theorem C3_all_lines_in_order_witness:
  "lib_calls (run_trace honest_lib (test_info 272 ''A'' 3 0 1 2) fresh_dev) =
     [ActivateGpioPin 272 100, ActivateGpioPin 272 101, ActivateGpioPin 272 102,
      GetGpioDirection 272 100 4, GetGpioDirection 272 101 4, GetGpioDirection 272 102 4,
      DeactivateGpioPin 272 100, DeactivateGpioPin 272 101, DeactivateGpioPin 272 102] \<and>
   run_ret honest_lib (test_info 272 ''a'' 0 0 1 2) fresh_dev = 0"
proof -
  have c: "case_id (test_info 272 ''A'' 3 0 1 2) = 272" "case_id (test_info 272 ''a'' 0 0 1 2) = 272"
    by simp_all
  have a: "num_type_is (test_info 272 ''A'' 3 0 1 2) ''a''" "num_type_is (test_info 272 ''a'' 0 0 1 2) ''a''"
    by (rule tag_evaluation)+
  have u: "[100..<103] = [100, 101, 102 :: nat]"
    by (simp add: upt_rec)
  show ?thesis
    using C3_all_lines_in_order [OF c(1) a(1), of honest_lib fresh_dev]
      C3_all_lines_in_order [OF c(2) a(2), of honest_lib fresh_dev]
    by (simp add: u)
qed

subsection \<open>The return value and the exit status\<close>

lemma main_dispatch:
  assumes "3 \<le> argc" and "command_parse default_params opts t = Some (0, info0, t')"
    and "check_gpio d = ((0, b, n), d')"
  shows "map_option fst (main lib check_gpio argc opts (d, t)) =
           Some (fst (switch_case_number lib
             (info0\<lparr>base_pin := word_of_int b, max_count := word_of_int n\<rparr>)
             (d', t' @ [CheckGreybusGpio 0 b n, CheckStepResult (case_id info0) 0])))"
  using assms by (simp add: main_def Let_def split_beta)

text \<open>Where the parser has no defined result.\<close>

lemma command_parse_long_tag:
  "2 \<le> strlen tag \<Longrightarrow> command_parse info ((CHR ''t'', tag) # rest) t = None"
  by simp

lemma command_parse_large_number:
  "\<not> atoi_defined number \<Longrightarrow> command_parse info ((CHR ''c'', number) # rest) t = None"
  by simp

lemma main_undefined:
  "3 \<le> argc \<Longrightarrow> command_parse default_params opts t = None \<Longrightarrow>
     main lib check_gpio argc opts (d, t) = None"
  by (simp add: main_def)

text \<open>
  C10.  An unrecognized case identifier and an addressing tag the test case has no branch
  for give the same number: in both cases the dispatcher returns \<^verbatim>\<open>-EINVAL\<close>, and so does
  \<^verbatim>\<open>main\<close> (the exit status) when it has got as far as the dispatch, that is when there
  are at least three arguments, the options parse with result 0, and the discovery call
  succeeds.  An option list for which the parser has no defined result (a tag of two or
  more characters, a number that does not fit an \<^verbatim>\<open>int\<close>) does not parse with result 0,
  so the statement says nothing about it.
\<close>

theorem C10_unknown_case_and_unsupported_mode_same_code:
  assumes "case_id info \<notin> recognized \<or> unsupported info"
  shows "fst (switch_case_number lib info w) = - EINVAL \<and>
         (3 \<le> argc \<and> command_parse default_params opts t = Some (0, info0, t') \<and>
          check_gpio d = ((0, b, n), d') \<and>
          info = info0\<lparr>base_pin := word_of_int b, max_count := word_of_int n\<rparr> \<longrightarrow>
          map_option fst (main lib check_gpio argc opts (d, t)) = Some (- EINVAL))"
proof -
  have r: "fst (switch_case_number lib info v) = - EINVAL" for v
    using assms unsupported_ret [of info lib v] by (auto simp: switch_case_number_default)
  show ?thesis
    using r by (auto simp: main_dispatch)
qed

text \<open>
  Case 999 with tag \<open>s\<close> and case 271 with tag \<open>m\<close>, each from the command line of
  \<^verbatim>\<open>main\<close>: the exit status is \<open>-22\<close> both times.
\<close>

theorem C10_unknown_case_and_unsupported_mode_witness:
  "map_option fst (main honest_lib (found_gpio 100 4) 5
     [(CHR ''c'', ''999''), (CHR ''t'', ''s'')] (fresh_dev, [])) = Some (- 22) \<and>
   map_option fst (main honest_lib (found_gpio 100 4) 5
     [(CHR ''c'', ''271''), (CHR ''t'', ''m'')] (fresh_dev, [])) = Some (- 22) \<and>
   run_ret honest_lib (test_info 999 ''s'' 4 0 0 0) fresh_dev = - 22 \<and>
   run_ret honest_lib (test_info 271 ''m'' 4 0 0 0) fresh_dev = - 22"
proof -
  let ?i1 = "default_params\<lparr>case_id := 999, num_type := ''s''\<rparr>"
  let ?i2 = "default_params\<lparr>case_id := 271, num_type := ''m''\<rparr>"
  let ?o1 = "[(CHR ''c'', ''999''), (CHR ''t'', ''s'')]"
  let ?o2 = "[(CHR ''c'', ''271''), (CHR ''t'', ''m'')]"
  have h1: "case_id (test_info 999 ''s'' 4 0 0 0) \<notin> recognized \<or>
      unsupported (test_info 999 ''s'' 4 0 0 0)"
    by (simp add: recognized_def)
  have h2: "case_id (test_info 271 ''m'' 4 0 0 0) \<notin> recognized \<or>
      unsupported (test_info 271 ''m'' 4 0 0 0)"
    by (simp add: unsupported_def recognized_def tags_of_def tag_evaluation)
  have p1: "command_parse default_params ?o1 [] = Some (0, ?i1, [])"
    and p2: "command_parse default_params ?o2 [] = Some (0, ?i2, [])"
    by (simp_all add: atoi_defined_def atoi_def isspace_def isdigit_def)
  have f: "found_gpio 100 4 fresh_dev = ((0, 100, 4), fresh_dev)"
    by (simp add: found_gpio_def)
  have e1: "test_info 999 ''s'' 4 0 0 0 = ?i1\<lparr>base_pin := word_of_int 100, max_count := word_of_int 4\<rparr>"
    and e2: "test_info 271 ''m'' 4 0 0 0 = ?i2\<lparr>base_pin := word_of_int 100, max_count := word_of_int 4\<rparr>"
    by (simp_all add: test_info_def default_params_def)
  have t1: "fst (switch_case_number honest_lib (test_info 999 ''s'' 4 0 0 0) (fresh_dev, [])) = - EINVAL \<and>
      map_option fst (main honest_lib (found_gpio 100 4) 5 ?o1 (fresh_dev, [])) = Some (- EINVAL)"
    using C10_unknown_case_and_unsupported_mode_same_code [OF h1, of honest_lib "(fresh_dev, [])"
        5 ?o1 "[]" ?i1 "[]" "found_gpio 100 4" fresh_dev 100 4 fresh_dev] p1 f e1
    by simp
  have t2: "fst (switch_case_number honest_lib (test_info 271 ''m'' 4 0 0 0) (fresh_dev, [])) = - EINVAL \<and>
      map_option fst (main honest_lib (found_gpio 100 4) 5 ?o2 (fresh_dev, [])) = Some (- EINVAL)"
    using C10_unknown_case_and_unsupported_mode_same_code [OF h2, of honest_lib "(fresh_dev, [])"
        5 ?o2 "[]" ?i2 "[]" "found_gpio 100 4" fresh_dev 100 4 fresh_dev] p2 f e2
    by simp
  show ?thesis
    using t1 t2 by (simp add: EINVAL_def run_ret_def)
qed

text \<open>
  C2.  The property: the value a test case returns, which \<^verbatim>\<open>main\<close> passes on as the exit
  status, is the result of its main sequence, whatever the recovery deactivation returns.
  The documentation of every test case promises as much (\<^verbatim>\<open>@return 0 on success, error
  code on failure\<close>), and ARA-263 and ARA-267 do return the value they print.  The other
  test cases store the result of the recovery deactivation in the same variable \<^verbatim>\<open>ret\<close>
  and return that.  On a controller whose direction reads \<open>out\<close> whatever is written,
  ARA-273 prints the mismatch 6 and returns 0, and \<^verbatim>\<open>main\<close> exits with 0.  On a
  controller that honours writes but fails to deactivate, ARA-273 prints 0 and returns
  \<open>-5\<close>, and so does \<^verbatim>\<open>main\<close>.
\<close>

theorem C2_recovery_result_is_returned:
  "reported (run_trace (stuck_lib ''out'') (test_info 273 ''s'' 4 0 1 2) ()) = [6] \<and>
   run_ret (stuck_lib ''out'') (test_info 273 ''s'' 4 0 1 2) () = 0 \<and>
   map_option fst (main (stuck_lib ''out'') (found_gpio 100 4) 7
     [(CHR ''c'', ''273''), (CHR ''t'', ''s''), (CHR ''1'', ''0'')] ((), [])) = Some 0 \<and>
   reported (run_trace failing_release (test_info 273 ''s'' 4 0 1 2) fresh_dev) = [0] \<and>
   run_ret failing_release (test_info 273 ''s'' 4 0 1 2) fresh_dev = - 5 \<and>
   map_option fst (main failing_release (found_gpio 100 4) 7
     [(CHR ''c'', ''273''), (CHR ''t'', ''s''), (CHR ''1'', ''0'')] (fresh_dev, [])) = Some (- 5)"
proof -
  have p: "command_parse default_params
      [(CHR ''c'', ''273''), (CHR ''t'', ''s''), (CHR ''1'', ''0'')] [] =
      Some (0, default_params\<lparr>case_id := 273, num_type := ''s'', gpio_pin1 := 0\<rparr>, [])"
    by (simp add: atoi_defined_def atoi_def isspace_def isdigit_def)
  have m: "map_option fst (main lib (found_gpio 100 4) 7
      [(CHR ''c'', ''273''), (CHR ''t'', ''s''), (CHR ''1'', ''0'')] (d, [])) =
      Some (fst (switch_case_number lib (test_info 273 ''s'' 4 0 0 0)
        (d, [CheckGreybusGpio 0 100 4, CheckStepResult 273 0])))" for lib :: "'d gpio_lib" and d
    using main_dispatch [of 7 _ "[]" _ _ "found_gpio 100 4" d 100 4 d lib, OF _ p]
    by (simp add: found_gpio_def test_info_def default_params_def)
  show ?thesis
    by (simp add: m run_eval ARA_273_multiple_input_def failing_release_def fresh_dev_def)
qed

end
